theory Spec2Isabelle
  imports Main "HOL-Library.Char_ord" "HOL-Library.List_Lexorder"
begin

section \<open>Credential store (package auth)\<close>

text \<open>
  The data model of the credential store, as declared in package \<^verbatim>\<open>auth\<close>:
  \<^verbatim>\<open>
  type AuthServer struct { URL string; Users []UserAuth; Name string; Kind string; CurrentUser string }
  type UserAuth   struct { Username string; ApiToken string; BearerToken string }
  type AuthConfig struct { Servers []AuthServer; DefaultUsername string; CurrentServer string }
  \<close>
  Go strings are byte sequences, as \<^typ>\<open>string\<close> is. A slice of structs holds the structs
  by value, so a \<^verbatim>\<open>[]AuthServer\<close> is a list of records.
\<close>

record UserAuth =
  Username :: string
  ApiToken :: string
  BearerToken :: string

record AuthServer =
  URL :: string
  Users :: "UserAuth list"
  Name :: string
  Kind :: string
  CurrentUser :: string

text \<open>
  \<^verbatim>\<open>GenericAuthConfigService.SaveUserAuth\<close> reads and writes two further fields of the
  configuration, \<^verbatim>\<open>PipeLineUsername\<close> and \<^verbatim>\<open>PipeLineServer\<close> (both strings, as the
  test helper \<^verbatim>\<open>createAuthConfig\<close> initialises them); the record carries them too.
\<close>

record AuthConfig =
  Servers :: "AuthServer list"
  DefaultUsername :: string
  CurrentServer :: string
  PipeLineServer :: string
  PipeLineUsername :: string

subsection \<open>The validity check\<close>

text \<open>
  \<^verbatim>\<open>
  func (a *UserAuth) IsInvalid() bool {
      return a.BearerToken == "" && (a.ApiToken == "" || a.Username == "")
  }
  \<close>
\<close>

definition IsInvalid :: "UserAuth \<Rightarrow> bool" where
  "IsInvalid a \<longleftrightarrow> BearerToken a = '''' \<and> (ApiToken a = '''' \<or> Username a = '''')"

subsection \<open>Looking credentials up\<close>

text \<open>
  \<^verbatim>\<open>
  func (c *AuthConfig) FindUserAuths(serverURL string) []UserAuth {
      for _, server := range c.Servers {
          if server.URL == serverURL { return server.Users }
      }
      return []UserAuth{}
  }
  \<close>
  The loop over the servers is the recursion of \<open>FindUserAuths_loop\<close>: the first server
  with the URL decides.
\<close>

fun FindUserAuths_loop :: "AuthServer list \<Rightarrow> string \<Rightarrow> UserAuth list" where
  "FindUserAuths_loop [] serverURL = []"
| "FindUserAuths_loop (server # rest) serverURL =
     (if URL server = serverURL then Users server else FindUserAuths_loop rest serverURL)"

definition FindUserAuths :: "AuthConfig \<Rightarrow> string \<Rightarrow> UserAuth list" where
  "FindUserAuths c serverURL = FindUserAuths_loop (Servers c) serverURL"

text \<open>
  \<^verbatim>\<open>
  func (c *AuthConfig) FindUserAuth(serverURL string, username string) *UserAuth {
      auths := c.FindUserAuths(serverURL)
      if username == "" {
          if len(auths) == 1 { return &auths[0] } else { return nil }
      }
      for _, auth := range auths {
          if auth.Username == username { return &auth }
      }
      return nil
  }
  \<close>
  The result is a pointer or \<^verbatim>\<open>nil\<close>; the model returns the credential pointed to, or
  \<^const>\<open>None\<close>. The second loop returns at the first match, which is \<^const>\<open>find\<close>.
\<close>

definition FindUserAuth :: "AuthConfig \<Rightarrow> string \<Rightarrow> string \<Rightarrow> UserAuth option" where
  "FindUserAuth c serverURL username =
     (let auths = FindUserAuths c serverURL in
      if username = '''' then
        (if length auths = 1 then Some (auths ! 0) else None)
      else find (\<lambda>auth. Username auth = username) auths)"

subsection \<open>Storing a credential\<close>

text \<open>
  \<^verbatim>\<open>
  func (c *AuthConfig) SetUserAuth(url string, auth UserAuth) {
      username := auth.Username
      for i, server := range c.Servers {
          if server.URL == url {
              for j, a := range server.Users {
                  if a.Username == auth.Username {
                      c.Servers[i].Users[j] = auth
                      c.Servers[i].CurrentUser = username
                      return
                  }
              }
              c.Servers[i].Users = append(c.Servers[i].Users, auth)
              c.Servers[i].CurrentUser = username
              return
          }
      }
      c.Servers = append(c.Servers, AuthServer{
          URL: url, Users: []UserAuth{auth}, CurrentUser: username,
      })
  }
  \<close>
  The inner loop over the users is \<open>SetUserAuth_users\<close> (overwrite the first entry with
  the user name, or append), the outer loop over the servers is \<open>SetUserAuth_servers\<close>
  (update the first server with the URL, or append a new server whose \<^verbatim>\<open>Name\<close> and
  \<^verbatim>\<open>Kind\<close> are Go's zero value, the empty string).
\<close>

fun SetUserAuth_users :: "UserAuth list \<Rightarrow> UserAuth \<Rightarrow> UserAuth list" where
  "SetUserAuth_users [] auth = [auth]"
| "SetUserAuth_users (a # rest) auth =
     (if Username a = Username auth then auth # rest else a # SetUserAuth_users rest auth)"

fun SetUserAuth_servers :: "AuthServer list \<Rightarrow> string \<Rightarrow> UserAuth \<Rightarrow> AuthServer list" where
  "SetUserAuth_servers [] url auth =
     [\<lparr>URL = url, Users = [auth], Name = '''', Kind = '''', CurrentUser = Username auth\<rparr>]"
| "SetUserAuth_servers (server # rest) url auth =
     (if URL server = url
      then server\<lparr>Users := SetUserAuth_users (Users server) auth, CurrentUser := Username auth\<rparr> # rest
      else server # SetUserAuth_servers rest url auth)"

definition SetUserAuth :: "AuthConfig \<Rightarrow> string \<Rightarrow> UserAuth \<Rightarrow> AuthConfig" where
  "SetUserAuth c url auth = c\<lparr>Servers := SetUserAuth_servers (Servers c) url auth\<rparr>"

text \<open>
  \<^verbatim>\<open>
  func (s *GenericAuthConfigService) SaveUserAuth(url string, userAuth *UserAuth) error {
      config := s.config
      config.SetUserAuth(url, userAuth)
      user := userAuth.Username
      if user != "" { config.DefaultUsername = user }
      // Set Pipeline user once only.
      if config.PipeLineUsername == "" {
          config.PipeLineUsername = user
          config.PipeLineServer = url
      }
      config.CurrentServer = url
      return s.saver.SaveConfig(s.config)
  }
  \<close>
  The persistence collaborator \<^verbatim>\<open>s.saver\<close> is a parameter: it sees the configuration and
  returns an error or none. The function returns the mutated configuration together with
  the saver's answer; the configuration is mutated whether or not the saver succeeds.
\<close>

type_synonym error = string

definition SaveUserAuth ::
  "(AuthConfig \<Rightarrow> error option) \<Rightarrow> AuthConfig \<Rightarrow> string \<Rightarrow> UserAuth \<Rightarrow> AuthConfig \<times> error option" where
  "SaveUserAuth saver config url userAuth =
     (let config1 = SetUserAuth config url userAuth;
          user = Username userAuth;
          config2 = (if user \<noteq> '''' then config1\<lparr>DefaultUsername := user\<rparr> else config1);
          config3 = (if PipeLineUsername config2 = ''''
                     then config2\<lparr>PipeLineUsername := user, PipeLineServer := url\<rparr>
                     else config2);
          config4 = config3\<lparr>CurrentServer := url\<rparr>
      in (config4, saver config4))"


section \<open>Selection helpers (package git)\<close>

text \<open>
  \<^verbatim>\<open>
  type Organisation struct { Login string }

  type OrganisationLister interface {
      ListOrganisations() ([]Organisation, error)
  }

  // GetOrganizations gets the organisation
  func GetOrganizations(orgLister OrganisationLister, userName string) []string {
      // Always include the username as a pseudo organization
      orgNames := []string{userName}

      orgs, _ := orgLister.ListOrganisations()
      for _, o := range orgs {
          if name := o.Login; name != "" {
              orgNames = append(orgNames, name)
          }
      }
      sort.Strings(orgNames)
      return orgNames
  }
  \<close>
  The lister is an external collaborator; what \<^verbatim>\<open>ListOrganisations\<close> answers, a slice
  together with an error or \<^verbatim>\<open>nil\<close>, is the parameter \<open>listed\<close>; the error is assigned to
  the blank identifier, so the organisations are used whatever it is. \<^verbatim>\<open>sort.Strings\<close> sorts
  in increasing order of Go's \<^verbatim>\<open><\<close> on strings, the lexicographic order on bytes, which
  is the order of \<^typ>\<open>string\<close> here.
\<close>

record Organisation =
  Login :: string

fun GetOrganizations_loop :: "string list \<Rightarrow> Organisation list \<Rightarrow> string list" where
  "GetOrganizations_loop orgNames [] = orgNames"
| "GetOrganizations_loop orgNames (org # orgs) =
     (if Login org \<noteq> '''' then GetOrganizations_loop (orgNames @ [Login org]) orgs
      else GetOrganizations_loop orgNames orgs)"

definition GetOrganizations :: "Organisation list \<times> error option \<Rightarrow> string \<Rightarrow> string list" where
  "GetOrganizations listed userName =
     (let orgNames = [userName];
          orgs = fst listed
      in sort (GetOrganizations_loop orgNames orgs))"

section \<open>Bitbucket Cloud adapter (package bitbucketcloud)\<close>

subsection \<open>Commit statuses\<close>

text \<open>
  \<^verbatim>\<open>
  var stateMap = map[string]string{
      "SUCCESSFUL": "success",
      "FAILED":     "failure",
      "INPROGRESS": "in-progress",
      "STOPPED":    "stopped",
  }
  \<close>
  Indexing a Go map with a key it does not hold gives the zero value of the value type,
  here the empty string; \<open>stateMap_index\<close> is the expression \<^verbatim>\<open>stateMap[k]\<close>.
\<close>

definition stateMap :: "string \<rightharpoonup> string" where
  "stateMap = [''SUCCESSFUL'' \<mapsto> ''success'', ''FAILED'' \<mapsto> ''failure'',
               ''INPROGRESS'' \<mapsto> ''in-progress'', ''STOPPED'' \<mapsto> ''stopped'']"

definition stateMap_index :: "string \<Rightarrow> string" where
  "stateMap_index k = (case stateMap k of None \<Rightarrow> '''' | Some v \<Rightarrow> v)"

text \<open>
  The vendor's records, as far as the adapter reads them. \<^verbatim>\<open>CreatedOn\<close> is a
  \<^verbatim>\<open>time.Time\<close>, modelled as an instant on the integer line whose zero is Go's zero time;
  \<^verbatim>\<open>Links.Commit.Href\<close> and \<^verbatim>\<open>Links.Self.Href\<close> are the two link fields.
\<close>

record Commitstatus =
  Key :: string
  VendorState :: string
  VendorDescription :: string
  CreatedOn :: int
  CommitHref :: string
  SelfHref :: string

record PaginatedCommitstatuses =
  Size :: int
  Next :: string
  Values :: "Commitstatus list"

text \<open>The canonical status, \<^verbatim>\<open>git.RepoStatus\<close>.\<close>

record RepoStatus =
  ID :: string
  StatusURL :: string
  State :: string
  TargetURL :: string
  Description :: string

text \<open>
  The vendor client: \<open>StatusesGet\<close> is the answer of
  \<^verbatim>\<open>CommitstatusesApi.RepositoriesUsernameRepoSlugCommitNodeStatusesGet\<close> for the commit
  asked about, \<open>StatusesPageGet\<close> that of \<^verbatim>\<open>PagingApi.CommitstatusesPageGet\<close> for a
  next-page link.
\<close>

record CommitstatusesClient =
  StatusesGet :: "error + PaginatedCommitstatuses"
  StatusesPageGet :: "string \<Rightarrow> error + PaginatedCommitstatuses"

text \<open>
  \<^verbatim>\<open>
  func (b *CloudProvider) ListCommitStatus(org string, repo string, sha string) ([]*git.RepoStatus, error) {
      statuses := []*git.RepoStatus{}
      var result bitbucket.PaginatedCommitstatuses
      var err error
      for {
          if result.Next == "" {
              result, _, err = b.Client.CommitstatusesApi.RepositoriesUsernameRepoSlugCommitNodeStatusesGet(
                  b.Context, org, repo, sha)
          } else {
              result, _, err = b.Client.PagingApi.CommitstatusesPageGet(b.Context, result.Next)
          }
          if err != nil { return nil, err }
          for _, status := range result.Values {
              if err != nil { return nil, err }
              newStatus := &git.RepoStatus{
                  ID:          status.Key,
                  URL:         status.Links.Commit.Href,
                  State:       stateMap[status.State],
                  TargetURL:   status.Links.Self.Href,
                  Description: status.Description,
              }
              statuses = append(statuses, newStatus)
          }
          if result.Next == "" { break }
      }
      return statuses, nil
  }
  \<close>
  The loop ends when the vendor answers a page without a next link, which nothing forces:
  it is a partial function, \<^const>\<open>None\<close> when it runs forever. The check of \<^verbatim>\<open>err\<close>
  inside the inner loop never fires, \<^verbatim>\<open>err\<close> being \<^verbatim>\<open>nil\<close> there.
\<close>

definition toRepoStatus :: "Commitstatus \<Rightarrow> RepoStatus" where
  "toRepoStatus status =
     \<lparr>ID = Key status, StatusURL = CommitHref status, State = stateMap_index (VendorState status),
      TargetURL = SelfHref status, Description = VendorDescription status\<rparr>"

definition fetchStatuses :: "CommitstatusesClient \<Rightarrow> string \<Rightarrow> error + PaginatedCommitstatuses" where
  "fetchStatuses client next =
     (if next = '''' then StatusesGet client else StatusesPageGet client next)"

partial_function (option) ListCommitStatus_loop ::
  "CommitstatusesClient \<Rightarrow> string \<Rightarrow> RepoStatus list \<Rightarrow> (error + RepoStatus list) option" where
  "ListCommitStatus_loop client next statuses =
     (case fetchStatuses client next of
        Inl err \<Rightarrow> Some (Inl err)
      | Inr result \<Rightarrow>
          (let statuses' = statuses @ map toRepoStatus (Values result) in
           if Next result = '''' then Some (Inr statuses')
           else ListCommitStatus_loop client (Next result) statuses'))"

definition ListCommitStatus :: "CommitstatusesClient \<Rightarrow> (error + RepoStatus list) option" where
  "ListCommitStatus client = ListCommitStatus_loop client '''' []"

text \<open>
  \<^verbatim>\<open>
  func (b *CloudProvider) PullRequestLastCommitStatus(pr *git.PullRequest) (string, error) {
      latestCommitStatus := bitbucket.Commitstatus{}
      var result bitbucket.PaginatedCommitstatuses
      var err error
      for {
          if result.Next == "" {
              result, _, err = ...CommitNodeStatusesGet(b.Context, pr.Owner, pr.Repo, pr.LastCommitSha)
          } else {
              result, _, err = b.Client.PagingApi.CommitstatusesPageGet(b.Context, result.Next)
          }
          if err != nil { return "", err }
          // Our first time building, so return "success"
          if result.Size == 0 { return "success", nil }
          for _, status := range result.Values {
              if status.CreatedOn.After(latestCommitStatus.CreatedOn) {
                  latestCommitStatus = status
              }
          }
          if result.Next == "" { break }
      }
      return stateMap[latestCommitStatus.State], nil
  }
  \<close>
  \<open>zeroCommitstatus\<close> is the zero value \<^verbatim>\<open>bitbucket.Commitstatus{}\<close>.
\<close>

definition zeroCommitstatus :: Commitstatus where
  "zeroCommitstatus = \<lparr>Key = '''', VendorState = '''', VendorDescription = '''', CreatedOn = 0,
                        CommitHref = '''', SelfHref = ''''\<rparr>"

fun latestOf :: "Commitstatus \<Rightarrow> Commitstatus list \<Rightarrow> Commitstatus" where
  "latestOf latestCommitStatus [] = latestCommitStatus"
| "latestOf latestCommitStatus (status # rest) =
     (if CreatedOn status > CreatedOn latestCommitStatus then latestOf status rest
      else latestOf latestCommitStatus rest)"

partial_function (option) PullRequestLastCommitStatus_loop ::
  "CommitstatusesClient \<Rightarrow> string \<Rightarrow> Commitstatus \<Rightarrow> (error + string) option" where
  "PullRequestLastCommitStatus_loop client next latestCommitStatus =
     (case fetchStatuses client next of
        Inl err \<Rightarrow> Some (Inl err)
      | Inr result \<Rightarrow>
          if Size result = 0 then Some (Inr ''success'')
          else (let latest' = latestOf latestCommitStatus (Values result) in
                if Next result = '''' then Some (Inr (stateMap_index (VendorState latest')))
                else PullRequestLastCommitStatus_loop client (Next result) latest'))"

definition PullRequestLastCommitStatus :: "CommitstatusesClient \<Rightarrow> (error + string) option" where
  "PullRequestLastCommitStatus client = PullRequestLastCommitStatus_loop client '''' zeroCommitstatus"

section \<open>Checking that a repository name is free\<close>

text \<open>
  \<^verbatim>\<open>ValidateRepositoryName\<close> returns a Go \<^verbatim>\<open>error\<close>: \<^verbatim>\<open>nil\<close>, modelled as
  \<^const>\<open>None\<close>, says the name is free. A call that dereferences a \<^verbatim>\<open>nil\<close> pointer
  does not return at all but panics; \<open>Panic\<close> is that outcome.
\<close>

datatype 'a outcome = Return 'a | Panic

text \<open>
  \<^verbatim>\<open>
  func (g *GitFake) RepoName(org string, repoName string) string {
      if org != "" { return org + "/" + repoName }
      return repoName
  }
  \<close>
  The helper that names a repository in the error messages (\<^verbatim>\<open>GitRepoName\<close> in the
  GitHub adapter, \<^verbatim>\<open>p.Git.RepoName\<close> in the Gitea adapter).
\<close>

definition RepoName :: "string \<Rightarrow> string \<Rightarrow> string" where
  "RepoName org repoName = (if org \<noteq> '''' then org @ ''/'' @ repoName else repoName)"

subsection \<open>GitHub\<close>

text \<open>
  \<^verbatim>\<open>
  func (p *GitHubProvider) ValidateRepositoryName(org string, name string) error {
      _, r, err := p.Client.Repositories.Get(p.Context, org, name)
      if err == nil {
          return fmt.Errorf("Repository %s already exists", GitRepoName(org, name))
      }
      if r.StatusCode == 404 {
          return nil
      }
      return err
  }
  \<close>
  The vendor call answers with a response pointer \<^verbatim>\<open>r\<close>, \<^verbatim>\<open>nil\<close> when no HTTP response
  was received, and an error or \<^verbatim>\<open>nil\<close>. Reading \<^verbatim>\<open>r.StatusCode\<close> through a \<^verbatim>\<open>nil\<close>
  pointer panics.
\<close>

record Response =
  StatusCode :: int

definition GitHub_ValidateRepositoryName ::
  "(Response option \<times> error option) \<Rightarrow> string \<Rightarrow> string \<Rightarrow> error option outcome" where
  "GitHub_ValidateRepositoryName got org name =
     (let r = fst got; err = snd got in
      if err = None then Return (Some (''Repository '' @ RepoName org name @ '' already exists''))
      else case r of
             None \<Rightarrow> Panic
           | Some response \<Rightarrow> if StatusCode response = 404 then Return None else Return err)"

subsection \<open>Gitea\<close>

text \<open>
  \<^verbatim>\<open>
  func (p *GiteaProvider) ValidateRepositoryName(org string, name string) error {
      _, err := p.Client.GetRepo(org, name)
      if err == nil {
          return fmt.Errorf("Repository %s already exists", p.Git.RepoName(org, name))
      }
      if strings.Contains(err.Error(), "404") {
          return nil
      }
      return err
  }
  \<close>
  \<open>Contains\<close> is \<^verbatim>\<open>strings.Contains\<close>: the second string occurs in the first.
\<close>

definition HasPrefix :: "string \<Rightarrow> string \<Rightarrow> bool" where
  "HasPrefix s pre \<longleftrightarrow> take (length pre) s = pre"

fun Contains :: "string \<Rightarrow> string \<Rightarrow> bool" where
  "Contains [] substr \<longleftrightarrow> substr = []"
| "Contains (c # s) substr \<longleftrightarrow> HasPrefix (c # s) substr \<or> Contains s substr"

definition Gitea_ValidateRepositoryName :: "error option \<Rightarrow> string \<Rightarrow> string \<Rightarrow> error option" where
  "Gitea_ValidateRepositoryName err org name =
     (case err of
        None \<Rightarrow> Some (''Repository '' @ RepoName org name @ '' already exists'')
      | Some e \<Rightarrow> if Contains e ''404'' then None else Some e)"

subsection \<open>Gitlab\<close>

text \<open>
  \<^verbatim>\<open>
  func getRepositories(g *gitlab.Client, username string, org string) ([]*gitlab.Project, *gitlab.Response, error) {
      if org != "" {
          projects, resp, err := g.Groups.ListGroupProjects(org, nil)
          if err != nil {
              return g.Projects.ListUserProjects(org, &gitlab.ListProjectsOptions{Owned: gitlab.Bool(true)})
          }
          return projects, resp, err
      }
      return g.Projects.ListUserProjects(username, &gitlab.ListProjectsOptions{Owned: gitlab.Bool(true)})
  }

  func (g *GitlabProvider) projectId(org, username, name string) (string, error) {
      repos, _, err := getRepositories(g.Client, username, org)
      if err != nil { return "", err }
      for _, repo := range repos {
          if repo.Name == name { return strconv.Itoa(repo.ID), nil }
      }
      return "", fmt.Errorf("no repository found with name %s", name)
  }

  func (g *GitlabProvider) ValidateRepositoryName(org, name string) error {
      pid, err := g.projectId(org, g.Username, name)
      if err == nil {
          return fmt.Errorf("repository %s already exists", pid)
      }
      return nil
  }
  \<close>
  The vendor client is the pair of listing calls; each answers with the projects or with an
  error. \<open>Itoa\<close> is \<^verbatim>\<open>strconv.Itoa\<close>, the decimal numeral of an integer.
\<close>

record Project =
  ProjectName :: string
  ProjectID :: int

record GitlabClient =
  ListGroupProjects :: "string \<Rightarrow> error + Project list"
  ListUserProjects :: "string \<Rightarrow> error + Project list"

fun digits :: "nat \<Rightarrow> string" where
  "digits n = (if n < 10 then [''0123456789'' ! n]
                else digits (n div 10) @ [''0123456789'' ! (n mod 10)])"

declare digits.simps [simp del]

definition Itoa :: "int \<Rightarrow> string" where
  "Itoa i = (if i < 0 then CHR ''-'' # digits (nat (- i)) else digits (nat i))"

definition getRepositories :: "GitlabClient \<Rightarrow> string \<Rightarrow> string \<Rightarrow> error + Project list" where
  "getRepositories g username org =
     (if org \<noteq> '''' then
        (case ListGroupProjects g org of
           Inl err \<Rightarrow> ListUserProjects g org
         | Inr projects \<Rightarrow> Inr projects)
      else ListUserProjects g username)"

definition projectId :: "GitlabClient \<Rightarrow> string \<Rightarrow> string \<Rightarrow> string \<Rightarrow> error + string" where
  "projectId g org username name =
     (case getRepositories g username org of
        Inl err \<Rightarrow> Inl err
      | Inr repos \<Rightarrow>
          (case find (\<lambda>repo. ProjectName repo = name) repos of
             Some repo \<Rightarrow> Inr (Itoa (ProjectID repo))
           | None \<Rightarrow> Inl (''no repository found with name '' @ name)))"

definition Gitlab_ValidateRepositoryName ::
  "GitlabClient \<Rightarrow> string \<Rightarrow> string \<Rightarrow> string \<Rightarrow> error option" where
  "Gitlab_ValidateRepositoryName g username org name =
     (case projectId g org username name of
        Inr pid \<Rightarrow> Some (''repository '' @ pid @ '' already exists'')
      | Inl err \<Rightarrow> None)"

section \<open>Forking and creating pull requests on Bitbucket\<close>

text \<open>
  The vendor calls and the sleeps of an operation are recorded in a log of events, in the
  order in which the operation makes them: \<open>Create\<close> is the mutating call (the fork or the
  creation of the pull request), \<open>Read\<close> a read-back of the new resource, \<open>Sleep n\<close> a
  \<^verbatim>\<open>time.Sleep\<close> of \<open>n\<close> seconds. The vendor is a script: the answer to the read-back
  number \<open>n\<close> of the operation, counted from zero. \<open>readNo\<close> is the number of read-backs
  made so far.
\<close>

datatype event = Create | Read | Sleep nat

definition readNo :: "event list \<Rightarrow> nat" where
  "readNo log = length (filter (\<lambda>e. e = Read) log)"

definition createNo :: "event list \<Rightarrow> nat" where
  "createNo log = length (filter (\<lambda>e. e = Create) log)"

fun slept :: "event list \<Rightarrow> nat" where
  "slept [] = 0"
| "slept (Sleep n # log) = n + slept log"
| "slept (e # log) = slept log"

subsection \<open>Bitbucket Cloud: \<^verbatim>\<open>ForkRepository\<close> and \<^verbatim>\<open>CreatePullRequest\<close>\<close>

text \<open>
  \<^verbatim>\<open>
  func (b *CloudProvider) ForkRepository(originalOrg string, name string, destinationOrg string,
  ) (*git.Repository, error) {
      options := map[string]interface{}{"body": map[string]interface{}{}}
      repo, _, err := b.Client.RepositoriesApi.RepositoriesUsernameRepoSlugForksPost(
          b.Context, originalOrg, name, options)
      if err != nil { return nil, err }

      _, _, err = b.Client.RepositoriesApi.RepositoriesUsernameRepoSlugForksGet(
          b.Context, originalOrg, repo.Name)

      // Fork isn't ready
      if err != nil {
          // Wait up to 1 minute for the fork to be ready
          for i := 0; i < 30; i++ {
              _, _, err = b.Client.RepositoriesApi.RepositoriesUsernameRepoSlugForksGet(
                  b.Context, originalOrg, repo.Name)
              if err == nil { break }
              time.Sleep(2 * time.Second)
          }
      }
      return BitbucketRepositoryToGitRepository(repo), nil
  }
  \<close>
  \<open>ForksPost\<close> is the answer of the fork call, \<open>ForksGet n\<close> the error (or none) of the
  read-back number \<open>n\<close>; only the error of a read-back is looked at. The translation
  \<^verbatim>\<open>BitbucketRepositoryToGitRepository\<close> reads the vendor's record, a type of the vendor's
  client library, through \<^verbatim>\<open>bRepo.Links.Clone\<close> and \<^verbatim>\<open>bRepo.Links.Html.Href\<close>; it is the
  parameter \<open>toGit\<close>, which answers \<^const>\<open>Panic\<close> where the translation dereferences
  \<^verbatim>\<open>nil\<close>.
\<close>

record 'v CloudForkClient =
  ForksPost :: "error + 'v"
  ForksGet :: "nat \<Rightarrow> error option"

function Cloud_retry :: "(nat \<Rightarrow> error option) \<Rightarrow> nat \<Rightarrow> event list \<Rightarrow> event list" where
  "Cloud_retry get i log =
     (if i < 30 then
        (let err = get (readNo log); log1 = log @ [Read] in
         if err = None then log1
         else Cloud_retry get (i + 1) (log1 @ [Sleep 2]))
      else log)"
  by pat_completeness auto
termination
  by (relation "measure (\<lambda>(get, i, log). 30 - i)") auto

declare Cloud_retry.simps [simp del]

definition Cloud_ForkRepository ::
  "'v CloudForkClient \<Rightarrow> ('v \<Rightarrow> 'r outcome) \<Rightarrow> (error + 'r) outcome \<times> event list" where
  "Cloud_ForkRepository client toGit =
     (case ForksPost client of
        Inl err \<Rightarrow> (Return (Inl err), [Create])
      | Inr repo \<Rightarrow>
          (let log = [Create];
               err = ForksGet client (readNo log);
               log1 = log @ [Read];
               log2 = (if err \<noteq> None then Cloud_retry (ForksGet client) 0 log1 else log1)
           in case toGit repo of
                Panic \<Rightarrow> (Panic, log2)
              | Return gitRepo \<Rightarrow> (Return (Inr gitRepo), log2)))"

text \<open>
  \<^verbatim>\<open>
  func (b *CloudProvider) CreatePullRequest(data *git.PullRequestArguments,
  ) (*git.PullRequest, error) {
      ...
      bPullrequest := bitbucket.Pullrequest{Source: &source, Destination: &destination, Title: data.Title}
      var options = map[string]interface{}{"body": bPullrequest}

      pr, _, err := b.Client.PullrequestsApi.RepositoriesUsernameRepoSlugPullrequestsPost(
          b.Context, data.Repository.Organisation, data.Repository.Name, options)
      if err != nil { return nil, err }

      _, _, err = b.Client.PullrequestsApi.RepositoriesUsernameRepoSlugPullrequestsPullRequestIdGet(
          b.Context, data.Repository.Organisation, data.Repository.Name, pr.Id)

      if err != nil {
          // Wait up to 1 minute for the PR to be ready.
          for i := 0; i < 30; i++ {
              _, _, err = b.Client.PullrequestsApi.RepositoriesUsernameRepoSlugPullrequestsPullRequestIdGet(
                  b.Context, data.Repository.Organisation, data.Repository.Name, pr.Id)
              if err == nil { break }
              time.Sleep(2 * time.Second)
          }
      }

      i := int(pr.Id)
      prID := &i
      newPR := &git.PullRequest{
          URL:    pr.Links.Html.Href,
          Author: b.UserInfo(pr.Author.Username),
          Owner:  strings.Split(pr.Destination.Repository.FullName, "/")[0],
          Repo:   pr.Destination.Repository.Name,
          Number: prID,
          State:  &pr.State,
      }
      return newPR, nil
  }
  \<close>
  The operation has the shape of \<^verbatim>\<open>ForkRepository\<close>. \<open>PullrequestsPost\<close> is the answer
  of the call that creates the pull request, \<open>PullRequestIdGet n\<close> the error (or none) of
  the read-back number \<open>n\<close> of that pull request. The canonical pull request is built from
  the answer \<^verbatim>\<open>pr\<close> of the creating call, through the pointers \<^verbatim>\<open>pr.Destination\<close> and
  \<^verbatim>\<open>pr.Destination.Repository\<close> of the vendor's record and with the author that
  \<^verbatim>\<open>UserInfo\<close> looks up; this construction is the parameter \<open>toGit\<close>, which answers
  \<^const>\<open>Panic\<close> where it dereferences \<^verbatim>\<open>nil\<close>.
\<close>

record 'v CloudPullRequestClient =
  PullrequestsPost :: "error + 'v"
  PullRequestIdGet :: "nat \<Rightarrow> error option"

definition Cloud_CreatePullRequest ::
  "'v CloudPullRequestClient \<Rightarrow> ('v \<Rightarrow> 'r outcome) \<Rightarrow> (error + 'r) outcome \<times> event list" where
  "Cloud_CreatePullRequest client toGit =
     (case PullrequestsPost client of
        Inl err \<Rightarrow> (Return (Inl err), [Create])
      | Inr pr \<Rightarrow>
          (let log = [Create];
               err = PullRequestIdGet client (readNo log);
               log1 = log @ [Read];
               log2 = (if err \<noteq> None then Cloud_retry (PullRequestIdGet client) 0 log1 else log1)
           in case toGit pr of
                Panic \<Rightarrow> (Panic, log2)
              | Return newPR \<Rightarrow> (Return (Inr newPR), log2)))"

subsection \<open>Bitbucket Server: \<^verbatim>\<open>ForkRepository\<close> and \<^verbatim>\<open>CreatePullRequest\<close>\<close>

text \<open>
  \<^verbatim>\<open>
  func BitbucketServerRepositoryToGitRepository(bRepo bitbucket.Repository) *git.Repository {
      var sshURL string
      var httpCloneURL string
      for _, link := range bRepo.Links.Clone {
          if link.Name == "ssh" {
              sshURL = link.Href
          }
      }
      isFork := false

      if httpCloneURL == "" {
          cloneLinks := bRepo.Links.Clone

          for _, link := range cloneLinks {
              if link.Name == "http" {
                  httpCloneURL = link.Href
                  if !strings.HasSuffix(httpCloneURL, ".git") {
                      httpCloneURL += ".git"
                  }
              }
          }
      }
      if httpCloneURL == "" {
          httpCloneURL = sshURL
      }

      return &git.Repository{
          Name:     bRepo.Name,
          HTMLURL:  bRepo.Links.Self[0].Href,
          CloneURL: httpCloneURL,
          SSHURL:   sshURL,
          Fork:     isFork,
      }
  }
  \<close>
  The vendor's repository, as far as the translation reads it: its name, its clone links
  (name and address) and the addresses of its self links. The canonical repository, as far
  as the translation fills it; the other fields of \<^verbatim>\<open>git.Repository\<close> keep their zero
  value. Indexing the empty slice \<^verbatim>\<open>Links.Self\<close> panics.
\<close>

record CloneLink =
  LinkName :: string
  LinkHref :: string

record BitbucketRepository =
  RepositoryName :: string
  LinksClone :: "CloneLink list"
  RepositoryLinksSelf :: "string list"

record GitRepository =
  GitRepositoryName :: string
  HTMLURL :: string
  CloneURL :: string
  SSHURL :: string
  Fork :: bool

definition HasSuffix :: "string \<Rightarrow> string \<Rightarrow> bool" where
  "HasSuffix s suffix \<longleftrightarrow>
     length suffix \<le> length s \<and> drop (length s - length suffix) s = suffix"

fun sshURL_loop :: "string \<Rightarrow> CloneLink list \<Rightarrow> string" where
  "sshURL_loop sshURL [] = sshURL"
| "sshURL_loop sshURL (link # links) =
     (if LinkName link = ''ssh'' then sshURL_loop (LinkHref link) links
      else sshURL_loop sshURL links)"

fun httpCloneURL_loop :: "string \<Rightarrow> CloneLink list \<Rightarrow> string" where
  "httpCloneURL_loop httpCloneURL [] = httpCloneURL"
| "httpCloneURL_loop httpCloneURL (link # links) =
     (if LinkName link = ''http'' then
        (let httpCloneURL1 = LinkHref link;
             httpCloneURL2 = (if \<not> HasSuffix httpCloneURL1 ''.git'' then httpCloneURL1 @ ''.git''
                              else httpCloneURL1)
         in httpCloneURL_loop httpCloneURL2 links)
      else httpCloneURL_loop httpCloneURL links)"

definition BitbucketServerRepositoryToGitRepository :: "BitbucketRepository \<Rightarrow> GitRepository outcome" where
  "BitbucketServerRepositoryToGitRepository bRepo =
     (let sshURL = sshURL_loop '''' (LinksClone bRepo);
          isFork = False;
          httpCloneURL = '''';
          httpCloneURL1 = (if httpCloneURL = '''' then httpCloneURL_loop httpCloneURL (LinksClone bRepo)
                           else httpCloneURL);
          httpCloneURL2 = (if httpCloneURL1 = '''' then sshURL else httpCloneURL1)
      in case RepositoryLinksSelf bRepo of
           [] \<Rightarrow> Panic
         | href # others \<Rightarrow>
             Return \<lparr>GitRepositoryName = RepositoryName bRepo, HTMLURL = href,
                     CloneURL = httpCloneURL2, SSHURL = sshURL, Fork = isFork\<rparr>)"

text \<open>
  \<^verbatim>\<open>
  func (b *BitbucketServerProvider) ForkRepository(originalOrg, name, destinationOrg string) (*git.Repository, error) {
      var repo bitbucket.Repository
      var apiResponse *bitbucket.APIResponse
      var options = map[string]interface{}{}
      if destinationOrg != "" {
          options["project"] = map[string]interface{}{"key": destinationOrg}
      }
      requestBody, err := json.Marshal(options)
      if err != nil { return nil, err }

      _, err = b.Client.DefaultApi.ForkRepository(originalOrg, name, requestBody, []string{"application/json"})
      if err != nil { return nil, err }

      // Wait up to 1 minute for the fork to be ready
      for i := 0; i < 30; i++ {
          time.Sleep(2 * time.Second)
          if destinationOrg == "" {
              apiResponse, err = b.Client.DefaultApi.GetUserRepository(b.CurrentUsername(), name)
          } else {
              apiResponse, err = b.Client.DefaultApi.GetRepository(destinationOrg, name)
          }
          if err == nil { break }
      }
      if err != nil { return nil, err }

      err = mapstructure.Decode(apiResponse.Values, &repo)
      if err != nil { return nil, err }

      return BitbucketServerRepositoryToGitRepository(repo), nil
  }
  \<close>
  The loop carries the pair \<^verbatim>\<open>apiResponse, err\<close>, which a read-back sets to a response
  or to an error; before the first read-back both are \<^verbatim>\<open>nil\<close>, the state \<^const>\<open>None\<close>
  here. Using \<^verbatim>\<open>apiResponse.Values\<close> in that state would dereference \<^verbatim>\<open>nil\<close>. The
  outcome of \<^verbatim>\<open>json.Marshal\<close> is the parameter \<open>marshal\<close>, \<^verbatim>\<open>mapstructure.Decode\<close> the
  parameter \<open>decode\<close>.
\<close>

function Server_retry ::
  "(nat \<Rightarrow> error + 'raw) \<Rightarrow> nat \<Rightarrow> (error + 'raw) option \<Rightarrow> event list
   \<Rightarrow> (error + 'raw) option \<times> event list" where
  "Server_retry get i current log =
     (if i < 30 then
        (let log1 = log @ [Sleep 2];
             answer = get (readNo log1);
             log2 = log1 @ [Read]
         in case answer of
              Inr apiResponse \<Rightarrow> (Some answer, log2)
            | Inl err \<Rightarrow> Server_retry get (i + 1) (Some answer) log2)
      else (current, log))"
  by pat_completeness auto
termination
  by (relation "measure (\<lambda>(get, i, current, log). 30 - i)") auto

declare Server_retry.simps [simp del]

record 'raw ServerForkClient =
  ForkRepositoryPost :: "error option"
  GetUserRepository :: "nat \<Rightarrow> error + 'raw"
  GetRepository :: "nat \<Rightarrow> error + 'raw"

definition Server_ForkRepository ::
  "error option \<Rightarrow> 'raw ServerForkClient \<Rightarrow> ('raw \<Rightarrow> error + BitbucketRepository) \<Rightarrow> string
   \<Rightarrow> (error + GitRepository) outcome \<times> event list" where
  "Server_ForkRepository marshal client decode destinationOrg =
     (case marshal of
        Some err \<Rightarrow> (Return (Inl err), [])
      | None \<Rightarrow>
          (case ForkRepositoryPost client of
             Some err \<Rightarrow> (Return (Inl err), [Create])
           | None \<Rightarrow>
               (let get = (if destinationOrg = '''' then GetUserRepository client
                           else GetRepository client);
                    (current, log) = Server_retry get 0 None [Create]
                in case current of
                     None \<Rightarrow> (Panic, log)
                   | Some (Inl err) \<Rightarrow> (Return (Inl err), log)
                   | Some (Inr apiResponse) \<Rightarrow>
                       (case decode apiResponse of
                          Inl err \<Rightarrow> (Return (Inl err), log)
                        | Inr repo \<Rightarrow>
                            (case BitbucketServerRepositoryToGitRepository repo of
                               Panic \<Rightarrow> (Panic, log)
                             | Return gitRepo \<Rightarrow> (Return (Inr gitRepo), log))))))"

text \<open>
  \<^verbatim>\<open>
  func (b *BitbucketServerProvider) CreatePullRequest(data *git.PullRequestArguments) (*git.PullRequest, error) {
      var bPullRequest, bPR bitbucket.PullRequest
      var options = map[string]interface{}{ ... }
      requestBody, err := json.Marshal(options)
      if err != nil { return nil, err }

      apiResponse, err := b.Client.DefaultApi.CreatePullRequestWithOptions(
          data.Repository.Project, data.Repository.Name, requestBody)
      if err != nil { return nil, err }

      err = mapstructure.Decode(apiResponse.Values, &bPullRequest)
      if err != nil { return nil, err }

      // Wait up to 1 minute for the pull request to be ready
      for i := 0; i < 30; i++ {
          time.Sleep(2 * time.Second)
          apiResponse, err = b.Client.DefaultApi.GetPullRequest(
              data.Repository.Project, data.Repository.Name, bPullRequest.ID)
          if err == nil { break }
      }
      if err != nil { return nil, err }

      err = mapstructure.Decode(apiResponse.Values, &bPR)
      if err != nil { return nil, err }

      return &git.PullRequest{
          URL:    bPR.Links.Self[0].Href,
          Owner:  bPR.Author.User.Name,
          Repo:   bPR.ToRef.Repository.Name,
          Number: &bPR.ID,
          State:  &bPR.State,
      }, nil
  }
  \<close>
  The vendor's pull request, as far as the adapter reads it, and the canonical one, as far
  as the adapter fills it. Indexing the empty slice \<^verbatim>\<open>Links.Self\<close> panics.
\<close>

record BitbucketPullRequest =
  PullRequestID :: int
  LinksSelf :: "string list"
  AuthorUserName :: string
  ToRefRepositoryName :: string
  PullRequestState :: string

record GitPullRequest =
  PullRequestURL :: string
  Owner :: string
  Repo :: string
  Number :: "int option"
  StateRef :: "string option"

record 'raw ServerPullRequestClient =
  CreatePullRequestWithOptions :: "error + 'raw"
  GetPullRequest :: "int \<Rightarrow> nat \<Rightarrow> error + 'raw"

definition Server_CreatePullRequest ::
  "error option \<Rightarrow> 'raw ServerPullRequestClient \<Rightarrow> ('raw \<Rightarrow> error + BitbucketPullRequest)
   \<Rightarrow> (error + GitPullRequest) outcome \<times> event list" where
  "Server_CreatePullRequest marshal client decode =
     (case marshal of
        Some err \<Rightarrow> (Return (Inl err), [])
      | None \<Rightarrow>
          (case CreatePullRequestWithOptions client of
             Inl err \<Rightarrow> (Return (Inl err), [Create])
           | Inr created \<Rightarrow>
               (case decode created of
                  Inl err \<Rightarrow> (Return (Inl err), [Create])
                | Inr bPullRequest \<Rightarrow>
                    (let (current, log) =
                           Server_retry (GetPullRequest client (PullRequestID bPullRequest)) 0
                             (Some (Inr created)) [Create]
                     in case current of
                          None \<Rightarrow> (Panic, log)
                        | Some (Inl err) \<Rightarrow> (Return (Inl err), log)
                        | Some (Inr apiResponse) \<Rightarrow>
                            (case decode apiResponse of
                               Inl err \<Rightarrow> (Return (Inl err), log)
                             | Inr bPR \<Rightarrow>
                                 (case LinksSelf bPR of
                                    [] \<Rightarrow> (Panic, log)
                                  | href # others \<Rightarrow>
                                      (Return (Inr \<lparr>PullRequestURL = href,
                                                     Owner = AuthorUserName bPR,
                                                     Repo = ToRefRepositoryName bPR,
                                                     Number = Some (PullRequestID bPR),
                                                     StateRef = Some (PullRequestState bPR)\<rparr>),
                                       log)))))))"

section \<open>Resolving a provider for a host (package gits)\<close>

subsection \<open>The credential store as the resolver sees it\<close>

text \<open>
  \<^verbatim>\<open>provider.go\<close> imports \<^verbatim>\<open>github.com/jenkins-x/jx/pkg/auth\<close>. Its functions receive
  and hand out pointers (\<^verbatim>\<open>*auth.AuthServer\<close>, \<^verbatim>\<open>*auth.UserAuth\<close>), and the tests of the
  package build the store from pointers:
  \<^verbatim>\<open>
  func createAuthServer(url string, name string, kind string, currentUser *auth.UserAuth, users ...*auth.UserAuth) *auth.AuthServer {
      return &auth.AuthServer{URL: url, Name: name, Kind: kind, Users: users, CurrentUser: currentUser.Username}
  }
  \<close>
  The \<^verbatim>\<open>AuthServer\<close> objects are therefore part of the state, and the resolver reads and
  writes them through the pointers it is given. The state is a heap of \<^verbatim>\<open>AuthServer\<close>
  objects, \<open>cells\<close>, a pointer being an index into it, together with the configuration,
  \<open>config\<close>, whose representation the resolver does not look at. The credentials of a
  server are held by value: the resolver does not write through a \<^verbatim>\<open>*auth.UserAuth\<close>. The
  state also counts the invocations of the interactive collaborator, \<open>prompts\<close>.
\<close>

record 'c world =
  config :: 'c
  cells :: "AuthServer list"
  prompts :: nat

text \<open>
  What the resolver calls in the package \<^verbatim>\<open>auth\<close>, as parameters:

  \<^item> \<open>getOrCreateServer\<close> is \<^verbatim>\<open>config.GetOrCreateServer(hostUrl)\<close>, which answers a
    pointer to a server and may change the state;
  \<^item> \<open>findUserAuths\<close> is \<^verbatim>\<open>config.FindUserAuths(url)\<close>, the credentials stored for an
    address;
  \<^item> \<open>createAuthUserFromEnvironment\<close> is \<^verbatim>\<open>auth.CreateAuthUserFromEnvironment(prefix)\<close>,
    the credential that the environment variables with the prefix describe;
  \<^item> \<open>editUserAuth\<close> is the interactive collaborator
    \<^verbatim>\<open>config.EditUserAuth(server.Label(), userAuth, "", false, batchMode, ...)\<close>: given the
    server and the batch mode it answers with an error or with the credential it has filled
    in;
  \<^item> \<open>saveUserAuth\<close> is \<^verbatim>\<open>authConfigSvc.SaveUserAuth(url, userAuth)\<close>, a method of the
    interface \<^verbatim>\<open>auth.AuthConfigService\<close>.
\<close>

record 'c auth =
  getOrCreateServer :: "'c world \<Rightarrow> string \<Rightarrow> nat \<times> 'c world"
  findUserAuths :: "'c world \<Rightarrow> string \<Rightarrow> UserAuth list"
  createAuthUserFromEnvironment :: "string \<Rightarrow> UserAuth"
  editUserAuth :: "AuthServer \<Rightarrow> bool \<Rightarrow> error + UserAuth"
  saveUserAuth :: "'c world \<Rightarrow> string \<Rightarrow> UserAuth \<Rightarrow> error option \<times> 'c world"

text \<open>
  \<open>ToUpper\<close> is \<^verbatim>\<open>strings.ToUpper\<close> on ASCII strings, which the names of the kinds are:
  it maps the bytes \<^verbatim>\<open>a\<close> to \<^verbatim>\<open>z\<close> to \<^verbatim>\<open>A\<close> to \<^verbatim>\<open>Z\<close> and leaves every other byte.
\<close>

definition upperOf :: "char \<Rightarrow> char" where
  "upperOf c =
     (case map_of (zip ''abcdefghijklmnopqrstuvwxyz'' ''ABCDEFGHIJKLMNOPQRSTUVWXYZ'') c of
        Some u \<Rightarrow> u
      | None \<Rightarrow> c)"

definition ToUpper :: "string \<Rightarrow> string" where
  "ToUpper s = map upperOf s"

subsection \<open>\<^verbatim>\<open>CreateProviderForURL\<close>\<close>

text \<open>
  \<^verbatim>\<open>
  func createUserForServer(batchMode bool, authConfigSvc auth.AuthConfigService, server *auth.AuthServer,
      git Gitter, in terminal.FileReader, out terminal.FileWriter, errOut io.Writer) (*auth.UserAuth, error) {
      userAuth := &auth.UserAuth{}
      f := func(username string) error { ... }
      defaultUserName := ""
      err := authConfigSvc.Config().EditUserAuth(server.Label(), userAuth, defaultUserName, false, batchMode, f, in, out, errOut)
      if err != nil { return userAuth, err }
      err = authConfigSvc.SaveUserAuth(server.URL, userAuth)
      if err != nil {
          return userAuth, fmt.Errorf("failed to store git auth configuration %s", err)
      }
      if userAuth.IsInvalid() {
          return userAuth, fmt.Errorf("you did not properly define the user authentication")
      }
      return userAuth, nil
  }
  \<close>
  Each invocation of the interactive collaborator is counted in \<open>prompts\<close>. The validity
  check is \<^const>\<open>IsInvalid\<close>.
\<close>

definition createUserForServer ::
  "bool \<Rightarrow> 'c auth \<Rightarrow> 'c world \<Rightarrow> nat \<Rightarrow> (error + UserAuth) \<times> 'c world" where
  "createUserForServer batchMode authConfigSvc w server =
     (let w1 = w\<lparr>prompts := prompts w + 1\<rparr> in
      case editUserAuth authConfigSvc (cells w ! server) batchMode of
        Inl err \<Rightarrow> (Inl err, w1)
      | Inr userAuth \<Rightarrow>
          (let (err, w2) = saveUserAuth authConfigSvc w1 (URL (cells w1 ! server)) userAuth
           in case err of
                Some e \<Rightarrow> (Inl (''failed to store git auth configuration '' @ e), w2)
              | None \<Rightarrow>
                  if IsInvalid userAuth
                  then (Inl ''you did not properly define the user authentication'', w2)
                  else (Inr userAuth, w2)))"

text \<open>
  \<^verbatim>\<open>
  func CreateProviderForURL(authConfigSvc auth.AuthConfigService, gitKind string, hostUrl string, git Gitter,
      batchMode bool, in terminal.FileReader, out terminal.FileWriter, errOut io.Writer) (GitProvider, error) {
      config := authConfigSvc.Config()
      server := config.GetOrCreateServer(hostUrl)
      url := server.URL
      if gitKind != "" {
          server.Kind = gitKind
      }
      userAuths := authConfigSvc.Config().FindUserAuths(url)
      if len(userAuths) == 0 {
          kind := server.Kind
          if kind != "" {
              userAuth := auth.CreateAuthUserFromEnvironment(strings.ToUpper(kind))
              if !userAuth.IsInvalid() {
                  return CreateProvider(server, &userAuth, git)
              }
          }
          userAuth := auth.CreateAuthUserFromEnvironment("GIT")
          if !userAuth.IsInvalid() {
              return CreateProvider(server, &userAuth, git)
          }
      }
      if len(userAuths) > 0 {
          // TODO use default user???
          auth := userAuths[0]
          return CreateProvider(server, auth, git)
      }
      auth, err := createUserForServer(batchMode, authConfigSvc, server, git, in, out, errOut)
      if err != nil {
          return nil, err
      }
      return CreateProvider(server, auth, git)
  }
  \<close>
  The factory \<^verbatim>\<open>CreateProvider\<close> is the parameter \<open>CreateProvider\<close>: it sees the server
  that the pointer designates and the credential. \<open>setKind\<close> is the assignment
  \<^verbatim>\<open>server.Kind = gitKind\<close> through the pointer. \<open>stored\<close> is the rest of the
  function after the first \<^verbatim>\<open>if\<close> statement, where the function continues when that
  statement does not return.
\<close>

definition setKind :: "nat \<Rightarrow> string \<Rightarrow> 'c world \<Rightarrow> 'c world" where
  "setKind server kind w = w\<lparr>cells := (cells w)[server := (cells w ! server)\<lparr>Kind := kind\<rparr>]\<rparr>"

definition CreateProviderForURL ::
  "'c auth \<Rightarrow> 'c world \<Rightarrow> string \<Rightarrow> string \<Rightarrow> bool
   \<Rightarrow> (AuthServer \<Rightarrow> UserAuth \<Rightarrow> error + 'p) \<Rightarrow> (error + 'p) \<times> 'c world" where
  "CreateProviderForURL authConfigSvc w gitKind hostUrl batchMode CreateProvider =
     (let (server, w1) = getOrCreateServer authConfigSvc w hostUrl;
          url = URL (cells w1 ! server);
          w2 = (if gitKind \<noteq> '''' then setKind server gitKind w1 else w1);
          userAuths = findUserAuths authConfigSvc w2 url;
          stored = (if length userAuths > 0
                    then (CreateProvider (cells w2 ! server) (userAuths ! 0), w2)
                    else (case createUserForServer batchMode authConfigSvc w2 server of
                            (Inl err, w3) \<Rightarrow> (Inl err, w3)
                          | (Inr auth, w3) \<Rightarrow> (CreateProvider (cells w3 ! server) auth, w3)))
      in if length userAuths = 0 then
           (let kind = Kind (cells w2 ! server);
                userAuth = createAuthUserFromEnvironment authConfigSvc (ToUpper kind);
                userAuth' = createAuthUserFromEnvironment authConfigSvc ''GIT''
            in if kind \<noteq> '''' \<and> \<not> IsInvalid userAuth
               then (CreateProvider (cells w2 ! server) userAuth, w2)
               else if \<not> IsInvalid userAuth'
               then (CreateProvider (cells w2 ! server) userAuth', w2)
               else stored)
         else stored)"

subsection \<open>A store of pointers\<close>

text \<open>
  Modelled from the spec: the type \<^verbatim>\<open>AuthConfig\<close> of the package
  \<^verbatim>\<open>github.com/jenkins-x/jx/pkg/auth\<close> that \<^verbatim>\<open>provider.go\<close> is built against, whose
  declaration is missing from the sources; the sources hold its callers and tests. The spec
  describes the store as an ordered-by-insertion list of servers, unique by URL, in which
  several operations hand back a pointer into the store's internal slice, and the tests
  build it from pointers to servers. The configuration holds the pointers to its servers,
  in order of insertion, and the four fields that \<^verbatim>\<open>SaveUserAuth\<close> keeps.
\<close>

record AuthConfig' =
  Servers' :: "nat list"
  DefaultUsername' :: string
  CurrentServer' :: string
  PipeLineServer' :: string
  PipeLineUsername' :: string

text \<open>
  Modelled from the spec: \<^verbatim>\<open>GetServer\<close> of that package, missing from the sources. It
  answers the first stored server with the URL, as a pointer to the stored object, or
  \<^verbatim>\<open>nil\<close>.
\<close>

definition GetServer :: "AuthConfig' world \<Rightarrow> string \<Rightarrow> nat option" where
  "GetServer w url = find (\<lambda>s. URL (cells w ! s) = url) (Servers' (config w))"

text \<open>
  Modelled from the spec: \<^verbatim>\<open>GetOrCreateServerName\<close> of that package, missing from the
  sources. It answers the stored server with the URL and, when there is none, creates a
  server with the URL, the name and the kind, without users, stores it and answers it.
\<close>

definition GetOrCreateServerName ::
  "AuthConfig' world \<Rightarrow> string \<Rightarrow> string \<Rightarrow> string \<Rightarrow> nat \<times> AuthConfig' world" where
  "GetOrCreateServerName w url name kind =
     (case GetServer w url of
        Some s \<Rightarrow> (s, w)
      | None \<Rightarrow>
          (let s = length (cells w);
               w1 = w\<lparr>cells := cells w @
                      [\<lparr>URL = url, Users = [], Name = name, Kind = kind, CurrentUser = ''''\<rparr>]\<rparr>;
               w2 = w1\<lparr>config := (config w1)\<lparr>Servers' := Servers' (config w1) @ [s]\<rparr>\<rparr>
           in (s, w2)))"

text \<open>
  Modelled from the spec: \<^verbatim>\<open>GetOrCreateServer\<close> of that package, missing from the
  sources: \<^verbatim>\<open>getOrCreateServer(url)\<close> answers the stored server with the URL and creates
  it, with an inferred display name and kind, when there is none. The display name and the
  kind that it infers for an address are the parameter \<open>infer\<close>.
\<close>

definition GetOrCreateServer ::
  "(string \<Rightarrow> string \<times> string) \<Rightarrow> AuthConfig' world \<Rightarrow> string \<Rightarrow> nat \<times> AuthConfig' world" where
  "GetOrCreateServer infer w url =
     (let (name, kind) = infer url in GetOrCreateServerName w url name kind)"

text \<open>
  Modelled from the spec: \<^verbatim>\<open>FindUserAuths\<close> of that package, missing from the sources:
  \<^verbatim>\<open>findUserAuths(url)\<close> answers the credentials of the stored server with the URL, none
  when there is no such server.
\<close>

definition FindUserAuths' :: "AuthConfig' world \<Rightarrow> string \<Rightarrow> UserAuth list" where
  "FindUserAuths' w url =
     (case GetServer w url of
        Some s \<Rightarrow> Users (cells w ! s)
      | None \<Rightarrow> [])"

text \<open>
  Modelled from the spec: \<^verbatim>\<open>SetUserAuth\<close> of that package, missing from the sources:
  \<^verbatim>\<open>setUserAuth(url, userAuth)\<close> is an upsert keyed by server URL and user name. Setting a
  credential for an existing user name overwrites it in place, setting one for a new user
  name appends it, and both update \<^verbatim>\<open>CurrentUser\<close>; when no server with the URL is
  stored, one is appended that holds the credential. The upsert on the list of users is
  \<^const>\<open>SetUserAuth_users\<close>.
\<close>

definition SetUserAuth' :: "AuthConfig' world \<Rightarrow> string \<Rightarrow> UserAuth \<Rightarrow> AuthConfig' world" where
  "SetUserAuth' w url auth =
     (case GetServer w url of
        Some s \<Rightarrow>
          w\<lparr>cells := (cells w)[s := (cells w ! s)
                \<lparr>Users := SetUserAuth_users (Users (cells w ! s)) auth,
                 CurrentUser := Username auth\<rparr>]\<rparr>
      | None \<Rightarrow>
          (let s = length (cells w);
               w1 = w\<lparr>cells := cells w @
                      [\<lparr>URL = url, Users = [auth], Name = '''', Kind = '''',
                        CurrentUser = Username auth\<rparr>]\<rparr>
           in w1\<lparr>config := (config w1)\<lparr>Servers' := Servers' (config w1) @ [s]\<rparr>\<rparr>))"

text \<open>
  \<^verbatim>\<open>SaveUserAuth\<close> of \<^verbatim>\<open>auth_config_service.go\<close>, whose text is above, over this store;
  \<open>saver\<close> is the persistence collaborator.
\<close>

definition SaveUserAuth' ::
  "(AuthConfig' world \<Rightarrow> error option) \<Rightarrow> AuthConfig' world \<Rightarrow> string \<Rightarrow> UserAuth
   \<Rightarrow> error option \<times> AuthConfig' world" where
  "SaveUserAuth' saver w url userAuth =
     (let w1 = SetUserAuth' w url userAuth;
          user = Username userAuth;
          w2 = (if user \<noteq> '''' then w1\<lparr>config := (config w1)\<lparr>DefaultUsername' := user\<rparr>\<rparr> else w1);
          w3 = (if PipeLineUsername' (config w2) = ''''
                then w2\<lparr>config := (config w2)\<lparr>PipeLineUsername' := user, PipeLineServer' := url\<rparr>\<rparr>
                else w2);
          w4 = w3\<lparr>config := (config w3)\<lparr>CurrentServer' := url\<rparr>\<rparr>
      in (saver w4, w4))"

text \<open>
  The package \<^verbatim>\<open>auth\<close> over this store. The reader of the environment, the interactive
  collaborator and the persistence collaborator stay parameters.
\<close>

definition pointerStore ::
  "(string \<Rightarrow> string \<times> string) \<Rightarrow> (string \<Rightarrow> UserAuth) \<Rightarrow> (AuthServer \<Rightarrow> bool \<Rightarrow> error + UserAuth)
   \<Rightarrow> (AuthConfig' world \<Rightarrow> error option) \<Rightarrow> AuthConfig' auth" where
  "pointerStore infer reader edit saver =
     \<lparr>getOrCreateServer = GetOrCreateServer infer,
      findUserAuths = FindUserAuths',
      createAuthUserFromEnvironment = reader,
      editUserAuth = edit,
      saveUserAuth = SaveUserAuth' saver\<rparr>"

text \<open>
  The \<^verbatim>\<open>Kind\<close> that a lookup of the server with the address observes: that of the
  object that \<^const>\<open>GetServer\<close> hands out, if there is one. Every pointer of a well-formed
  state designates an object of the heap.
\<close>

definition KindOf :: "AuthConfig' world \<Rightarrow> string \<Rightarrow> string option" where
  "KindOf w url = map_option (\<lambda>s. Kind (cells w ! s)) (GetServer w url)"

definition wellFormed :: "AuthConfig' world \<Rightarrow> bool" where
  "wellFormed w \<longleftrightarrow> list_all (\<lambda>s. s < length (cells w)) (Servers' (config w))"

section \<open>Example inputs\<close>

text \<open>
  Concrete inputs on which the definitions are evaluated below: the empty store, a saver
  that always succeeds, and the credentials and URLs of the tests of package
  \<^verbatim>\<open>auth\<close>.
\<close>

definition emptyConfig :: AuthConfig where
  "emptyConfig = \<lparr>Servers = [], DefaultUsername = '''', CurrentServer = '''',
                  PipeLineServer = '''', PipeLineUsername = ''''\<rparr>"

definition saverOk :: "AuthConfig \<Rightarrow> error option" where
  "saverOk c = None"

definition url1 :: string where "url1 = ''http://dummy/''"
definition url2 :: string where "url2 = ''http://another-jenkins/''"

definition auth1 :: UserAuth where
  "auth1 = \<lparr>Username = ''someone'', ApiToken = ''someToken'', BearerToken = ''''\<rparr>"

definition auth2 :: UserAuth where
  "auth2 = \<lparr>Username = ''another'', ApiToken = ''anotherToken'', BearerToken = ''''\<rparr>"

definition auth2v2 :: UserAuth where
  "auth2v2 = \<lparr>Username = ''another'', ApiToken = ''tokenV2'', BearerToken = ''''\<rparr>"

definition authBearer :: UserAuth where
  "authBearer = \<lparr>Username = '''', ApiToken = '''', BearerToken = ''bearer''\<rparr>"

definition server1 :: AuthServer where
  "server1 = \<lparr>URL = url1, Users = [auth1, auth2], Name = '''', Kind = '''', CurrentUser = ''someone''\<rparr>"

definition server2 :: AuthServer where
  "server2 = \<lparr>URL = url2, Users = [auth1], Name = '''', Kind = '''', CurrentUser = ''someone''\<rparr>"

definition twoServers :: AuthConfig where
  "twoServers = emptyConfig\<lparr>Servers := [server1, server2]\<rparr>"

definition statusOf :: "string \<Rightarrow> string \<Rightarrow> int \<Rightarrow> Commitstatus" where
  "statusOf key state created =
     \<lparr>Key = key, VendorState = state, VendorDescription = '''', CreatedOn = created,
      CommitHref = '''', SelfHref = ''''\<rparr>"

definition noPage :: "string \<Rightarrow> error + PaginatedCommitstatuses" where
  "noPage next = Inl ''no such page''"

definition unknownClient :: CommitstatusesClient where
  "unknownClient =
     \<lparr>StatusesGet = Inr \<lparr>Size = 1, Next = '''', Values = [statusOf ''build'' ''UNKNOWN'' 5]\<rparr>,
      StatusesPageGet = noPage\<rparr>"

definition secondPage :: "string \<Rightarrow> error + PaginatedCommitstatuses" where
  "secondPage next =
     (if next = ''page2''
      then Inr \<lparr>Size = 1, Next = '''', Values = [statusOf ''deploy'' ''INPROGRESS'' 9]\<rparr>
      else Inl ''no such page'')"

definition twoPageClient :: CommitstatusesClient where
  "twoPageClient =
     \<lparr>StatusesGet = Inr \<lparr>Size = 2, Next = ''page2'',
                          Values = [statusOf ''build'' ''SUCCESSFUL'' 5, statusOf ''test'' ''FAILED'' 7]\<rparr>,
      StatusesPageGet = secondPage\<rparr>"

definition serverError :: "string \<Rightarrow> error + Project list" where
  "serverError owner = Inl ''500 Internal Server Error''"

definition brokenGitlab :: GitlabClient where
  "brokenGitlab = \<lparr>ListGroupProjects = serverError, ListUserProjects = serverError\<rparr>"

definition acmeProjects :: "string \<Rightarrow> error + Project list" where
  "acmeProjects owner =
     (if owner = ''acme'' then Inr [\<lparr>ProjectName = ''widgets'', ProjectID = 42\<rparr>]
      else Inl ''404 Group Not Found'')"

definition acmeGitlab :: GitlabClient where
  "acmeGitlab = \<lparr>ListGroupProjects = acmeProjects, ListUserProjects = acmeProjects\<rparr>"

definition notReady :: "nat \<Rightarrow> error + string" where
  "notReady n = Inl ''404 Not Found''"

definition readyAt3 :: "nat \<Rightarrow> error + string" where
  "readyAt3 n = (if n < 3 then Inl ''404 Not Found'' else Inr ''fork'')"

definition notReadyError :: "nat \<Rightarrow> error option" where
  "notReadyError n = Some ''404 Not Found''"

definition readyErrorAt3 :: "nat \<Rightarrow> error option" where
  "readyErrorAt3 n = (if n < 3 then Some ''404 Not Found'' else None)"

definition readyError :: "nat \<Rightarrow> error option" where
  "readyError n = None"

definition neverReadyCloud :: "string CloudForkClient" where
  "neverReadyCloud = \<lparr>ForksPost = Inr ''fork'', ForksGet = notReadyError\<rparr>"

definition slowCloud :: "string CloudForkClient" where
  "slowCloud = \<lparr>ForksPost = Inr ''fork'', ForksGet = readyErrorAt3\<rparr>"

definition readyCloud :: "string CloudForkClient" where
  "readyCloud = \<lparr>ForksPost = Inr ''fork'', ForksGet = readyError\<rparr>"

definition refusingCloud :: "string CloudForkClient" where
  "refusingCloud = \<lparr>ForksPost = Inl ''403 Forbidden'', ForksGet = readyError\<rparr>"

definition neverReadyCloudPullRequests :: "string CloudPullRequestClient" where
  "neverReadyCloudPullRequests =
     \<lparr>PullrequestsPost = Inr ''pull request'', PullRequestIdGet = notReadyError\<rparr>"

definition slowCloudPullRequests :: "string CloudPullRequestClient" where
  "slowCloudPullRequests =
     \<lparr>PullrequestsPost = Inr ''pull request'', PullRequestIdGet = readyErrorAt3\<rparr>"

definition readyCloudPullRequests :: "string CloudPullRequestClient" where
  "readyCloudPullRequests =
     \<lparr>PullrequestsPost = Inr ''pull request'', PullRequestIdGet = readyError\<rparr>"

definition refusingCloudPullRequests :: "string CloudPullRequestClient" where
  "refusingCloudPullRequests =
     \<lparr>PullrequestsPost = Inl ''403 Forbidden'', PullRequestIdGet = readyError\<rparr>"

definition sameRepo :: "string \<Rightarrow> string outcome" where
  "sameRepo repo = Return repo"

definition neverReadyServer :: "string ServerForkClient" where
  "neverReadyServer =
     \<lparr>ForkRepositoryPost = None, GetUserRepository = notReady, GetRepository = notReady\<rparr>"

definition slowServer :: "string ServerForkClient" where
  "slowServer =
     \<lparr>ForkRepositoryPost = None, GetUserRepository = readyAt3, GetRepository = notReady\<rparr>"

definition refusingServer :: "string ServerForkClient" where
  "refusingServer =
     \<lparr>ForkRepositoryPost = Some ''403 Forbidden'', GetUserRepository = readyAt3,
      GetRepository = readyAt3\<rparr>"

definition forkRepository :: BitbucketRepository where
  "forkRepository =
     \<lparr>RepositoryName = ''fork'',
      LinksClone = [\<lparr>LinkName = ''http'', LinkHref = ''http://bitbucket/scm/~alice/fork''\<rparr>,
                    \<lparr>LinkName = ''ssh'', LinkHref = ''ssh://git@bitbucket/~alice/fork.git''\<rparr>],
      RepositoryLinksSelf = [''http://bitbucket/users/alice/repos/fork/browse'']\<rparr>"

definition decodeOk :: "string \<Rightarrow> error + BitbucketRepository" where
  "decodeOk raw = Inr forkRepository"

definition decodeNoSelfLink :: "string \<Rightarrow> error + BitbucketRepository" where
  "decodeNoSelfLink raw = Inr (forkRepository\<lparr>RepositoryLinksSelf := []\<rparr>)"

definition gitFork :: GitRepository where
  "gitFork =
     \<lparr>GitRepositoryName = ''fork'', HTMLURL = ''http://bitbucket/users/alice/repos/fork/browse'',
      CloneURL = ''http://bitbucket/scm/~alice/fork.git'',
      SSHURL = ''ssh://git@bitbucket/~alice/fork.git'', Fork = False\<rparr>"

definition pullRequest7 :: BitbucketPullRequest where
  "pullRequest7 =
     \<lparr>PullRequestID = 7, LinksSelf = [''http://bitbucket/projects/P/repos/r/pull-requests/7''],
      AuthorUserName = ''alice'', ToRefRepositoryName = ''r'', PullRequestState = ''OPEN''\<rparr>"

definition decodePullRequest :: "string \<Rightarrow> error + BitbucketPullRequest" where
  "decodePullRequest raw = Inr pullRequest7"

definition pullRequestNotReady :: "int \<Rightarrow> nat \<Rightarrow> error + string" where
  "pullRequestNotReady number n = Inl ''404 Not Found''"

definition neverReadyPullRequests :: "string ServerPullRequestClient" where
  "neverReadyPullRequests =
     \<lparr>CreatePullRequestWithOptions = Inr ''created'', GetPullRequest = pullRequestNotReady\<rparr>"

definition pullRequestReadyAt1 :: "int \<Rightarrow> nat \<Rightarrow> error + string" where
  "pullRequestReadyAt1 number n = (if n < 1 then Inl ''404 Not Found'' else Inr ''pull request'')"

definition slowPullRequests :: "string ServerPullRequestClient" where
  "slowPullRequests =
     \<lparr>CreatePullRequestWithOptions = Inr ''created'', GetPullRequest = pullRequestReadyAt1\<rparr>"

definition refusingPullRequests :: "string ServerPullRequestClient" where
  "refusingPullRequests =
     \<lparr>CreatePullRequestWithOptions = Inl ''403 Forbidden'', GetPullRequest = pullRequestNotReady\<rparr>"

definition decodeFails :: "string \<Rightarrow> error + BitbucketPullRequest" where
  "decodeFails raw = Inl ''cannot decode''"

definition emptyWorld :: "unit world" where
  "emptyWorld = \<lparr>config = (), cells = [], prompts = 0\<rparr>"

definition gitlabHost :: string where
  "gitlabHost = ''https://gitlab.example.com''"

definition noCredential :: UserAuth where
  "noCredential = \<lparr>Username = '''', ApiToken = '''', BearerToken = ''''\<rparr>"

definition gitlabReader :: "string \<Rightarrow> UserAuth" where
  "gitlabReader prefix =
     (if prefix = ''GITLAB'' then \<lparr>Username = ''test'', ApiToken = ''secret'', BearerToken = ''''\<rparr>
      else if prefix = ''GIT'' then \<lparr>Username = ''fallback'', ApiToken = ''other'', BearerToken = ''''\<rparr>
      else noCredential)"

definition fallbackReader :: "string \<Rightarrow> UserAuth" where
  "fallbackReader prefix =
     (if prefix = ''GITLAB'' then \<lparr>Username = ''test'', ApiToken = '''', BearerToken = ''''\<rparr>
      else if prefix = ''GIT'' then \<lparr>Username = ''fallback'', ApiToken = ''other'', BearerToken = ''''\<rparr>
      else noCredential)"

definition incompleteReader :: "string \<Rightarrow> UserAuth" where
  "incompleteReader prefix =
     (if prefix = ''GITLAB'' then \<lparr>Username = ''test'', ApiToken = '''', BearerToken = ''''\<rparr>
      else noCredential)"

definition refuseEdit :: "AuthServer \<Rightarrow> bool \<Rightarrow> error + UserAuth" where
  "refuseEdit server batchMode = Inl ''no credentials available in batch mode''"

definition newServer :: "unit world \<Rightarrow> string \<Rightarrow> nat \<times> unit world" where
  "newServer w url =
     (length (cells w),
      w\<lparr>cells := cells w @
           [\<lparr>URL = url, Users = [], Name = url, Kind = '''', CurrentUser = ''''\<rparr>]\<rparr>)"

definition nothingStored :: "(string \<Rightarrow> UserAuth) \<Rightarrow> unit auth" where
  "nothingStored reader =
     \<lparr>getOrCreateServer = newServer,
      findUserAuths = (\<lambda>w url. []),
      createAuthUserFromEnvironment = reader,
      editUserAuth = refuseEdit,
      saveUserAuth = (\<lambda>w url userAuth. (None, w))\<rparr>"

definition providerOf :: "AuthServer \<Rightarrow> UserAuth \<Rightarrow> error + AuthServer \<times> UserAuth" where
  "providerOf server user = Inr (server, user)"

definition emptyStore :: "AuthConfig' world" where
  "emptyStore =
     \<lparr>config = \<lparr>Servers' = [], DefaultUsername' = '''', CurrentServer' = '''',
                 PipeLineServer' = '''', PipeLineUsername' = ''''\<rparr>,
      cells = [], prompts = 0\<rparr>"

definition inferNothing :: "string \<Rightarrow> string \<times> string" where
  "inferNothing url = (url, '''')"

definition githubHost :: string where
  "githubHost = ''https://github.example.com''"

definition storeSaved :: "AuthConfig' world \<Rightarrow> error option" where
  "storeSaved w = None"

definition gitlabStore :: "AuthConfig' auth" where
  "gitlabStore = pointerStore inferNothing gitlabReader refuseEdit storeSaved"

definition failingWithOrganisations :: "Organisation list \<times> error option" where
  "failingWithOrganisations = ([\<lparr>Login = ''zeta''\<rparr>, \<lparr>Login = ''alpha''\<rparr>], Some ''fail'')"

section \<open>Properties\<close>

lemmas example_defs = emptyConfig_def saverOk_def url1_def url2_def auth1_def auth2_def
  auth2v2_def authBearer_def server1_def server2_def twoServers_def

subsection \<open>The validity check\<close>

text \<open>
  Claim C2. For every credential, \<^const>\<open>IsInvalid\<close> holds exactly when the bearer token is
  empty and at least one of user name and API token is empty; equivalently, a credential is
  valid exactly when it has a non-empty bearer token, or both a non-empty user name and a
  non-empty API token. The statement quantifies over all three fields, so it covers every
  permutation of empty and non-empty fields.
\<close>

theorem IsInvalid_iff:
  "(IsInvalid a \<longleftrightarrow> BearerToken a = '''' \<and> (Username a = '''' \<or> ApiToken a = ''''))
   \<and> (\<not> IsInvalid a \<longleftrightarrow> BearerToken a \<noteq> '''' \<or> (Username a \<noteq> '''' \<and> ApiToken a \<noteq> ''''))"
  by (auto simp: IsInvalid_def)

theorem IsInvalid_iff_witness:
  "IsInvalid \<lparr>Username = ''alice'', ApiToken = '''', BearerToken = ''''\<rparr>
   \<and> IsInvalid \<lparr>Username = '''', ApiToken = ''tok'', BearerToken = ''''\<rparr>
   \<and> \<not> IsInvalid \<lparr>Username = ''alice'', ApiToken = ''tok'', BearerToken = ''''\<rparr>
   \<and> \<not> IsInvalid \<lparr>Username = '''', ApiToken = '''', BearerToken = ''b''\<rparr>"
  using IsInvalid_iff [of "\<lparr>Username = ''alice'', ApiToken = '''', BearerToken = ''''\<rparr>"]
    IsInvalid_iff [of "\<lparr>Username = '''', ApiToken = ''tok'', BearerToken = ''''\<rparr>"]
    IsInvalid_iff [of "\<lparr>Username = ''alice'', ApiToken = ''tok'', BearerToken = ''''\<rparr>"]
    IsInvalid_iff [of "\<lparr>Username = '''', ApiToken = '''', BearerToken = ''b''\<rparr>"]
  by simp

subsection \<open>Looking a credential up\<close>

text \<open>
  Claim C5. \<^const>\<open>FindUserAuth\<close> with an empty user name returns the single credential of
  the server when the server has exactly one, and none when it has zero or more than one.
  With a non-empty user name it returns the (first) credential of the server whose
  \<^const>\<open>Username\<close> is that name, and none when the server has no such credential. The
  credentials of the server are \<^const>\<open>FindUserAuths\<close>, those of the first server with the
  URL.
\<close>

theorem FindUserAuth_spec:
  "(FindUserAuths c url = [a] \<longrightarrow> FindUserAuth c url '''' = Some a)
   \<and> (length (FindUserAuths c url) \<noteq> 1 \<longrightarrow> FindUserAuth c url '''' = None)
   \<and> (username \<noteq> '''' \<longrightarrow>
        (case FindUserAuth c url username of
           Some b \<Rightarrow> Username b = username
              \<and> (\<exists>i < length (FindUserAuths c url). FindUserAuths c url ! i = b
                    \<and> (\<forall>j < i. Username (FindUserAuths c url ! j) \<noteq> username))
         | None \<Rightarrow> \<forall>b \<in> set (FindUserAuths c url). Username b \<noteq> username))"
  by (auto simp: FindUserAuth_def Let_def find_None_iff find_Some_iff split: option.splits)

theorem FindUserAuth_spec_witness:
  "FindUserAuth twoServers url2 '''' = Some auth1
   \<and> FindUserAuth twoServers url1 '''' = None
   \<and> FindUserAuth twoServers ''http://unknown/'' '''' = None
   \<and> FindUserAuth twoServers url1 ''another'' = Some auth2
   \<and> FindUserAuth twoServers url1 ''doesNotExist'' = None"
  using FindUserAuth_spec [of twoServers url2 auth1 "''doesNotExist''"]
    FindUserAuth_spec [of twoServers url1 auth1 "''another''"]
    FindUserAuth_spec [of twoServers "''http://unknown/''" auth1 "''doesNotExist''"]
    FindUserAuth_spec [of twoServers url1 auth1 "''doesNotExist''"]
  by (simp add: FindUserAuths_def FindUserAuth_def example_defs)

subsection \<open>Storing a credential\<close>

lemma SetUserAuth_users_idem:
  "SetUserAuth_users (SetUserAuth_users us a) a = SetUserAuth_users us a"
  by (induction us) auto

lemma SetUserAuth_servers_idem:
  "SetUserAuth_servers (SetUserAuth_servers ss u a) u a = SetUserAuth_servers ss u a"
  by (induction ss) (auto simp: SetUserAuth_users_idem)

lemma SetUserAuth_users_existing:
  "Username auth \<notin> Username ` set upre \<Longrightarrow> Username a = Username auth
   \<Longrightarrow> SetUserAuth_users (upre @ a # upost) auth = upre @ auth # upost"
  by (induction upre) auto

lemma SetUserAuth_users_new:
  "Username auth \<notin> Username ` set us \<Longrightarrow> SetUserAuth_users us auth = us @ [auth]"
  by (induction us) auto

lemma SetUserAuth_servers_existing:
  "url \<notin> URL ` set pre \<Longrightarrow> URL s = url
   \<Longrightarrow> SetUserAuth_servers (pre @ s # post) url auth
       = pre @ s\<lparr>Users := SetUserAuth_users (Users s) auth, CurrentUser := Username auth\<rparr> # post"
  by (induction pre) auto

lemma SetUserAuth_servers_new:
  "url \<notin> URL ` set ss \<Longrightarrow> SetUserAuth_servers ss url auth
       = ss @ [\<lparr>URL = url, Users = [auth], Name = '''', Kind = '''', CurrentUser = Username auth\<rparr>]"
  by (induction ss) auto

text \<open>
  Claim C4. \<^const>\<open>SetUserAuth\<close> is an upsert keyed by server URL and user name. Let \<open>s\<close>
  be the first server with the URL (the servers before it, \<open>pre\<close>, have other URLs).
  If \<open>a\<close> is the first credential of \<open>s\<close> with the user name of the new credential, the
  call replaces \<open>a\<close> at its position and sets the server's \<^const>\<open>CurrentUser\<close>; if \<open>s\<close> has
  no credential with that user name, the call appends the new credential and sets
  \<^const>\<open>CurrentUser\<close>; if no server has the URL, the call appends a new server holding just
  the credential. Nothing else in the store changes. A second call with the same arguments
  changes nothing, so the length of the user list is stable.
\<close>

theorem SetUserAuth_upsert:
  "(Servers c = pre @ s # post \<and> url \<notin> URL ` set pre \<and> URL s = url
      \<and> Users s = upre @ a # upost \<and> Username auth \<notin> Username ` set upre
      \<and> Username a = Username auth
    \<longrightarrow> SetUserAuth c url auth
        = c\<lparr>Servers := pre @ s\<lparr>Users := upre @ auth # upost, CurrentUser := Username auth\<rparr> # post\<rparr>)
   \<and> (Servers c = pre @ s # post \<and> url \<notin> URL ` set pre \<and> URL s = url
      \<and> Username auth \<notin> Username ` set (Users s)
    \<longrightarrow> SetUserAuth c url auth
        = c\<lparr>Servers := pre @ s\<lparr>Users := Users s @ [auth], CurrentUser := Username auth\<rparr> # post\<rparr>)
   \<and> (url \<notin> URL ` set (Servers c)
    \<longrightarrow> SetUserAuth c url auth
        = c\<lparr>Servers := Servers c @
             [\<lparr>URL = url, Users = [auth], Name = '''', Kind = '''', CurrentUser = Username auth\<rparr>]\<rparr>)
   \<and> SetUserAuth (SetUserAuth c url auth) url auth = SetUserAuth c url auth
   \<and> length (FindUserAuths (SetUserAuth (SetUserAuth c url auth) url auth) url)
      = length (FindUserAuths (SetUserAuth c url auth) url)"
proof -
  have idem: "SetUserAuth (SetUserAuth c url auth) url auth = SetUserAuth c url auth"
    by (simp add: SetUserAuth_def SetUserAuth_servers_idem)
  have existing: "SetUserAuth c url auth
        = c\<lparr>Servers := pre @ s\<lparr>Users := upre @ auth # upost, CurrentUser := Username auth\<rparr> # post\<rparr>"
    if "Servers c = pre @ s # post" "url \<notin> URL ` set pre" "URL s = url"
       "Users s = upre @ a # upost" "Username auth \<notin> Username ` set upre"
       "Username a = Username auth"
    using that by (simp add: SetUserAuth_def SetUserAuth_servers_existing SetUserAuth_users_existing)
  have new_user: "SetUserAuth c url auth
        = c\<lparr>Servers := pre @ s\<lparr>Users := Users s @ [auth], CurrentUser := Username auth\<rparr> # post\<rparr>"
    if "Servers c = pre @ s # post" "url \<notin> URL ` set pre" "URL s = url"
       "Username auth \<notin> Username ` set (Users s)"
    using that by (simp add: SetUserAuth_def SetUserAuth_servers_existing SetUserAuth_users_new)
  have new_server: "SetUserAuth c url auth
        = c\<lparr>Servers := Servers c @
             [\<lparr>URL = url, Users = [auth], Name = '''', Kind = '''', CurrentUser = Username auth\<rparr>]\<rparr>"
    if "url \<notin> URL ` set (Servers c)"
    using that by (simp add: SetUserAuth_def SetUserAuth_servers_new)
  from idem existing new_user new_server show ?thesis by simp
qed

theorem SetUserAuth_upsert_witness:
  "SetUserAuth twoServers url1 auth2v2
     = twoServers\<lparr>Servers := [server1\<lparr>Users := [auth1, auth2v2], CurrentUser := ''another''\<rparr>, server2]\<rparr>
   \<and> SetUserAuth twoServers url2 auth2
     = twoServers\<lparr>Servers := [server1, server2\<lparr>Users := [auth1, auth2], CurrentUser := ''another''\<rparr>]\<rparr>
   \<and> SetUserAuth emptyConfig url1 auth1
     = emptyConfig\<lparr>Servers := [\<lparr>URL = url1, Users = [auth1], Name = '''', Kind = '''',
                                   CurrentUser = ''someone''\<rparr>]\<rparr>
   \<and> length (FindUserAuths (SetUserAuth (SetUserAuth twoServers url2 auth2) url2 auth2) url2) = 2"
proof -
  have a: "SetUserAuth twoServers url1 auth2v2
     = twoServers\<lparr>Servers := [server1\<lparr>Users := [auth1, auth2v2], CurrentUser := ''another''\<rparr>, server2]\<rparr>"
    using SetUserAuth_upsert [of twoServers "[]" server1 "[server2]" url1 "[auth1]" auth2 "[]" auth2v2]
    by (simp add: example_defs)
  have b: "SetUserAuth twoServers url2 auth2
     = twoServers\<lparr>Servers := [server1, server2\<lparr>Users := [auth1, auth2], CurrentUser := ''another''\<rparr>]\<rparr>"
    using SetUserAuth_upsert [of twoServers "[server1]" server2 "[]" url2 "[]" auth1 "[]" auth2]
    by (simp add: example_defs)
  have c: "SetUserAuth emptyConfig url1 auth1
     = emptyConfig\<lparr>Servers := [\<lparr>URL = url1, Users = [auth1], Name = '''', Kind = '''',
                                   CurrentUser = ''someone''\<rparr>]\<rparr>"
    using SetUserAuth_upsert [of emptyConfig "[]" server1 "[]" url1 "[]" auth1 "[]" auth1]
    by (simp add: example_defs)
  have d: "length (FindUserAuths (SetUserAuth (SetUserAuth twoServers url2 auth2) url2 auth2) url2) = 2"
    using SetUserAuth_upsert [of twoServers "[server1]" server2 "[]" url2 "[]" auth1 "[]" auth2]
    by (simp add: b) (simp add: FindUserAuths_def example_defs)
  from a b c d show ?thesis by blast
qed

subsection \<open>The pipeline identity\<close>

lemma SaveUserAuth_pipeline_fields:
  "PipeLineUsername (fst (SaveUserAuth saver c url a))
     = (if PipeLineUsername c = '''' then Username a else PipeLineUsername c)"
  "PipeLineServer (fst (SaveUserAuth saver c url a))
     = (if PipeLineUsername c = '''' then url else PipeLineServer c)"
  by (simp_all add: SaveUserAuth_def SetUserAuth_def Let_def)

lemma SaveUserAuth_answer:
  "snd (SaveUserAuth saver c url a) = saver (fst (SaveUserAuth saver c url a))"
  by (simp add: SaveUserAuth_def Let_def)

text \<open>
  Claim C3, as stated, fails. The guard of \<^const>\<open>SaveUserAuth\<close> is on
  \<^const>\<open>PipeLineUsername\<close> alone: a first save whose credential has an empty user name (a
  bearer-token credential, which \<^const>\<open>IsInvalid\<close> accepts) leaves
  \<^const>\<open>PipeLineUsername\<close> empty, and the next save overwrites both fields. Two successful
  saves to different servers, starting from the empty store, end with the values of the
  second call.
\<close>

theorem SaveUserAuth_first_writer_counterexample:
  "\<not> IsInvalid authBearer
   \<and> snd (SaveUserAuth saverOk emptyConfig url1 authBearer) = None
   \<and> snd (SaveUserAuth saverOk (fst (SaveUserAuth saverOk emptyConfig url1 authBearer)) url2 auth2) = None
   \<and> PipeLineServer (fst (SaveUserAuth saverOk (fst (SaveUserAuth saverOk emptyConfig url1 authBearer)) url2 auth2))
       = url2
   \<and> PipeLineUsername (fst (SaveUserAuth saverOk (fst (SaveUserAuth saverOk emptyConfig url1 authBearer)) url2 auth2))
       = Username auth2
   \<and> url2 \<noteq> url1 \<and> Username auth2 \<noteq> Username authBearer"
  by (simp add: SaveUserAuth_pipeline_fields SaveUserAuth_answer IsInvalid_def example_defs)

text \<open>
  Claim C3, amended. Once \<^const>\<open>PipeLineUsername\<close> is non-empty, no save changes
  \<^const>\<open>PipeLineUsername\<close> or \<^const>\<open>PipeLineServer\<close>. Starting from a store whose
  \<^const>\<open>PipeLineUsername\<close> is empty, after two saves of which the first has a non-empty
  user name, both fields hold the values of the first call, whatever the second call and
  whatever the saver answers.
\<close>

theorem SaveUserAuth_first_writer:
  "(PipeLineUsername c \<noteq> '''' \<longrightarrow>
       PipeLineUsername (fst (SaveUserAuth saver c url a)) = PipeLineUsername c
     \<and> PipeLineServer (fst (SaveUserAuth saver c url a)) = PipeLineServer c)
   \<and> (PipeLineUsername c = '''' \<and> Username a1 \<noteq> '''' \<longrightarrow>
       PipeLineUsername (fst (SaveUserAuth saver2 (fst (SaveUserAuth saver1 c u1 a1)) u2 a2)) = Username a1
     \<and> PipeLineServer (fst (SaveUserAuth saver2 (fst (SaveUserAuth saver1 c u1 a1)) u2 a2)) = u1)"
  by (simp add: SaveUserAuth_pipeline_fields)

theorem SaveUserAuth_first_writer_witness:
  "PipeLineUsername (fst (SaveUserAuth saverOk (fst (SaveUserAuth saverOk emptyConfig url1 auth1)) url2 auth2))
     = ''someone''
   \<and> PipeLineServer (fst (SaveUserAuth saverOk (fst (SaveUserAuth saverOk emptyConfig url1 auth1)) url2 auth2))
     = ''http://dummy/''
   \<and> PipeLineServer (fst (SaveUserAuth saverOk
        (fst (SaveUserAuth saverOk (fst (SaveUserAuth saverOk emptyConfig url1 auth1)) url2 auth2))
        ''http://third/'' auth2v2))
     = ''http://dummy/''"
  using SaveUserAuth_first_writer [of emptyConfig saverOk url1 auth1 auth1 saverOk saverOk url1 url2 auth2]
    SaveUserAuth_first_writer [of
      "fst (SaveUserAuth saverOk (fst (SaveUserAuth saverOk emptyConfig url1 auth1)) url2 auth2)"
      saverOk "''http://third/''" auth2v2 auth1 saverOk saverOk url1 url2 auth2]
  by (simp add: example_defs)

subsection \<open>Organisations\<close>

lemma GetOrganizations_loop_eq:
  "GetOrganizations_loop acc orgs = acc @ filter (\<lambda>n. n \<noteq> '''') (map Login orgs)"
  by (induction orgs arbitrary: acc) auto

lemma GetOrganizations_eq:
  "GetOrganizations (orgs, err) userName
     = sort (userName # filter (\<lambda>n. n \<noteq> '''') (map Login orgs))"
  by (simp only: GetOrganizations_def GetOrganizations_loop_eq Let_def fst_conv append.simps)

lemma sort_singleton_iff:
  "sort (x # xs) = [x] \<longleftrightarrow> xs = []" for x :: string
proof
  assume "sort (x # xs) = [x]"
  then have "length (sort (x # xs)) = length [x]"
    by (rule arg_cong)
  then show "xs = []"
    by (simp only: length_sort) simp
next
  assume "xs = []"
  then show "sort (x # xs) = [x]"
    by simp
qed

text \<open>
  Claim C10, as stated, fails for a lister that answers organisations together with an
  error: the error is dropped and the organisations are used. The lister
  \<^term>\<open>failingWithOrganisations\<close> answers the organisations \<^verbatim>\<open>zeta\<close> and \<^verbatim>\<open>alpha\<close> and
  the error \<^verbatim>\<open>fail\<close>; for the user name \<^verbatim>\<open>mid\<close> the result has three elements, not the
  one-element list of the user name.
\<close>

theorem GetOrganizations_failure_counterexample:
  "snd failingWithOrganisations = Some ''fail''
   \<and> GetOrganizations failingWithOrganisations ''mid'' = [''alpha'', ''mid'', ''zeta'']
   \<and> GetOrganizations failingWithOrganisations ''mid'' \<noteq> [''mid'']"
  by (simp add: failingWithOrganisations_def GetOrganizations_def
      less_eq_list_code less_list_code less_eq_char_def less_char_def)

text \<open>
  Claim C10, amended. For every answer of the lister, organisations and error, and every user
  name, \<^const>\<open>GetOrganizations\<close> returns a list in ascending lexicographic order that
  contains the user name: it is the sorted list of the user name and the non-empty logins of
  the organisations that the lister answered. The error of the lister is dropped: the result
  is the same with and without it. The result is the one-element list of the user name
  exactly when the lister answered no organisation with a non-empty login, in particular when
  it answered no organisation at all, with or without an error.
\<close>

theorem GetOrganizations_sorted:
  "sorted (GetOrganizations (orgs, err) userName)
   \<and> userName \<in> set (GetOrganizations (orgs, err) userName)
   \<and> set (GetOrganizations (orgs, err) userName)
       = insert userName (set (map Login orgs) - {''''})
   \<and> GetOrganizations (orgs, err) userName
       = sort (userName # filter (\<lambda>n. n \<noteq> '''') (map Login orgs))
   \<and> GetOrganizations (orgs, Some e) userName = GetOrganizations (orgs, None) userName
   \<and> (GetOrganizations (orgs, err) userName = [userName]
        \<longleftrightarrow> (\<forall>org \<in> set orgs. Login org = ''''))
   \<and> GetOrganizations ([], err) userName = [userName]"
proof -
  let ?names = "userName # filter (\<lambda>n. n \<noteq> '''') (map Login orgs)"
  have c1: "sorted (GetOrganizations (orgs, err) userName)"
    by (simp only: GetOrganizations_eq) (rule sorted_sort)
  have c3: "set (GetOrganizations (orgs, err) userName)
       = insert userName (set (map Login orgs) - {''''})"
    by (simp only: GetOrganizations_eq set_sort) auto
  have c2: "userName \<in> set (GetOrganizations (orgs, err) userName)"
    unfolding c3 by simp
  have c4: "GetOrganizations (orgs, err) userName = sort ?names"
    by (rule GetOrganizations_eq)
  have c5: "GetOrganizations (orgs, Some e) userName = GetOrganizations (orgs, None) userName"
    by (simp only: GetOrganizations_eq)
  have "filter (\<lambda>n. n \<noteq> '''') (map Login orgs) = [] \<longleftrightarrow> (\<forall>org \<in> set orgs. Login org = '''')"
    by (simp add: filter_empty_conv)
  then have c6: "GetOrganizations (orgs, err) userName = [userName]
        \<longleftrightarrow> (\<forall>org \<in> set orgs. Login org = '''')"
    by (simp only: GetOrganizations_eq sort_singleton_iff)
  have c7: "GetOrganizations ([], err) userName = [userName]"
    by (simp add: GetOrganizations_eq)
  from c1 c2 c3 c4 c5 c6 c7 show ?thesis
    by (intro conjI) assumption+
qed

theorem GetOrganizations_sorted_witness:
  "GetOrganizations ([\<lparr>Login = ''testorg''\<rparr>, \<lparr>Login = ''''\<rparr>, \<lparr>Login = ''anotherorg''\<rparr>], None) ''testuser''
     = [''anotherorg'', ''testorg'', ''testuser'']
   \<and> GetOrganizations ([\<lparr>Login = ''''\<rparr>], Some ''fail'') ''testuser'' = [''testuser'']
   \<and> GetOrganizations ([], Some ''fail'') ''testuser'' = [''testuser'']"
  using GetOrganizations_sorted [of "[\<lparr>Login = ''testorg''\<rparr>, \<lparr>Login = ''''\<rparr>, \<lparr>Login = ''anotherorg''\<rparr>]" None "''testuser''" "''fail''"]
   GetOrganizations_sorted [of "[\<lparr>Login = ''''\<rparr>]" "Some ''fail''" "''testuser''" "''fail''"]
   GetOrganizations_sorted [of "[]" "Some ''fail''" "''testuser''" "''fail''"]
  by (simp add: less_eq_list_code less_list_code less_eq_char_def less_char_def)

subsection \<open>Commit statuses of Bitbucket Cloud\<close>

lemma stateMap_index_cases:
  "stateMap_index v =
     (if v = ''STOPPED'' then ''stopped''
      else if v = ''INPROGRESS'' then ''in-progress''
      else if v = ''FAILED'' then ''failure''
      else if v = ''SUCCESSFUL'' then ''success''
      else '''')"
  by (simp add: stateMap_index_def stateMap_def)

lemma stateMap_index_range:
  "stateMap_index v \<in> {''success'', ''failure'', ''in-progress'', ''stopped'', ''''}"
  by (simp add: stateMap_index_cases)

lemma ListCommitStatus_loop_appends:
  "ListCommitStatus_loop client nxt statuses = Some y
   \<Longrightarrow> (case y of Inl err \<Rightarrow> True | Inr out \<Rightarrow> \<exists>vs. out = statuses @ map toRepoStatus vs)"
proof (induction client nxt statuses y rule: ListCommitStatus_loop.raw_induct [rotated 1, consumes 1])
  case (1 loop client nxt statuses y)
  note IH = 1(1) and body = 1(2)
  show ?case
  proof (cases "fetchStatuses client nxt")
    case (Inl err)
    with body show ?thesis by auto
  next
    case (Inr result)
    show ?thesis
    proof (cases "Next result = ''''")
      case True
      with body Inr show ?thesis by (auto simp: Let_def)
    next
      case False
      with body Inr
      have call: "loop client (Next result) (statuses @ map toRepoStatus (Values result)) = Some y"
        by (simp add: Let_def)
      show ?thesis
      proof (cases y)
        case (Inl err)
        then show ?thesis by simp
      next
        case (Inr out)
        with IH [OF call] obtain vs
          where "out = (statuses @ map toRepoStatus (Values result)) @ map toRepoStatus vs"
          by auto
        then have "out = statuses @ map toRepoStatus (Values result @ vs)" by simp
        then have "\<exists>ws. out = statuses @ map toRepoStatus ws" ..
        with Inr show ?thesis by simp
      qed
    qed
  qed
qed

lemma PullRequestLastCommitStatus_loop_range:
  "PullRequestLastCommitStatus_loop client nxt latest = Some y
   \<Longrightarrow> (case y of Inl err \<Rightarrow> True
        | Inr st \<Rightarrow> st \<in> {''success'', ''failure'', ''in-progress'', ''stopped'', ''''})"
proof (induction client nxt latest y rule: PullRequestLastCommitStatus_loop.raw_induct [rotated 1, consumes 1])
  case (1 loop client nxt latest y)
  note IH = 1(1) and body = 1(2)
  show ?case
  proof (cases "fetchStatuses client nxt")
    case (Inl err)
    with body show ?thesis by auto
  next
    case (Inr result)
    show ?thesis
    proof (cases "Size result = 0")
      case True
      with body Inr show ?thesis by auto
    next
      case nonempty: False
      show ?thesis
      proof (cases "Next result = ''''")
        case True
        with body Inr nonempty
        have "y = Inr (stateMap_index (VendorState (latestOf latest (Values result))))"
          by (simp add: Let_def)
        then show ?thesis using stateMap_index_range by simp
      next
        case False
        with body Inr nonempty
        have "loop client (Next result) (latestOf latest (Values result)) = Some y"
          by (simp add: Let_def)
        from IH [OF this] show ?thesis .
      qed
    qed
  qed
qed

text \<open>
  Claim C9, as stated, fails. A vendor state that is not a key of \<^const>\<open>stateMap\<close> is
  translated to the empty string, the zero value of a Go map lookup, which is none of the six
  normalized values. The client below answers one page with one status whose vendor state
  is \<^verbatim>\<open>UNKNOWN\<close>.
\<close>

theorem ListCommitStatus_states_counterexample:
  "ListCommitStatus unknownClient = Some (Inr [toRepoStatus (statusOf ''build'' ''UNKNOWN'' 5)])
   \<and> State (toRepoStatus (statusOf ''build'' ''UNKNOWN'' 5)) = ''''
   \<and> State (toRepoStatus (statusOf ''build'' ''UNKNOWN'' 5))
       \<notin> {''pending'', ''success'', ''error'', ''failure'', ''in-progress'', ''stopped''}"
  by (simp add: ListCommitStatus_def ListCommitStatus_loop.simps fetchStatuses_def unknownClient_def
      toRepoStatus_def statusOf_def stateMap_index_cases)

text \<open>
  Claim C9, amended. Every status that \<^const>\<open>ListCommitStatus\<close> returns is the
  translation \<^const>\<open>toRepoStatus\<close> of a vendor status, and its \<^const>\<open>State\<close> is the lookup
  of the vendor state in \<^const>\<open>stateMap\<close>: \<^verbatim>\<open>success\<close>, \<^verbatim>\<open>failure\<close>,
  \<^verbatim>\<open>in-progress\<close> or \<^verbatim>\<open>stopped\<close> for the four keys of the table, and the empty string
  for every other vendor state. \<^const>\<open>PullRequestLastCommitStatus\<close> returns one of the
  same five values. So a state is one of the six normalized values or the empty string;
  \<^verbatim>\<open>pending\<close> and \<^verbatim>\<open>error\<close> are never produced by this table.
\<close>

theorem commit_status_states:
  "(ListCommitStatus client = Some (Inr statuses) \<longrightarrow>
      (\<exists>vs. statuses = map toRepoStatus vs)
      \<and> (\<forall>s \<in> set statuses. State s \<in> {''success'', ''failure'', ''in-progress'', ''stopped'', ''''}))
   \<and> (PullRequestLastCommitStatus client = Some (Inr st) \<longrightarrow>
      st \<in> {''success'', ''failure'', ''in-progress'', ''stopped'', ''''})
   \<and> State (toRepoStatus status) = stateMap_index (VendorState status)
   \<and> stateMap_index ''SUCCESSFUL'' = ''success'' \<and> stateMap_index ''FAILED'' = ''failure''
   \<and> stateMap_index ''INPROGRESS'' = ''in-progress'' \<and> stateMap_index ''STOPPED'' = ''stopped''
   \<and> (v \<notin> {''SUCCESSFUL'', ''FAILED'', ''INPROGRESS'', ''STOPPED''} \<longrightarrow> stateMap_index v = '''')"
proof -
  have list: "(\<exists>vs. statuses = map toRepoStatus vs)
      \<and> (\<forall>s \<in> set statuses. State s \<in> {''success'', ''failure'', ''in-progress'', ''stopped'', ''''})"
    if "ListCommitStatus client = Some (Inr statuses)"
  proof -
    from that obtain vs where vs: "statuses = map toRepoStatus vs"
      using ListCommitStatus_loop_appends [of client "''''" "[]" "Inr statuses"]
      by (auto simp: ListCommitStatus_def)
    have "State (toRepoStatus w) \<in> {''success'', ''failure'', ''in-progress'', ''stopped'', ''''}" for w
      using stateMap_index_range [of "VendorState w"] by (simp add: toRepoStatus_def)
    with vs show ?thesis by auto
  qed
  have last: "st \<in> {''success'', ''failure'', ''in-progress'', ''stopped'', ''''}"
    if "PullRequestLastCommitStatus client = Some (Inr st)"
    using that PullRequestLastCommitStatus_loop_range [of client "''''" zeroCommitstatus "Inr st"]
    by (simp add: PullRequestLastCommitStatus_def)
  have conv: "State (toRepoStatus status) = stateMap_index (VendorState status)"
    by (simp add: toRepoStatus_def)
  have table: "stateMap_index ''SUCCESSFUL'' = ''success''" "stateMap_index ''FAILED'' = ''failure''"
    "stateMap_index ''INPROGRESS'' = ''in-progress''" "stateMap_index ''STOPPED'' = ''stopped''"
    "v \<notin> {''SUCCESSFUL'', ''FAILED'', ''INPROGRESS'', ''STOPPED''} \<Longrightarrow> stateMap_index v = ''''"
    by (simp_all add: stateMap_index_cases)
  from list last conv table show ?thesis by blast
qed

lemma ListCommitStatus_twoPageClient:
  "ListCommitStatus twoPageClient
     = Some (Inr [toRepoStatus (statusOf ''build'' ''SUCCESSFUL'' 5),
                  toRepoStatus (statusOf ''test'' ''FAILED'' 7),
                  toRepoStatus (statusOf ''deploy'' ''INPROGRESS'' 9)])"
  by (simp add: ListCommitStatus_def ListCommitStatus_loop.simps fetchStatuses_def twoPageClient_def
      secondPage_def)

lemma PullRequestLastCommitStatus_twoPageClient:
  "PullRequestLastCommitStatus twoPageClient = Some (Inr ''in-progress'')"
  by (simp add: PullRequestLastCommitStatus_def PullRequestLastCommitStatus_loop.simps
      fetchStatuses_def twoPageClient_def secondPage_def zeroCommitstatus_def statusOf_def
      stateMap_index_cases)

theorem commit_status_states_witness:
  "ListCommitStatus twoPageClient
     = Some (Inr [toRepoStatus (statusOf ''build'' ''SUCCESSFUL'' 5),
                  toRepoStatus (statusOf ''test'' ''FAILED'' 7),
                  toRepoStatus (statusOf ''deploy'' ''INPROGRESS'' 9)])
   \<and> map State [toRepoStatus (statusOf ''build'' ''SUCCESSFUL'' 5),
                  toRepoStatus (statusOf ''test'' ''FAILED'' 7),
                  toRepoStatus (statusOf ''deploy'' ''INPROGRESS'' 9)]
       = [''success'', ''failure'', ''in-progress'']
   \<and> PullRequestLastCommitStatus twoPageClient = Some (Inr ''in-progress'')
   \<and> stateMap_index ''UNKNOWN'' = ''''"
  using commit_status_states [of twoPageClient
      "[toRepoStatus (statusOf ''build'' ''SUCCESSFUL'' 5),
        toRepoStatus (statusOf ''test'' ''FAILED'' 7),
        toRepoStatus (statusOf ''deploy'' ''INPROGRESS'' 9)]" "''in-progress''"
      "statusOf ''build'' ''SUCCESSFUL'' 5" "''UNKNOWN''"]
    commit_status_states [of twoPageClient "[]" "''in-progress''" "statusOf ''test'' ''FAILED'' 7" "''UNKNOWN''"]
    commit_status_states [of twoPageClient "[]" "''in-progress''" "statusOf ''deploy'' ''INPROGRESS'' 9" "''UNKNOWN''"]
    ListCommitStatus_twoPageClient PullRequestLastCommitStatus_twoPageClient
  by (simp add: statusOf_def)

subsection \<open>Checking that a repository name is free\<close>

lemma GitHub_ValidateRepositoryName_cases:
  "GitHub_ValidateRepositoryName (r, None) org name
     = Return (Some (''Repository '' @ RepoName org name @ '' already exists''))"
  "GitHub_ValidateRepositoryName (Some \<lparr>StatusCode = 404\<rparr>, Some e) org name = Return None"
  "code \<noteq> 404 \<Longrightarrow>
     GitHub_ValidateRepositoryName (Some \<lparr>StatusCode = code\<rparr>, Some e) org name = Return (Some e)"
  "GitHub_ValidateRepositoryName (None, Some e) org name = Panic"
  by (simp_all add: GitHub_ValidateRepositoryName_def)

lemma Gitea_ValidateRepositoryName_cases:
  "Gitea_ValidateRepositoryName None org name
     = Some (''Repository '' @ RepoName org name @ '' already exists'')"
  "Contains e ''404'' \<Longrightarrow> Gitea_ValidateRepositoryName (Some e) org name = None"
  "\<not> Contains e ''404'' \<Longrightarrow> Gitea_ValidateRepositoryName (Some e) org name = Some e"
  by (simp_all add: Gitea_ValidateRepositoryName_def)

lemma Gitlab_ValidateRepositoryName_cases:
  "projectId g org username name = Inr pid \<Longrightarrow>
     Gitlab_ValidateRepositoryName g username org name = Some (''repository '' @ pid @ '' already exists'')"
  "projectId g org username name = Inl err \<Longrightarrow>
     Gitlab_ValidateRepositoryName g username org name = None"
  by (simp_all add: Gitlab_ValidateRepositoryName_def)

text \<open>
  Claim C7 holds of the GitHub adapter when the vendor answers with a response, and of the
  Gitea adapter, as the lemmas above say; the Gitlab adapter breaks it.
  \<^const>\<open>Gitlab_ValidateRepositoryName\<close> answers every error of \<^const>\<open>projectId\<close> with
  \<^verbatim>\<open>nil\<close>, the vendor's errors included. Against a client whose two listing calls fail
  with \<^verbatim>\<open>500 Internal Server Error\<close>, \<^const>\<open>getRepositories\<close> and \<^const>\<open>projectId\<close>
  return that error, and the validation reports the name as free, where the claim has the
  error propagated.
\<close>

theorem Gitlab_ValidateRepositoryName_masks_error:
  "getRepositories brokenGitlab ''alice'' ''acme'' = Inl ''500 Internal Server Error''
   \<and> projectId brokenGitlab ''acme'' ''alice'' ''widgets'' = Inl ''500 Internal Server Error''
   \<and> Gitlab_ValidateRepositoryName brokenGitlab ''alice'' ''acme'' ''widgets'' = None"
  by (simp add: Gitlab_ValidateRepositoryName_def projectId_def getRepositories_def
      brokenGitlab_def serverError_def)

lemma Gitlab_ValidateRepositoryName_acme:
  "Gitlab_ValidateRepositoryName acmeGitlab ''alice'' ''acme'' ''widgets''
     = Some ''repository 42 already exists''"
  "Gitlab_ValidateRepositoryName acmeGitlab ''alice'' ''acme'' ''gadgets'' = None"
  by (simp_all add: Gitlab_ValidateRepositoryName_def projectId_def getRepositories_def
      acmeGitlab_def acmeProjects_def Itoa_def digits.simps)

subsection \<open>Read-after-write retries\<close>

lemma readNo_simps [simp]:
  "readNo [] = 0"
  "readNo (Read # log) = Suc (readNo log)"
  "readNo (Create # log) = readNo log"
  "readNo (Sleep n # log) = readNo log"
  "readNo (log @ log') = readNo log + readNo log'"
  by (simp_all add: readNo_def)

lemma createNo_simps [simp]:
  "createNo [] = 0"
  "createNo (Create # log) = Suc (createNo log)"
  "createNo (Read # log) = createNo log"
  "createNo (Sleep n # log) = createNo log"
  "createNo (log @ log') = createNo log + createNo log'"
  by (simp_all add: createNo_def)

lemma slept_append [simp]: "slept (log @ log') = slept log + slept log'"
  by (induction log rule: slept.induct) simp_all

lemma counts_rounds [simp]:
  "readNo (concat (replicate n [Read, Sleep 2])) = n"
  "createNo (concat (replicate n [Read, Sleep 2])) = 0"
  "slept (concat (replicate n [Read, Sleep 2])) = 2 * n"
  "readNo (concat (replicate n [Sleep 2, Read])) = n"
  "createNo (concat (replicate n [Sleep 2, Read])) = 0"
  "slept (concat (replicate n [Sleep 2, Read])) = 2 * n"
  by (induction n) simp_all

lemma Cloud_retry_all_fail:
  "i \<le> 30 \<Longrightarrow> \<forall>m < 30 - i. get (readNo log + m) \<noteq> None
   \<Longrightarrow> Cloud_retry get i log = log @ concat (replicate (30 - i) [Read, Sleep 2])"
proof (induction get i log rule: Cloud_retry.induct)
  case (1 get i log)
  show ?case
  proof (cases "i < 30")
    case False
    with 1(2) show ?thesis by (simp add: Cloud_retry.simps)
  next
    case True
    with 1(3) have fails: "get (readNo log) \<noteq> None" by (metis add.right_neutral zero_less_diff)
    have rest: "\<forall>m < 30 - (i + 1). get (readNo ((log @ [Read]) @ [Sleep 2]) + m) \<noteq> None"
    proof (intro allI impI)
      fix m assume "m < 30 - (i + 1)"
      then have "Suc m < 30 - i" by simp
      with 1(3) have "get (readNo log + Suc m) \<noteq> None" by blast
      then show "get (readNo ((log @ [Read]) @ [Sleep 2]) + m) \<noteq> None" by simp
    qed
    have "Cloud_retry get (i + 1) ((log @ [Read]) @ [Sleep 2])
            = ((log @ [Read]) @ [Sleep 2]) @ concat (replicate (30 - (i + 1)) [Read, Sleep 2])"
      using True fails rest by (intro 1(1)) simp_all
    moreover have "30 - i = Suc (30 - (i + 1))" using True by simp
    ultimately show ?thesis
      using True fails by (subst Cloud_retry.simps) (simp add: Let_def)
  qed
qed

lemma Cloud_retry_success:
  "k < 30 - i \<Longrightarrow> \<forall>m < k. get (readNo log + m) \<noteq> None \<Longrightarrow> get (readNo log + k) = None
   \<Longrightarrow> Cloud_retry get i log = log @ concat (replicate k [Read, Sleep 2]) @ [Read]"
proof (induction k arbitrary: i log)
  case 0
  then show ?case by (subst Cloud_retry.simps) (simp add: Let_def)
next
  case (Suc k)
  from Suc.prems have i: "i < 30" and fails: "get (readNo log) \<noteq> None" by auto
  have "Cloud_retry get (i + 1) ((log @ [Read]) @ [Sleep 2])
          = ((log @ [Read]) @ [Sleep 2]) @ concat (replicate k [Read, Sleep 2]) @ [Read]"
  proof (rule Suc.IH)
    show "k < 30 - (i + 1)" using Suc.prems(1) by simp
    show "\<forall>m<k. get (readNo ((log @ [Read]) @ [Sleep 2]) + m) \<noteq> None"
      using Suc.prems(2) by auto
    show "get (readNo ((log @ [Read]) @ [Sleep 2]) + k) = None"
      using Suc.prems(3) by simp
  qed
  then show ?case
    using i fails by (subst Cloud_retry.simps) (simp add: Let_def)
qed

lemma Cloud_retry_counts:
  "createNo (Cloud_retry get i log) = createNo log
   \<and> readNo (Cloud_retry get i log) \<le> readNo log + (30 - i)"
proof (induction get i log rule: Cloud_retry.induct)
  case (1 get i log)
  show ?case
  proof (cases "i < 30 \<and> get (readNo log) \<noteq> None")
    case True
    then have step: "Cloud_retry get i log = Cloud_retry get (i + 1) ((log @ [Read]) @ [Sleep 2])"
      by (subst Cloud_retry.simps) (auto simp: Let_def)
    from True 1 [of "get (readNo log)" "log @ [Read]"]
    have "createNo (Cloud_retry get (i + 1) ((log @ [Read]) @ [Sleep 2])) = createNo log"
      and "readNo (Cloud_retry get (i + 1) ((log @ [Read]) @ [Sleep 2]))
             \<le> Suc (readNo log) + (30 - (i + 1))"
      by simp_all
    with True show ?thesis unfolding step by (simp; arith)
  next
    case False
    then show ?thesis by (subst (1 2) Cloud_retry.simps) (auto simp: Let_def)
  qed
qed

lemma Server_retry_all_fail:
  "i < 30 \<Longrightarrow> \<forall>m < 30 - i. isl (get (readNo log + m))
   \<Longrightarrow> Server_retry get i current log
       = (Some (get (readNo log + (29 - i))), log @ concat (replicate (30 - i) [Sleep 2, Read]))"
proof (induction get i current log rule: Server_retry.induct)
  case (1 get i current log)
  from 1(3) 1(2) have "isl (get (readNo log))"
    by (metis add.right_neutral zero_less_diff)
  then obtain err where err: "get (readNo log) = Inl err" by (cases "get (readNo log)") auto
  with 1(2) have step: "Server_retry get i current log
      = Server_retry get (i + 1) (Some (get (readNo log))) ((log @ [Sleep 2]) @ [Read])"
    by (subst Server_retry.simps) (simp add: Let_def)
  show ?case
  proof (cases "i = 29")
    case True
    then show ?thesis
      unfolding step using err by (subst Server_retry.simps) simp
  next
    case False
    with 1(2) have i: "i + 1 < 30" by simp
    have rest: "\<forall>m < 30 - (i + 1). isl (get (readNo ((log @ [Sleep 2]) @ [Read]) + m))"
    proof (intro allI impI)
      fix m assume "m < 30 - (i + 1)"
      then have "Suc m < 30 - i" by simp
      with 1(3) have "isl (get (readNo log + Suc m))" by blast
      then show "isl (get (readNo ((log @ [Sleep 2]) @ [Read]) + m))" by simp
    qed
    have IH: "Server_retry get (i + 1) (Some (get (readNo (log @ [Sleep 2])))) ((log @ [Sleep 2]) @ [Read])
            = (Some (get (readNo ((log @ [Sleep 2]) @ [Read]) + (29 - (i + 1)))),
               ((log @ [Sleep 2]) @ [Read]) @ concat (replicate (30 - (i + 1)) [Sleep 2, Read]))"
      using 1(2) err i rest by (intro 1(1)) simp_all
    have idx: "readNo ((log @ [Sleep 2]) @ [Read]) + (29 - (i + 1)) = readNo log + (29 - i)"
      using i by simp
    have rounds: "30 - i = Suc (30 - (i + 1))" using i by simp
    have "Server_retry get (i + 1) (Some (get (readNo log))) ((log @ [Sleep 2]) @ [Read])
            = (Some (get (readNo log + (29 - i))),
               ((log @ [Sleep 2]) @ [Read]) @ concat (replicate (30 - (i + 1)) [Sleep 2, Read]))"
      using IH unfolding idx by simp
    then show ?thesis unfolding step rounds by simp
  qed
qed

lemma Server_retry_success:
  "k < 30 - i \<Longrightarrow> \<forall>m < k. isl (get (readNo log + m)) \<Longrightarrow> get (readNo log + k) = Inr raw
   \<Longrightarrow> Server_retry get i current log
       = (Some (Inr raw), log @ concat (replicate (Suc k) [Sleep 2, Read]))"
proof (induction k arbitrary: i log current)
  case 0
  then show ?case by (subst Server_retry.simps) (simp add: Let_def)
next
  case (Suc k)
  from Suc.prems have i: "i < 30" and "isl (get (readNo log))" by auto
  then obtain err where err: "get (readNo log) = Inl err" by (cases "get (readNo log)") auto
  have "Server_retry get (i + 1) (Some (Inl err)) ((log @ [Sleep 2]) @ [Read])
          = (Some (Inr raw), ((log @ [Sleep 2]) @ [Read]) @ concat (replicate (Suc k) [Sleep 2, Read]))"
  proof (rule Suc.IH)
    show "k < 30 - (i + 1)" using Suc.prems(1) by simp
    show "\<forall>m<k. isl (get (readNo ((log @ [Sleep 2]) @ [Read]) + m))"
      using Suc.prems(2) by auto
    show "get (readNo ((log @ [Sleep 2]) @ [Read]) + k) = Inr raw"
      using Suc.prems(3) by simp
  qed
  then show ?case
    using i err by (subst Server_retry.simps) (simp add: Let_def)
qed

lemma Server_retry_counts:
  "createNo (snd (Server_retry get i current log)) = createNo log
   \<and> readNo (snd (Server_retry get i current log)) \<le> readNo log + (30 - i)
   \<and> (current \<noteq> None \<or> i < 30 \<longrightarrow> fst (Server_retry get i current log) \<noteq> None)"
proof (induction get i current log rule: Server_retry.induct)
  case (1 get i current log)
  show ?case
  proof (cases "i < 30")
    case False
    then show ?thesis by (subst (1 2 3) Server_retry.simps) simp
  next
    case True
    show ?thesis
    proof (cases "get (readNo log)")
      case (Inr raw)
      with True show ?thesis by (subst (1 2 3) Server_retry.simps) (simp add: Let_def)
    next
      case (Inl err)
      with True have step: "Server_retry get i current log
          = Server_retry get (i + 1) (Some (Inl err)) ((log @ [Sleep 2]) @ [Read])"
        by (subst Server_retry.simps) (simp add: Let_def)
      from True Inl 1 [of "log @ [Sleep 2]" "get (readNo log)" "(log @ [Sleep 2]) @ [Read]" err]
      have "createNo (snd (Server_retry get (i + 1) (Some (Inl err)) ((log @ [Sleep 2]) @ [Read])))
              = createNo log"
        and "readNo (snd (Server_retry get (i + 1) (Some (Inl err)) ((log @ [Sleep 2]) @ [Read])))
              \<le> Suc (readNo log) + (30 - (i + 1))"
        and "fst (Server_retry get (i + 1) (Some (Inl err)) ((log @ [Sleep 2]) @ [Read])) \<noteq> None"
        by simp_all
      with True show ?thesis unfolding step by (simp; arith)
    qed
  qed
qed

lemma Cloud_wait_ready:
  assumes "\<forall>n \<le> k. get n \<noteq> None" and "get (Suc k) = None" and "k < 30"
  shows "Cloud_retry get 0 [Create, Read]
           = [Create, Read] @ concat (replicate k [Read, Sleep 2]) @ [Read]"
proof (rule Cloud_retry_success)
  show "k < 30 - 0" using assms(3) by simp
  show "\<forall>m<k. get (readNo [Create, Read] + m) \<noteq> None" using assms(1) by simp
  show "get (readNo [Create, Read] + k) = None" using assms(2) by simp
qed

lemma Cloud_wait_never_ready:
  assumes "\<forall>n \<le> 30. get n \<noteq> None"
  shows "Cloud_retry get 0 [Create, Read]
           = [Create, Read] @ concat (replicate 30 [Read, Sleep 2])"
proof -
  have "\<forall>m < 30 - 0. get (readNo [Create, Read] + m) \<noteq> None"
    using assms by simp
  then have "Cloud_retry get 0 [Create, Read]
               = [Create, Read] @ concat (replicate (30 - 0) [Read, Sleep 2])"
    by (intro Cloud_retry_all_fail) simp_all
  then show ?thesis by simp
qed

lemma Cloud_ForkRepository_refused:
  "ForksPost client = Inl err \<Longrightarrow> Cloud_ForkRepository client toGit = (Return (Inl err), [Create])"
  by (simp add: Cloud_ForkRepository_def)

lemma Cloud_ForkRepository_eq:
  "ForksPost client = Inr repo \<Longrightarrow>
     Cloud_ForkRepository client toGit
       = (case toGit repo of Panic \<Rightarrow> Panic | Return gitRepo \<Rightarrow> Return (Inr gitRepo),
          if ForksGet client 0 \<noteq> None then Cloud_retry (ForksGet client) 0 [Create, Read]
          else [Create, Read])"
  by (cases "toGit repo") (simp_all add: Cloud_ForkRepository_def Let_def)

lemma Cloud_ForkRepository_result:
  "ForksPost client = Inr repo \<Longrightarrow>
     fst (Cloud_ForkRepository client toGit)
       = (case toGit repo of Panic \<Rightarrow> Panic | Return gitRepo \<Rightarrow> Return (Inr gitRepo))
     \<and> createNo (snd (Cloud_ForkRepository client toGit)) = 1
     \<and> readNo (snd (Cloud_ForkRepository client toGit)) \<le> 31"
  using Cloud_retry_counts [of "ForksGet client" 0 "[Create, Read]"]
  by (simp add: Cloud_ForkRepository_eq)

lemma Cloud_ForkRepository_first_read:
  "ForksPost client = Inr repo \<Longrightarrow> ForksGet client 0 = None
   \<Longrightarrow> snd (Cloud_ForkRepository client toGit) = [Create, Read]"
  by (simp add: Cloud_ForkRepository_eq)

lemma Cloud_ForkRepository_ready:
  assumes "ForksPost client = Inr repo" and "\<forall>n \<le> k. ForksGet client n \<noteq> None"
    and "ForksGet client (Suc k) = None" and "k < 30"
  shows "snd (Cloud_ForkRepository client toGit)
           = [Create, Read] @ concat (replicate k [Read, Sleep 2]) @ [Read]"
proof -
  from assms(2) have "ForksGet client 0 \<noteq> None" by simp
  with assms(1) Cloud_wait_ready [OF assms(2-4)] show ?thesis
    by (simp add: Cloud_ForkRepository_eq)
qed

lemma Cloud_ForkRepository_never_ready:
  assumes "ForksPost client = Inr repo" and "\<forall>n \<le> 30. ForksGet client n \<noteq> None"
  shows "snd (Cloud_ForkRepository client toGit)
           = [Create, Read] @ concat (replicate 30 [Read, Sleep 2])"
proof -
  from assms(2) have "ForksGet client 0 \<noteq> None" by simp
  with assms(1) Cloud_wait_never_ready [OF assms(2)] show ?thesis
    by (simp add: Cloud_ForkRepository_eq)
qed

lemma Cloud_CreatePullRequest_refused:
  "PullrequestsPost client = Inl err
   \<Longrightarrow> Cloud_CreatePullRequest client toGit = (Return (Inl err), [Create])"
  by (simp add: Cloud_CreatePullRequest_def)

lemma Cloud_CreatePullRequest_eq:
  "PullrequestsPost client = Inr pr \<Longrightarrow>
     Cloud_CreatePullRequest client toGit
       = (case toGit pr of Panic \<Rightarrow> Panic | Return newPR \<Rightarrow> Return (Inr newPR),
          if PullRequestIdGet client 0 \<noteq> None
          then Cloud_retry (PullRequestIdGet client) 0 [Create, Read]
          else [Create, Read])"
  by (cases "toGit pr") (simp_all add: Cloud_CreatePullRequest_def Let_def)

lemma Cloud_CreatePullRequest_result:
  "PullrequestsPost client = Inr pr \<Longrightarrow>
     fst (Cloud_CreatePullRequest client toGit)
       = (case toGit pr of Panic \<Rightarrow> Panic | Return newPR \<Rightarrow> Return (Inr newPR))
     \<and> createNo (snd (Cloud_CreatePullRequest client toGit)) = 1
     \<and> readNo (snd (Cloud_CreatePullRequest client toGit)) \<le> 31"
  using Cloud_retry_counts [of "PullRequestIdGet client" 0 "[Create, Read]"]
  by (simp add: Cloud_CreatePullRequest_eq)

lemma Cloud_CreatePullRequest_first_read:
  "PullrequestsPost client = Inr pr \<Longrightarrow> PullRequestIdGet client 0 = None
   \<Longrightarrow> snd (Cloud_CreatePullRequest client toGit) = [Create, Read]"
  by (simp add: Cloud_CreatePullRequest_eq)

lemma Cloud_CreatePullRequest_ready:
  assumes "PullrequestsPost client = Inr pr" and "\<forall>n \<le> k. PullRequestIdGet client n \<noteq> None"
    and "PullRequestIdGet client (Suc k) = None" and "k < 30"
  shows "snd (Cloud_CreatePullRequest client toGit)
           = [Create, Read] @ concat (replicate k [Read, Sleep 2]) @ [Read]"
proof -
  from assms(2) have "PullRequestIdGet client 0 \<noteq> None" by simp
  with assms(1) Cloud_wait_ready [OF assms(2-4)] show ?thesis
    by (simp add: Cloud_CreatePullRequest_eq)
qed

lemma Cloud_CreatePullRequest_never_ready:
  assumes "PullrequestsPost client = Inr pr" and "\<forall>n \<le> 30. PullRequestIdGet client n \<noteq> None"
  shows "snd (Cloud_CreatePullRequest client toGit)
           = [Create, Read] @ concat (replicate 30 [Read, Sleep 2])"
proof -
  from assms(2) have "PullRequestIdGet client 0 \<noteq> None" by simp
  with assms(1) Cloud_wait_never_ready [OF assms(2)] show ?thesis
    by (simp add: Cloud_CreatePullRequest_eq)
qed

lemma BitbucketServerRepositoryToGitRepository_Panic:
  "BitbucketServerRepositoryToGitRepository bRepo = Panic \<longleftrightarrow> RepositoryLinksSelf bRepo = []"
  by (simp add: BitbucketServerRepositoryToGitRepository_def Let_def split: list.splits)

lemma Server_ForkRepository_refused:
  "(marshal = Some err \<longrightarrow>
      Server_ForkRepository marshal client decode destinationOrg = (Return (Inl err), []))
   \<and> (marshal = None \<and> ForkRepositoryPost client = Some err \<longrightarrow>
      Server_ForkRepository marshal client decode destinationOrg = (Return (Inl err), [Create]))"
  by (simp add: Server_ForkRepository_def)

lemma Server_ForkRepository_never_ready:
  assumes "marshal = None" and "ForkRepositoryPost client = None"
    and "get = (if destinationOrg = '''' then GetUserRepository client else GetRepository client)"
    and "\<forall>n < 30. isl (get n)"
  shows "Server_ForkRepository marshal client decode destinationOrg
           = (Return (Inl (projl (get 29))), Create # concat (replicate 30 [Sleep 2, Read]))"
proof -
  have "\<forall>m < 30 - 0. isl (get (readNo [Create] + m))"
    using assms(4) by simp
  then have "Server_retry get 0 None [Create]
               = (Some (get (readNo [Create] + (29 - 0))),
                  [Create] @ concat (replicate (30 - 0) [Sleep 2, Read]))"
    by (intro Server_retry_all_fail) simp_all
  moreover from assms(4) have "isl (get 29)" by simp
  then obtain err where "get 29 = Inl err"
    by (cases "get 29") auto
  ultimately show ?thesis
    using assms(1-3) by (simp add: Server_ForkRepository_def)
qed

lemma Server_ForkRepository_ready:
  assumes "marshal = None" and "ForkRepositoryPost client = None"
    and "get = (if destinationOrg = '''' then GetUserRepository client else GetRepository client)"
    and "k < 30" and "\<forall>n < k. isl (get n)" and "get k = Inr raw"
  shows "Server_ForkRepository marshal client decode destinationOrg
           = (case decode raw of
                Inl err \<Rightarrow> Return (Inl err)
              | Inr repo \<Rightarrow>
                  (case BitbucketServerRepositoryToGitRepository repo of
                     Panic \<Rightarrow> Panic
                   | Return gitRepo \<Rightarrow> Return (Inr gitRepo)),
              Create # concat (replicate (Suc k) [Sleep 2, Read]))"
proof -
  have "Server_retry get 0 None [Create]
          = (Some (Inr raw), [Create] @ concat (replicate (Suc k) [Sleep 2, Read]))"
    using assms(4-6) by (intro Server_retry_success) simp_all
  then show ?thesis
    using assms(1-3) by (simp add: Server_ForkRepository_def split: sum.splits outcome.splits)
qed

lemma Server_ForkRepository_creates:
  "createNo (snd (Server_ForkRepository marshal client decode destinationOrg)) \<le> 1
   \<and> readNo (snd (Server_ForkRepository marshal client decode destinationOrg)) \<le> 30"
proof -
  let ?get = "if destinationOrg = '''' then GetUserRepository client else GetRepository client"
  obtain current log where run: "Server_retry ?get 0 None [Create] = (current, log)"
    by (cases "Server_retry ?get 0 None [Create]")
  with Server_retry_counts [of ?get 0 None "[Create]"]
  have "createNo log = 1" "readNo log \<le> 30" by simp_all
  with run show ?thesis
    by (auto simp: Server_ForkRepository_def Let_def split: option.splits sum.splits outcome.splits)
qed

lemma Server_CreatePullRequest_refused:
  "(marshal = Some err \<longrightarrow>
      Server_CreatePullRequest marshal client decode = (Return (Inl err), []))
   \<and> (marshal = None \<and> CreatePullRequestWithOptions client = Inl err \<longrightarrow>
      Server_CreatePullRequest marshal client decode = (Return (Inl err), [Create]))
   \<and> (marshal = None \<and> CreatePullRequestWithOptions client = Inr created
       \<and> decode created = Inl err \<longrightarrow>
      Server_CreatePullRequest marshal client decode = (Return (Inl err), [Create]))"
  by (simp add: Server_CreatePullRequest_def)

lemma Server_CreatePullRequest_never_ready:
  assumes "marshal = None" and "CreatePullRequestWithOptions client = Inr created"
    and "decode created = Inr bPullRequest"
    and "\<forall>n < 30. isl (GetPullRequest client (PullRequestID bPullRequest) n)"
  shows "Server_CreatePullRequest marshal client decode
           = (Return (Inl (projl (GetPullRequest client (PullRequestID bPullRequest) 29))),
              Create # concat (replicate 30 [Sleep 2, Read]))"
proof -
  let ?get = "GetPullRequest client (PullRequestID bPullRequest)"
  have "\<forall>m < 30 - 0. isl (?get (readNo [Create] + m))"
    using assms(4) by simp
  then have "Server_retry ?get 0 (Some (Inr created)) [Create]
               = (Some (?get (readNo [Create] + (29 - 0))),
                  [Create] @ concat (replicate (30 - 0) [Sleep 2, Read]))"
    by (intro Server_retry_all_fail) simp_all
  moreover from assms(4) have "isl (?get 29)" by simp
  then obtain err where "?get 29 = Inl err"
    by (cases "?get 29") auto
  ultimately show ?thesis
    using assms(1-3) by (simp add: Server_CreatePullRequest_def)
qed

lemma Server_CreatePullRequest_ready:
  assumes "marshal = None" and "CreatePullRequestWithOptions client = Inr created"
    and "decode created = Inr bPullRequest"
    and "k < 30" and "\<forall>n < k. isl (GetPullRequest client (PullRequestID bPullRequest) n)"
    and "GetPullRequest client (PullRequestID bPullRequest) k = Inr raw"
  shows "Server_CreatePullRequest marshal client decode
           = (case decode raw of
                Inl err \<Rightarrow> Return (Inl err)
              | Inr bPR \<Rightarrow>
                  (case LinksSelf bPR of
                     [] \<Rightarrow> Panic
                   | href # others \<Rightarrow>
                       Return (Inr \<lparr>PullRequestURL = href, Owner = AuthorUserName bPR,
                                    Repo = ToRefRepositoryName bPR,
                                    Number = Some (PullRequestID bPR),
                                    StateRef = Some (PullRequestState bPR)\<rparr>)),
              Create # concat (replicate (Suc k) [Sleep 2, Read]))"
proof -
  let ?get = "GetPullRequest client (PullRequestID bPullRequest)"
  have "Server_retry ?get 0 (Some (Inr created)) [Create]
          = (Some (Inr raw), [Create] @ concat (replicate (Suc k) [Sleep 2, Read]))"
    using assms(4-6) by (intro Server_retry_success) simp_all
  then show ?thesis
    using assms(1-3) by (simp add: Server_CreatePullRequest_def split: sum.splits list.splits)
qed

lemma Server_CreatePullRequest_creates:
  "createNo (snd (Server_CreatePullRequest marshal client decode)) \<le> 1
   \<and> readNo (snd (Server_CreatePullRequest marshal client decode)) \<le> 30"
proof (cases "marshal = None \<and> (\<exists>created bPullRequest.
    CreatePullRequestWithOptions client = Inr created \<and> decode created = Inr bPullRequest)")
  case True
  then obtain created bPullRequest where c: "marshal = None"
    "CreatePullRequestWithOptions client = Inr created" "decode created = Inr bPullRequest"
    by blast
  let ?get = "GetPullRequest client (PullRequestID bPullRequest)"
  obtain current log where run: "Server_retry ?get 0 (Some (Inr created)) [Create] = (current, log)"
    by (cases "Server_retry ?get 0 (Some (Inr created)) [Create]")
  with Server_retry_counts [of ?get 0 "Some (Inr created)" "[Create]"]
  have "createNo log = 1" "readNo log \<le> 30" by simp_all
  with run c show ?thesis
    by (auto simp: Server_CreatePullRequest_def Let_def split: option.splits sum.splits list.splits)
next
  case False
  then show ?thesis
    by (auto simp: Server_CreatePullRequest_def Let_def split: option.splits sum.splits)
qed

lemma gitFork_translated:
  "BitbucketServerRepositoryToGitRepository forkRepository = Return gitFork"
  by (simp add: BitbucketServerRepositoryToGitRepository_def forkRepository_def gitFork_def
      HasSuffix_def Let_def)

text \<open>
  Claim C1, as stated, fails on Bitbucket Server. When every read-back fails,
  \<^const>\<open>Server_ForkRepository\<close> returns the error of the last read-back, after one fork
  call, 30 read-backs and 60 seconds of sleep; it does not return the result of the fork
  call, which it has dropped.
\<close>

theorem retry_exhausted_counterexample:
  "Server_ForkRepository None neverReadyServer decodeOk ''''
     = (Return (Inl ''404 Not Found''), Create # concat (replicate 30 [Sleep 2, Read]))
   \<and> createNo (snd (Server_ForkRepository None neverReadyServer decodeOk '''')) = 1
   \<and> readNo (snd (Server_ForkRepository None neverReadyServer decodeOk '''')) = 30
   \<and> slept (snd (Server_ForkRepository None neverReadyServer decodeOk '''')) = 60"
proof -
  have "Server_ForkRepository None neverReadyServer decodeOk ''''
     = (Return (Inl ''404 Not Found''), Create # concat (replicate 30 [Sleep 2, Read]))"
    using Server_ForkRepository_never_ready
      [of None neverReadyServer notReady "''''" decodeOk]
    by (simp add: neverReadyServer_def notReady_def)
  then show ?thesis by simp
qed

text \<open>
  Claim C1, amended, for the fork and create-pull-request operations of the Bitbucket Cloud
  and Bitbucket Server adapters. Each of them issues its mutating call at most once, and a
  mutating call that fails is answered with its error, without a read-back. On Bitbucket
  Server the operation fails before the mutating call when the request cannot be encoded,
  and \<^const>\<open>Server_CreatePullRequest\<close> fails without a read-back when the answer of the
  mutating call cannot be decoded.

  \<^item> Bitbucket Cloud, \<^const>\<open>Cloud_ForkRepository\<close> and \<^const>\<open>Cloud_CreatePullRequest\<close>:
    after a successful mutating call the operation reads the new resource back once. When
    that read-back fails it retries the read up to 30 times, sleeping two seconds after each
    failed retry, and stops at the first read-back that succeeds (at most 31 read-backs).
    Whatever the read-backs answer, it returns the translation of the result of the mutating
    call.
  \<^item> Bitbucket Server, \<^const>\<open>Server_ForkRepository\<close> and
    \<^const>\<open>Server_CreatePullRequest\<close>: after a successful mutating call the operation
    reads the new resource back up to 30 times, sleeping two seconds before each read-back,
    and stops at the first read-back that succeeds. It then returns the translation of the
    resource that was read back, or the error of decoding it; the translation panics when
    the resource has no self link. When all 30 read-backs fail the operation returns the
    error of the last one, not the result of the mutating call.
\<close>

theorem read_after_write_retry:
  "(ForksPost cloud = Inl err \<longrightarrow>
      Cloud_ForkRepository cloud toGit = (Return (Inl err), [Create]))
   \<and> (ForksPost cloud = Inr repo \<longrightarrow>
      fst (Cloud_ForkRepository cloud toGit)
        = (case toGit repo of Panic \<Rightarrow> Panic | Return gitRepo \<Rightarrow> Return (Inr gitRepo))
      \<and> createNo (snd (Cloud_ForkRepository cloud toGit)) = 1
      \<and> readNo (snd (Cloud_ForkRepository cloud toGit)) \<le> 31)
   \<and> (ForksPost cloud = Inr repo \<and> ForksGet cloud 0 = None \<longrightarrow>
      snd (Cloud_ForkRepository cloud toGit) = [Create, Read])
   \<and> (ForksPost cloud = Inr repo \<and> (\<forall>n \<le> k. ForksGet cloud n \<noteq> None)
       \<and> ForksGet cloud (Suc k) = None \<and> k < 30 \<longrightarrow>
      snd (Cloud_ForkRepository cloud toGit)
        = [Create, Read] @ concat (replicate k [Read, Sleep 2]) @ [Read])
   \<and> (ForksPost cloud = Inr repo \<and> (\<forall>n \<le> 30. ForksGet cloud n \<noteq> None) \<longrightarrow>
      snd (Cloud_ForkRepository cloud toGit)
        = [Create, Read] @ concat (replicate 30 [Read, Sleep 2]))
   \<and> (PullrequestsPost cloudPRs = Inl err \<longrightarrow>
      Cloud_CreatePullRequest cloudPRs toGitPR = (Return (Inl err), [Create]))
   \<and> (PullrequestsPost cloudPRs = Inr pr \<longrightarrow>
      fst (Cloud_CreatePullRequest cloudPRs toGitPR)
        = (case toGitPR pr of Panic \<Rightarrow> Panic | Return newPR \<Rightarrow> Return (Inr newPR))
      \<and> createNo (snd (Cloud_CreatePullRequest cloudPRs toGitPR)) = 1
      \<and> readNo (snd (Cloud_CreatePullRequest cloudPRs toGitPR)) \<le> 31)
   \<and> (PullrequestsPost cloudPRs = Inr pr \<and> PullRequestIdGet cloudPRs 0 = None \<longrightarrow>
      snd (Cloud_CreatePullRequest cloudPRs toGitPR) = [Create, Read])
   \<and> (PullrequestsPost cloudPRs = Inr pr \<and> (\<forall>n \<le> l. PullRequestIdGet cloudPRs n \<noteq> None)
       \<and> PullRequestIdGet cloudPRs (Suc l) = None \<and> l < 30 \<longrightarrow>
      snd (Cloud_CreatePullRequest cloudPRs toGitPR)
        = [Create, Read] @ concat (replicate l [Read, Sleep 2]) @ [Read])
   \<and> (PullrequestsPost cloudPRs = Inr pr \<and> (\<forall>n \<le> 30. PullRequestIdGet cloudPRs n \<noteq> None) \<longrightarrow>
      snd (Cloud_CreatePullRequest cloudPRs toGitPR)
        = [Create, Read] @ concat (replicate 30 [Read, Sleep 2]))
   \<and> (marshal = Some err \<longrightarrow>
      Server_ForkRepository marshal server decode destinationOrg = (Return (Inl err), []))
   \<and> (marshal = None \<and> ForkRepositoryPost server = Some err \<longrightarrow>
      Server_ForkRepository marshal server decode destinationOrg = (Return (Inl err), [Create]))
   \<and> createNo (snd (Server_ForkRepository marshal server decode destinationOrg)) \<le> 1
   \<and> readNo (snd (Server_ForkRepository marshal server decode destinationOrg)) \<le> 30
   \<and> (marshal = None \<and> ForkRepositoryPost server = None
       \<and> get = (if destinationOrg = '''' then GetUserRepository server else GetRepository server)
       \<and> (\<forall>n < 30. isl (get n)) \<longrightarrow>
      Server_ForkRepository marshal server decode destinationOrg
        = (Return (Inl (projl (get 29))), Create # concat (replicate 30 [Sleep 2, Read])))
   \<and> (marshal = None \<and> ForkRepositoryPost server = None
       \<and> get = (if destinationOrg = '''' then GetUserRepository server else GetRepository server)
       \<and> m < 30 \<and> (\<forall>n < m. isl (get n)) \<and> get m = Inr raw \<longrightarrow>
      Server_ForkRepository marshal server decode destinationOrg
        = (case decode raw of
             Inl err \<Rightarrow> Return (Inl err)
           | Inr bRepo \<Rightarrow>
               (case BitbucketServerRepositoryToGitRepository bRepo of
                  Panic \<Rightarrow> Panic
                | Return gitRepo \<Rightarrow> Return (Inr gitRepo)),
           Create # concat (replicate (Suc m) [Sleep 2, Read])))
   \<and> (BitbucketServerRepositoryToGitRepository bRepo = Panic \<longleftrightarrow> RepositoryLinksSelf bRepo = [])
   \<and> (marshal = Some err \<longrightarrow>
      Server_CreatePullRequest marshal prs decodePR = (Return (Inl err), []))
   \<and> (marshal = None \<and> CreatePullRequestWithOptions prs = Inl err \<longrightarrow>
      Server_CreatePullRequest marshal prs decodePR = (Return (Inl err), [Create]))
   \<and> (marshal = None \<and> CreatePullRequestWithOptions prs = Inr created
       \<and> decodePR created = Inl err \<longrightarrow>
      Server_CreatePullRequest marshal prs decodePR = (Return (Inl err), [Create]))
   \<and> createNo (snd (Server_CreatePullRequest marshal prs decodePR)) \<le> 1
   \<and> readNo (snd (Server_CreatePullRequest marshal prs decodePR)) \<le> 30
   \<and> (marshal = None \<and> CreatePullRequestWithOptions prs = Inr created
       \<and> decodePR created = Inr bPullRequest
       \<and> (\<forall>n < 30. isl (GetPullRequest prs (PullRequestID bPullRequest) n)) \<longrightarrow>
      Server_CreatePullRequest marshal prs decodePR
        = (Return (Inl (projl (GetPullRequest prs (PullRequestID bPullRequest) 29))),
           Create # concat (replicate 30 [Sleep 2, Read])))
   \<and> (marshal = None \<and> CreatePullRequestWithOptions prs = Inr created
       \<and> decodePR created = Inr bPullRequest
       \<and> j < 30 \<and> (\<forall>n < j. isl (GetPullRequest prs (PullRequestID bPullRequest) n))
       \<and> GetPullRequest prs (PullRequestID bPullRequest) j = Inr rawPR \<longrightarrow>
      Server_CreatePullRequest marshal prs decodePR
        = (case decodePR rawPR of
             Inl err \<Rightarrow> Return (Inl err)
           | Inr bPR \<Rightarrow>
               (case LinksSelf bPR of
                  [] \<Rightarrow> Panic
                | href # others \<Rightarrow>
                    Return (Inr \<lparr>PullRequestURL = href, Owner = AuthorUserName bPR,
                                 Repo = ToRefRepositoryName bPR,
                                 Number = Some (PullRequestID bPR),
                                 StateRef = Some (PullRequestState bPR)\<rparr>)),
           Create # concat (replicate (Suc j) [Sleep 2, Read])))"
proof -
  have f1: "ForksPost cloud = Inl err \<longrightarrow>
      Cloud_ForkRepository cloud toGit = (Return (Inl err), [Create])"
    by (intro impI, rule Cloud_ForkRepository_refused; assumption)
  have f2: "ForksPost cloud = Inr repo \<longrightarrow>
      fst (Cloud_ForkRepository cloud toGit)
        = (case toGit repo of Panic \<Rightarrow> Panic | Return gitRepo \<Rightarrow> Return (Inr gitRepo))
      \<and> createNo (snd (Cloud_ForkRepository cloud toGit)) = 1
      \<and> readNo (snd (Cloud_ForkRepository cloud toGit)) \<le> 31"
    by (intro impI, rule Cloud_ForkRepository_result; assumption)
  have f3: "ForksPost cloud = Inr repo \<and> ForksGet cloud 0 = None \<longrightarrow>
      snd (Cloud_ForkRepository cloud toGit) = [Create, Read]"
    by (intro impI, (elim conjE)?, rule Cloud_ForkRepository_first_read; assumption)
  have f4: "ForksPost cloud = Inr repo \<and> (\<forall>n \<le> k. ForksGet cloud n \<noteq> None)
       \<and> ForksGet cloud (Suc k) = None \<and> k < 30 \<longrightarrow>
      snd (Cloud_ForkRepository cloud toGit)
        = [Create, Read] @ concat (replicate k [Read, Sleep 2]) @ [Read]"
    by (intro impI, (elim conjE)?, rule Cloud_ForkRepository_ready; assumption)
  have f5: "ForksPost cloud = Inr repo \<and> (\<forall>n \<le> 30. ForksGet cloud n \<noteq> None) \<longrightarrow>
      snd (Cloud_ForkRepository cloud toGit)
        = [Create, Read] @ concat (replicate 30 [Read, Sleep 2])"
    by (intro impI, (elim conjE)?, rule Cloud_ForkRepository_never_ready; assumption)
  have q1: "PullrequestsPost cloudPRs = Inl err \<longrightarrow>
      Cloud_CreatePullRequest cloudPRs toGitPR = (Return (Inl err), [Create])"
    by (intro impI, rule Cloud_CreatePullRequest_refused; assumption)
  have q2: "PullrequestsPost cloudPRs = Inr pr \<longrightarrow>
      fst (Cloud_CreatePullRequest cloudPRs toGitPR)
        = (case toGitPR pr of Panic \<Rightarrow> Panic | Return newPR \<Rightarrow> Return (Inr newPR))
      \<and> createNo (snd (Cloud_CreatePullRequest cloudPRs toGitPR)) = 1
      \<and> readNo (snd (Cloud_CreatePullRequest cloudPRs toGitPR)) \<le> 31"
    by (intro impI, rule Cloud_CreatePullRequest_result; assumption)
  have q3: "PullrequestsPost cloudPRs = Inr pr \<and> PullRequestIdGet cloudPRs 0 = None \<longrightarrow>
      snd (Cloud_CreatePullRequest cloudPRs toGitPR) = [Create, Read]"
    by (intro impI, (elim conjE)?, rule Cloud_CreatePullRequest_first_read; assumption)
  have q4: "PullrequestsPost cloudPRs = Inr pr \<and> (\<forall>n \<le> l. PullRequestIdGet cloudPRs n \<noteq> None)
       \<and> PullRequestIdGet cloudPRs (Suc l) = None \<and> l < 30 \<longrightarrow>
      snd (Cloud_CreatePullRequest cloudPRs toGitPR)
        = [Create, Read] @ concat (replicate l [Read, Sleep 2]) @ [Read]"
    by (intro impI, (elim conjE)?, rule Cloud_CreatePullRequest_ready; assumption)
  have q5: "PullrequestsPost cloudPRs = Inr pr \<and> (\<forall>n \<le> 30. PullRequestIdGet cloudPRs n \<noteq> None) \<longrightarrow>
      snd (Cloud_CreatePullRequest cloudPRs toGitPR)
        = [Create, Read] @ concat (replicate 30 [Read, Sleep 2])"
    by (intro impI, (elim conjE)?, rule Cloud_CreatePullRequest_never_ready; assumption)
  have s1: "marshal = Some err \<longrightarrow>
      Server_ForkRepository marshal server decode destinationOrg = (Return (Inl err), [])"
    using Server_ForkRepository_refused [of marshal err server decode destinationOrg] by blast
  have s2: "marshal = None \<and> ForkRepositoryPost server = Some err \<longrightarrow>
      Server_ForkRepository marshal server decode destinationOrg = (Return (Inl err), [Create])"
    using Server_ForkRepository_refused [of marshal err server decode destinationOrg] by blast
  have s3: "createNo (snd (Server_ForkRepository marshal server decode destinationOrg)) \<le> 1"
    using Server_ForkRepository_creates [of marshal server decode destinationOrg] by blast
  have s4: "readNo (snd (Server_ForkRepository marshal server decode destinationOrg)) \<le> 30"
    using Server_ForkRepository_creates [of marshal server decode destinationOrg] by blast
  have s5: "marshal = None \<and> ForkRepositoryPost server = None
       \<and> get = (if destinationOrg = [] then GetUserRepository server else GetRepository server)
       \<and> (\<forall>n < 30. isl (get n))
    \<longrightarrow> Server_ForkRepository marshal server decode destinationOrg
        = (Return (Inl (projl (get 29))), Create # concat (replicate 30 [Sleep 2, Read]))"
    by (intro impI, (elim conjE)?, rule Server_ForkRepository_never_ready; assumption)
  have s6: "marshal = None \<and> ForkRepositoryPost server = None
       \<and> get = (if destinationOrg = [] then GetUserRepository server else GetRepository server)
       \<and> m < 30 \<and> (\<forall>n < m. isl (get n)) \<and> get m = Inr raw
    \<longrightarrow> Server_ForkRepository marshal server decode destinationOrg
        = (case decode raw of
             Inl err \<Rightarrow> Return (Inl err)
           | Inr bRepo \<Rightarrow>
               (case BitbucketServerRepositoryToGitRepository bRepo of
                  Panic \<Rightarrow> Panic
                | Return gitRepo \<Rightarrow> Return (Inr gitRepo)),
           Create # concat (replicate (Suc m) [Sleep 2, Read]))"
    by (intro impI, (elim conjE)?, rule Server_ForkRepository_ready; assumption)
  have s7: "BitbucketServerRepositoryToGitRepository bRepo = Panic \<longleftrightarrow> RepositoryLinksSelf bRepo = []"
    by (rule BitbucketServerRepositoryToGitRepository_Panic)
  have p1: "marshal = Some err \<longrightarrow>
      Server_CreatePullRequest marshal prs decodePR = (Return (Inl err), [])"
    using Server_CreatePullRequest_refused [of marshal err prs decodePR created] by blast
  have p2: "marshal = None \<and> CreatePullRequestWithOptions prs = Inl err \<longrightarrow>
      Server_CreatePullRequest marshal prs decodePR = (Return (Inl err), [Create])"
    using Server_CreatePullRequest_refused [of marshal err prs decodePR created] by blast
  have p3: "marshal = None \<and> CreatePullRequestWithOptions prs = Inr created
       \<and> decodePR created = Inl err \<longrightarrow>
      Server_CreatePullRequest marshal prs decodePR = (Return (Inl err), [Create])"
    using Server_CreatePullRequest_refused [of marshal err prs decodePR created] by blast
  have p4: "createNo (snd (Server_CreatePullRequest marshal prs decodePR)) \<le> 1"
    using Server_CreatePullRequest_creates [of marshal prs decodePR] by blast
  have p5: "readNo (snd (Server_CreatePullRequest marshal prs decodePR)) \<le> 30"
    using Server_CreatePullRequest_creates [of marshal prs decodePR] by blast
  have p6: "marshal = None \<and> CreatePullRequestWithOptions prs = Inr created
       \<and> decodePR created = Inr bPullRequest
       \<and> (\<forall>n < 30. isl (GetPullRequest prs (PullRequestID bPullRequest) n))
    \<longrightarrow> Server_CreatePullRequest marshal prs decodePR
        = (Return (Inl (projl (GetPullRequest prs (PullRequestID bPullRequest) 29))),
           Create # concat (replicate 30 [Sleep 2, Read]))"
    by (intro impI, (elim conjE)?, rule Server_CreatePullRequest_never_ready; assumption)
  have p7: "marshal = None \<and> CreatePullRequestWithOptions prs = Inr created
       \<and> decodePR created = Inr bPullRequest
       \<and> j < 30 \<and> (\<forall>n < j. isl (GetPullRequest prs (PullRequestID bPullRequest) n))
       \<and> GetPullRequest prs (PullRequestID bPullRequest) j = Inr rawPR
    \<longrightarrow> Server_CreatePullRequest marshal prs decodePR
        = (case decodePR rawPR of
             Inl err \<Rightarrow> Return (Inl err)
           | Inr bPR \<Rightarrow>
               (case LinksSelf bPR of
                  [] \<Rightarrow> Panic
                | href # others \<Rightarrow>
                    Return (Inr \<lparr>PullRequestURL = href, Owner = AuthorUserName bPR,
                                 Repo = ToRefRepositoryName bPR,
                                 Number = Some (PullRequestID bPR),
                                 StateRef = Some (PullRequestState bPR)\<rparr>)),
           Create # concat (replicate (Suc j) [Sleep 2, Read]))"
    by (intro impI, (elim conjE)?, rule Server_CreatePullRequest_ready; assumption)
  from f1 f2 f3 f4 f5 q1 q2 q3 q4 q5 s1 s2 s3 s4 s5 s6 s7 p1 p2 p3 p4 p5 p6 p7 show ?thesis
    by (intro conjI) assumption+
qed

theorem read_after_write_retry_witness:
  "Cloud_ForkRepository slowCloud sameRepo
     = (Return (Inr ''fork''), [Create, Read, Read, Sleep 2, Read, Sleep 2, Read])
   \<and> Cloud_ForkRepository neverReadyCloud sameRepo
     = (Return (Inr ''fork''), [Create, Read] @ concat (replicate 30 [Read, Sleep 2]))
   \<and> Cloud_ForkRepository readyCloud sameRepo = (Return (Inr ''fork''), [Create, Read])
   \<and> Cloud_ForkRepository refusingCloud sameRepo = (Return (Inl ''403 Forbidden''), [Create])
   \<and> Cloud_CreatePullRequest slowCloudPullRequests sameRepo
     = (Return (Inr ''pull request''), [Create, Read, Read, Sleep 2, Read, Sleep 2, Read])
   \<and> Cloud_CreatePullRequest neverReadyCloudPullRequests sameRepo
     = (Return (Inr ''pull request''), [Create, Read] @ concat (replicate 30 [Read, Sleep 2]))
   \<and> Cloud_CreatePullRequest readyCloudPullRequests sameRepo
     = (Return (Inr ''pull request''), [Create, Read])
   \<and> Cloud_CreatePullRequest refusingCloudPullRequests sameRepo
     = (Return (Inl ''403 Forbidden''), [Create])
   \<and> Server_ForkRepository None slowServer decodeOk ''''
     = (Return (Inr gitFork), [Create, Sleep 2, Read, Sleep 2, Read, Sleep 2, Read, Sleep 2, Read])
   \<and> Server_ForkRepository None slowServer decodeNoSelfLink ''''
     = (Panic, [Create, Sleep 2, Read, Sleep 2, Read, Sleep 2, Read, Sleep 2, Read])
   \<and> Server_ForkRepository None slowServer decodeOk ''PROJ''
     = (Return (Inl ''404 Not Found''), Create # concat (replicate 30 [Sleep 2, Read]))
   \<and> Server_ForkRepository None refusingServer decodeOk ''''
     = (Return (Inl ''403 Forbidden''), [Create])
   \<and> Server_ForkRepository (Some ''unsupported value'') slowServer decodeOk ''''
     = (Return (Inl ''unsupported value''), [])
   \<and> Server_CreatePullRequest None slowPullRequests decodePullRequest
     = (Return (Inr \<lparr>PullRequestURL = ''http://bitbucket/projects/P/repos/r/pull-requests/7'',
                     Owner = ''alice'', Repo = ''r'', Number = Some 7, StateRef = Some ''OPEN''\<rparr>),
        [Create, Sleep 2, Read, Sleep 2, Read])
   \<and> Server_CreatePullRequest None neverReadyPullRequests decodePullRequest
     = (Return (Inl ''404 Not Found''), Create # concat (replicate 30 [Sleep 2, Read]))
   \<and> Server_CreatePullRequest None refusingPullRequests decodePullRequest
     = (Return (Inl ''403 Forbidden''), [Create])
   \<and> Server_CreatePullRequest (Some ''unsupported value'') slowPullRequests decodePullRequest
     = (Return (Inl ''unsupported value''), [])
   \<and> Server_CreatePullRequest None slowPullRequests decodeFails
     = (Return (Inl ''cannot decode''), [Create])"
proof -
  note undecoded = read_after_write_retry [where cloud = refusingCloud
      and err = "''cannot decode''"
      and repo = "''fork''" and toGit = sameRepo and k = 0
      and cloudPRs = refusingCloudPullRequests and pr = "''pull request''" and toGitPR = sameRepo
      and l = 0 and marshal = None and server = slowServer
      and decode = decodeOk
      and destinationOrg = "''''" and get = readyAt3 and m = 0 and raw = "''fork''"
      and bRepo = forkRepository and prs = slowPullRequests and decodePR = decodeFails
      and created = "''created''" and bPullRequest = pullRequest7 and j = 0
      and rawPR = "''pull request''"]
  note slow = read_after_write_retry [where cloud = slowCloud and err = "''403 Forbidden''"
      and repo = "''fork''" and toGit = sameRepo and k = 2
      and cloudPRs = slowCloudPullRequests and pr = "''pull request''" and toGitPR = sameRepo
      and l = 2 and marshal = None and server = slowServer and decode = decodeOk
      and destinationOrg = "''''" and get = readyAt3 and m = 3 and raw = "''fork''"
      and bRepo = forkRepository and prs = slowPullRequests and decodePR = decodePullRequest
      and created = "''created''" and bPullRequest = pullRequest7 and j = 1
      and rawPR = "''pull request''"]
  note never = read_after_write_retry [where cloud = neverReadyCloud and err = "''403 Forbidden''"
      and repo = "''fork''" and toGit = sameRepo and k = 0
      and cloudPRs = neverReadyCloudPullRequests and pr = "''pull request''" and toGitPR = sameRepo
      and l = 0 and marshal = None and server = slowServer and decode = decodeOk
      and destinationOrg = "''PROJ''" and get = notReady and m = 0 and raw = "''fork''"
      and bRepo = forkRepository and prs = neverReadyPullRequests and decodePR = decodePullRequest
      and created = "''created''" and bPullRequest = pullRequest7 and j = 0
      and rawPR = "''pull request''"]
  note ready = read_after_write_retry [where cloud = readyCloud and err = "''403 Forbidden''"
      and repo = "''fork''" and toGit = sameRepo and k = 0
      and cloudPRs = readyCloudPullRequests and pr = "''pull request''" and toGitPR = sameRepo
      and l = 0 and marshal = None and server = slowServer and decode = decodeNoSelfLink
      and destinationOrg = "''''" and get = readyAt3 and m = 3 and raw = "''fork''"
      and bRepo = "forkRepository\<lparr>RepositoryLinksSelf := []\<rparr>" and prs = slowPullRequests
      and decodePR = decodePullRequest
      and created = "''created''" and bPullRequest = pullRequest7 and j = 1
      and rawPR = "''pull request''"]
  note refused = read_after_write_retry [where cloud = refusingCloud and err = "''403 Forbidden''"
      and repo = "''fork''" and toGit = sameRepo and k = 0
      and cloudPRs = refusingCloudPullRequests and pr = "''pull request''" and toGitPR = sameRepo
      and l = 0 and marshal = None and server = refusingServer and decode = decodeOk
      and destinationOrg = "''''" and get = readyAt3 and m = 0 and raw = "''fork''"
      and bRepo = forkRepository and prs = refusingPullRequests and decodePR = decodePullRequest
      and created = "''created''" and bPullRequest = pullRequest7 and j = 0
      and rawPR = "''pull request''"]
  note unsupported = read_after_write_retry [where cloud = refusingCloud
      and err = "''unsupported value''"
      and repo = "''fork''" and toGit = sameRepo and k = 0
      and cloudPRs = refusingCloudPullRequests and pr = "''pull request''" and toGitPR = sameRepo
      and l = 0 and marshal = "Some ''unsupported value''" and server = slowServer
      and decode = decodeOk
      and destinationOrg = "''''" and get = readyAt3 and m = 0 and raw = "''fork''"
      and bRepo = forkRepository and prs = slowPullRequests and decodePR = decodePullRequest
      and created = "''created''" and bPullRequest = pullRequest7 and j = 0
      and rawPR = "''pull request''"]
  have le2: "\<And>n::nat. n \<le> 2 \<Longrightarrow> n < 3" by simp
  have c1: "Cloud_ForkRepository slowCloud sameRepo
     = (Return (Inr ''fork''), [Create, Read, Read, Sleep 2, Read, Sleep 2, Read])"
    using slow
    by (simp add: slowCloud_def readyErrorAt3_def sameRepo_def prod_eq_iff le2 numeral_2_eq_2)
  have c2: "Cloud_ForkRepository neverReadyCloud sameRepo
     = (Return (Inr ''fork''), [Create, Read] @ concat (replicate 30 [Read, Sleep 2]))"
    using never
    by (simp add: neverReadyCloud_def notReadyError_def sameRepo_def prod_eq_iff)
  have c3: "Cloud_ForkRepository readyCloud sameRepo = (Return (Inr ''fork''), [Create, Read])"
    using ready
    by (simp add: readyCloud_def readyError_def sameRepo_def prod_eq_iff)
  have c4: "Cloud_ForkRepository refusingCloud sameRepo = (Return (Inl ''403 Forbidden''), [Create])"
    using refused
    by (simp add: refusingCloud_def)
  have q1: "Cloud_CreatePullRequest slowCloudPullRequests sameRepo
     = (Return (Inr ''pull request''), [Create, Read, Read, Sleep 2, Read, Sleep 2, Read])"
    using slow
    by (simp add: slowCloudPullRequests_def readyErrorAt3_def sameRepo_def prod_eq_iff le2
        numeral_2_eq_2)
  have q2: "Cloud_CreatePullRequest neverReadyCloudPullRequests sameRepo
     = (Return (Inr ''pull request''), [Create, Read] @ concat (replicate 30 [Read, Sleep 2]))"
    using never
    by (simp add: neverReadyCloudPullRequests_def notReadyError_def sameRepo_def prod_eq_iff)
  have q3: "Cloud_CreatePullRequest readyCloudPullRequests sameRepo
     = (Return (Inr ''pull request''), [Create, Read])"
    using ready
    by (simp add: readyCloudPullRequests_def readyError_def sameRepo_def prod_eq_iff)
  have q4: "Cloud_CreatePullRequest refusingCloudPullRequests sameRepo
     = (Return (Inl ''403 Forbidden''), [Create])"
    using refused
    by (simp add: refusingCloudPullRequests_def)
  have s1: "Server_ForkRepository None slowServer decodeOk ''''
     = (Return (Inr gitFork), [Create, Sleep 2, Read, Sleep 2, Read, Sleep 2, Read, Sleep 2, Read])"
    using slow
    by (simp add: slowServer_def readyAt3_def decodeOk_def gitFork_translated
        numeral_3_eq_3)
  have s2: "Server_ForkRepository None slowServer decodeNoSelfLink ''''
     = (Panic, [Create, Sleep 2, Read, Sleep 2, Read, Sleep 2, Read, Sleep 2, Read])"
    using ready
    by (simp add: slowServer_def readyAt3_def decodeNoSelfLink_def numeral_3_eq_3)
  have s3: "Server_ForkRepository None slowServer decodeOk ''PROJ''
     = (Return (Inl ''404 Not Found''), Create # concat (replicate 30 [Sleep 2, Read]))"
    using never
    by (simp add: slowServer_def notReady_def)
  have s4: "Server_ForkRepository None refusingServer decodeOk ''''
     = (Return (Inl ''403 Forbidden''), [Create])"
    using refused
    by (simp add: refusingServer_def)
  have s5: "Server_ForkRepository (Some ''unsupported value'') slowServer decodeOk ''''
     = (Return (Inl ''unsupported value''), [])"
    using unsupported
    by simp
  have p1: "Server_CreatePullRequest None slowPullRequests decodePullRequest
     = (Return (Inr \<lparr>PullRequestURL = ''http://bitbucket/projects/P/repos/r/pull-requests/7'',
                     Owner = ''alice'', Repo = ''r'', Number = Some 7, StateRef = Some ''OPEN''\<rparr>),
        [Create, Sleep 2, Read, Sleep 2, Read])"
    using slow
    by (simp add: slowPullRequests_def pullRequestReadyAt1_def decodePullRequest_def pullRequest7_def)
  have p2: "Server_CreatePullRequest None neverReadyPullRequests decodePullRequest
     = (Return (Inl ''404 Not Found''), Create # concat (replicate 30 [Sleep 2, Read]))"
    using never
    by (simp add: neverReadyPullRequests_def pullRequestNotReady_def decodePullRequest_def)
  have p3: "Server_CreatePullRequest None refusingPullRequests decodePullRequest
     = (Return (Inl ''403 Forbidden''), [Create])"
    using refused
    by (simp add: refusingPullRequests_def)
  have p4: "Server_CreatePullRequest (Some ''unsupported value'') slowPullRequests decodePullRequest
     = (Return (Inl ''unsupported value''), [])"
    using unsupported
    by simp
  have p5: "Server_CreatePullRequest None slowPullRequests decodeFails
     = (Return (Inl ''cannot decode''), [Create])"
    using undecoded
    by (simp add: slowPullRequests_def decodeFails_def)
  from c1 c2 c3 c4 q1 q2 q3 q4 s1 s2 s3 s4 s5 p1 p2 p3 p4 p5 show ?thesis
    by (intro conjI) assumption+
qed

subsection \<open>Credentials from the environment\<close>

lemma setKind_props:
  "config (setKind server kind w) = config w"
  "prompts (setKind server kind w) = prompts w"
  "length (cells (setKind server kind w)) = length (cells w)"
  "URL (cells (setKind server kind w) ! s) = URL (cells w ! s)"
  "server < length (cells w) \<Longrightarrow> Kind (cells (setKind server kind w) ! server) = kind"
  "s \<noteq> server \<Longrightarrow> cells (setKind server kind w) ! s = cells w ! s"
proof -
  show "URL (cells (setKind server kind w) ! s) = URL (cells w ! s)"
  proof (cases "server < length (cells w)")
    case True
    then show ?thesis by (auto simp: setKind_def nth_list_update)
  next
    case False
    then have "(cells w)[server := (cells w ! server)\<lparr>Kind := kind\<rparr>] = cells w"
      by (intro list_update_beyond) simp
    then show ?thesis by (simp add: setKind_def)
  qed
qed (simp_all add: setKind_def)

lemma createUserForServer_refused:
  "editUserAuth authConfigSvc (cells w ! server) batchMode = Inl err
   \<Longrightarrow> createUserForServer batchMode authConfigSvc w server = (Inl err, w\<lparr>prompts := prompts w + 1\<rparr>)"
  by (simp add: createUserForServer_def Let_def)

text \<open>
  Claim C6. Let \<^verbatim>\<open>GetOrCreateServer\<close> hand out the server \<open>server\<close>, let \<open>w2\<close> be the
  state after the explicit \<open>gitKind\<close>, when one is given, has been written to the server,
  and let no credential be stored for the URL of the server. The kind that decides, \<open>kind\<close>,
  is the kind of the server in \<open>w2\<close>: the explicit \<open>gitKind\<close> when one is given, and
  otherwise the kind the server had. \<^const>\<open>CreateProviderForURL\<close> first builds the
  credential from the environment variables prefixed with the upper-cased kind and, when the
  kind is non-empty and that credential passes \<^const>\<open>IsInvalid\<close>, creates the provider
  with it, for the server, and answers in the state \<open>w2\<close>: the interactive collaborator is
  not invoked. Otherwise it builds the credential from the variables prefixed with
  \<^verbatim>\<open>GIT\<close> and uses it on the same terms. When neither credential is valid, the function
  goes on to \<^const>\<open>createUserForServer\<close>, which invokes the interactive collaborator: no
  environment credential is used, and when the collaborator refuses, as it does in batch
  mode, the function fails with its error after one invocation.
\<close>

theorem environment_credentials:
  assumes got: "getOrCreateServer authConfigSvc w hostUrl = (server, w1)"
    and explicit: "w2 = (if gitKind \<noteq> '''' then setKind server gitKind w1 else w1)"
    and stored: "findUserAuths authConfigSvc w2 (URL (cells w1 ! server)) = []"
    and kind: "kind = Kind (cells w2 ! server)"
    and envKind: "envKind = createAuthUserFromEnvironment authConfigSvc (ToUpper kind)"
    and envGit: "envGit = createAuthUserFromEnvironment authConfigSvc ''GIT''"
    and run: "run = CreateProviderForURL authConfigSvc w gitKind hostUrl batchMode CreateProvider"
  shows "(kind \<noteq> '''' \<and> \<not> IsInvalid envKind \<longrightarrow>
            run = (CreateProvider (cells w2 ! server) envKind, w2))
       \<and> ((kind = '''' \<or> IsInvalid envKind) \<and> \<not> IsInvalid envGit \<longrightarrow>
            run = (CreateProvider (cells w2 ! server) envGit, w2))
       \<and> ((kind = '''' \<or> IsInvalid envKind) \<and> IsInvalid envGit \<longrightarrow>
            run = (case createUserForServer batchMode authConfigSvc w2 server of
                     (Inl err, w3) \<Rightarrow> (Inl err, w3)
                   | (Inr auth, w3) \<Rightarrow> (CreateProvider (cells w3 ! server) auth, w3)))
       \<and> ((kind = '''' \<or> IsInvalid envKind) \<and> IsInvalid envGit
            \<and> editUserAuth authConfigSvc (cells w2 ! server) batchMode = Inl err \<longrightarrow>
            run = (Inl err, w2\<lparr>prompts := prompts w2 + 1\<rparr>))
       \<and> prompts w2 = prompts w1
       \<and> (gitKind \<noteq> '''' \<and> server < length (cells w1) \<longrightarrow> kind = gitKind)
       \<and> (gitKind = '''' \<longrightarrow> kind = Kind (cells w1 ! server))"
proof -
  let ?ask = "case createUserForServer batchMode authConfigSvc w2 server of
                (Inl err, w3) \<Rightarrow> (Inl err, w3)
              | (Inr auth, w3) \<Rightarrow> (CreateProvider (cells w3 ! server) auth, w3)"
  have eq: "run = (if kind \<noteq> '''' \<and> \<not> IsInvalid envKind
                   then (CreateProvider (cells w2 ! server) envKind, w2)
                   else if \<not> IsInvalid envGit
                   then (CreateProvider (cells w2 ! server) envGit, w2)
                   else ?ask)"
    using got stored
    by (simp add: run CreateProviderForURL_def Let_def explicit [symmetric] kind [symmetric]
        envKind [symmetric] envGit [symmetric])
  have c1: "kind \<noteq> '''' \<and> \<not> IsInvalid envKind \<longrightarrow>
            run = (CreateProvider (cells w2 ! server) envKind, w2)"
    using eq by simp
  have c2: "(kind = '''' \<or> IsInvalid envKind) \<and> \<not> IsInvalid envGit \<longrightarrow>
            run = (CreateProvider (cells w2 ! server) envGit, w2)"
    using eq by auto
  have c3: "(kind = '''' \<or> IsInvalid envKind) \<and> IsInvalid envGit \<longrightarrow> run = ?ask"
    using eq by auto
  have c4: "(kind = '''' \<or> IsInvalid envKind) \<and> IsInvalid envGit
            \<and> editUserAuth authConfigSvc (cells w2 ! server) batchMode = Inl err \<longrightarrow>
            run = (Inl err, w2\<lparr>prompts := prompts w2 + 1\<rparr>)"
  proof (intro impI, elim conjE)
    assume a: "kind = '''' \<or> IsInvalid envKind" "IsInvalid envGit"
      and refused: "editUserAuth authConfigSvc (cells w2 ! server) batchMode = Inl err"
    from a c3 have "run = ?ask" by blast
    then show "run = (Inl err, w2\<lparr>prompts := prompts w2 + 1\<rparr>)"
      by (simp add: createUserForServer_refused [OF refused])
  qed
  have c5: "prompts w2 = prompts w1"
    by (simp add: explicit setKind_props)
  have c6: "gitKind \<noteq> '''' \<and> server < length (cells w1) \<longrightarrow> kind = gitKind"
    by (simp add: kind explicit setKind_props)
  have c7: "gitKind = '''' \<longrightarrow> kind = Kind (cells w1 ! server)"
    by (simp add: kind explicit)
  from c1 c2 c3 c4 c5 c6 c7 show ?thesis
    by (intro conjI) assumption+
qed

theorem environment_credentials_witness:
  "CreateProviderForURL (nothingStored gitlabReader) emptyWorld ''gitlab'' gitlabHost True providerOf
     = (Inr (\<lparr>URL = gitlabHost, Users = [], Name = gitlabHost, Kind = ''gitlab'', CurrentUser = ''''\<rparr>,
             \<lparr>Username = ''test'', ApiToken = ''secret'', BearerToken = ''''\<rparr>),
        \<lparr>config = (),
         cells = [\<lparr>URL = gitlabHost, Users = [], Name = gitlabHost, Kind = ''gitlab'',
                   CurrentUser = ''''\<rparr>],
         prompts = 0\<rparr>)
   \<and> CreateProviderForURL (nothingStored fallbackReader) emptyWorld ''gitlab'' gitlabHost True providerOf
     = (Inr (\<lparr>URL = gitlabHost, Users = [], Name = gitlabHost, Kind = ''gitlab'', CurrentUser = ''''\<rparr>,
             \<lparr>Username = ''fallback'', ApiToken = ''other'', BearerToken = ''''\<rparr>),
        \<lparr>config = (),
         cells = [\<lparr>URL = gitlabHost, Users = [], Name = gitlabHost, Kind = ''gitlab'',
                   CurrentUser = ''''\<rparr>],
         prompts = 0\<rparr>)
   \<and> CreateProviderForURL (nothingStored gitlabReader) emptyWorld '''' gitlabHost True providerOf
     = (Inr (\<lparr>URL = gitlabHost, Users = [], Name = gitlabHost, Kind = '''', CurrentUser = ''''\<rparr>,
             \<lparr>Username = ''fallback'', ApiToken = ''other'', BearerToken = ''''\<rparr>),
        \<lparr>config = (),
         cells = [\<lparr>URL = gitlabHost, Users = [], Name = gitlabHost, Kind = '''',
                   CurrentUser = ''''\<rparr>],
         prompts = 0\<rparr>)
   \<and> CreateProviderForURL (nothingStored incompleteReader) emptyWorld ''gitlab'' gitlabHost True providerOf
     = (Inl ''no credentials available in batch mode'',
        \<lparr>config = (),
         cells = [\<lparr>URL = gitlabHost, Users = [], Name = gitlabHost, Kind = ''gitlab'',
                   CurrentUser = ''''\<rparr>],
         prompts = 1\<rparr>)"
proof -
  let ?created = "\<lparr>URL = gitlabHost, Users = [], Name = gitlabHost, Kind = '''', CurrentUser = ''''\<rparr>"
  let ?w1 = "\<lparr>config = (), cells = [?created], prompts = 0\<rparr>"
  have got: "getOrCreateServer (nothingStored reader) emptyWorld gitlabHost = (0, ?w1)" for reader
    by (simp add: nothingStored_def newServer_def emptyWorld_def)
  have none: "findUserAuths (nothingStored reader) w2 url = []" for reader w2 url
    by (simp add: nothingStored_def)
  have upper: "ToUpper ''gitlab'' = ''GITLAB''"
    by (simp add: ToUpper_def upperOf_def)
  have refuse: "editUserAuth (nothingStored reader) server True
                  = Inl ''no credentials available in batch mode''" for reader server
    by (simp add: nothingStored_def refuseEdit_def)
  have reader: "createAuthUserFromEnvironment (nothingStored reader) = reader" for reader
    by (simp add: nothingStored_def)
  note kindEnv = environment_credentials [where authConfigSvc = "nothingStored gitlabReader"
      and w = emptyWorld and hostUrl = gitlabHost and gitKind = "''gitlab''" and batchMode = True
      and CreateProvider = providerOf and err = "''no credentials available in batch mode''",
      OF got refl none refl refl refl refl]
  note gitEnv = environment_credentials [where authConfigSvc = "nothingStored fallbackReader"
      and w = emptyWorld and hostUrl = gitlabHost and gitKind = "''gitlab''" and batchMode = True
      and CreateProvider = providerOf and err = "''no credentials available in batch mode''",
      OF got refl none refl refl refl refl]
  note noKind = environment_credentials [where authConfigSvc = "nothingStored gitlabReader"
      and w = emptyWorld and hostUrl = gitlabHost and gitKind = "''''" and batchMode = True
      and CreateProvider = providerOf and err = "''no credentials available in batch mode''",
      OF got refl none refl refl refl refl]
  note noEnv = environment_credentials [where authConfigSvc = "nothingStored incompleteReader"
      and w = emptyWorld and hostUrl = gitlabHost and gitKind = "''gitlab''" and batchMode = True
      and CreateProvider = providerOf and err = "''no credentials available in batch mode''",
      OF got refl none refl refl refl refl]
  have a: "CreateProviderForURL (nothingStored gitlabReader) emptyWorld ''gitlab'' gitlabHost True providerOf
     = (Inr (\<lparr>URL = gitlabHost, Users = [], Name = gitlabHost, Kind = ''gitlab'', CurrentUser = ''''\<rparr>,
             \<lparr>Username = ''test'', ApiToken = ''secret'', BearerToken = ''''\<rparr>),
        \<lparr>config = (),
         cells = [\<lparr>URL = gitlabHost, Users = [], Name = gitlabHost, Kind = ''gitlab'',
                   CurrentUser = ''''\<rparr>],
         prompts = 0\<rparr>)"
    using kindEnv
    by (simp add: setKind_def upper reader gitlabReader_def IsInvalid_def providerOf_def)
  have b: "CreateProviderForURL (nothingStored fallbackReader) emptyWorld ''gitlab'' gitlabHost True providerOf
     = (Inr (\<lparr>URL = gitlabHost, Users = [], Name = gitlabHost, Kind = ''gitlab'', CurrentUser = ''''\<rparr>,
             \<lparr>Username = ''fallback'', ApiToken = ''other'', BearerToken = ''''\<rparr>),
        \<lparr>config = (),
         cells = [\<lparr>URL = gitlabHost, Users = [], Name = gitlabHost, Kind = ''gitlab'',
                   CurrentUser = ''''\<rparr>],
         prompts = 0\<rparr>)"
    using gitEnv
    by (simp add: setKind_def upper reader fallbackReader_def IsInvalid_def providerOf_def)
  have c: "CreateProviderForURL (nothingStored gitlabReader) emptyWorld '''' gitlabHost True providerOf
     = (Inr (\<lparr>URL = gitlabHost, Users = [], Name = gitlabHost, Kind = '''', CurrentUser = ''''\<rparr>,
             \<lparr>Username = ''fallback'', ApiToken = ''other'', BearerToken = ''''\<rparr>),
        \<lparr>config = (),
         cells = [\<lparr>URL = gitlabHost, Users = [], Name = gitlabHost, Kind = '''',
                   CurrentUser = ''''\<rparr>],
         prompts = 0\<rparr>)"
    using noKind
    by (simp add: reader gitlabReader_def IsInvalid_def providerOf_def)
  have d: "CreateProviderForURL (nothingStored incompleteReader) emptyWorld ''gitlab'' gitlabHost True providerOf
     = (Inl ''no credentials available in batch mode'',
        \<lparr>config = (),
         cells = [\<lparr>URL = gitlabHost, Users = [], Name = gitlabHost, Kind = ''gitlab'',
                   CurrentUser = ''''\<rparr>],
         prompts = 1\<rparr>)"
    using noEnv
    by (auto simp add: setKind_def upper reader refuse incompleteReader_def noCredential_def
        IsInvalid_def)
  from a b c d show ?thesis
    by (intro conjI) assumption+
qed

subsection \<open>The kind of a stored server\<close>

lemma find_app:
  "find P (xs @ ys) = (case find P xs of Some x \<Rightarrow> Some x | None \<Rightarrow> find P ys)"
  by (induction xs) auto

lemma GetServer_Some:
  "GetServer w url = Some s \<Longrightarrow> s \<in> set (Servers' (config w)) \<and> URL (cells w ! s) = url"
  by (auto simp: GetServer_def find_Some_iff)

lemma wellFormed_pointer:
  "wellFormed w \<Longrightarrow> s \<in> set (Servers' (config w)) \<Longrightarrow> s < length (cells w)"
  by (simp add: wellFormed_def list_all_iff)

lemma GetServer_cong:
  assumes "Servers' (config w') = Servers' (config w)"
    and "\<And>s. s \<in> set (Servers' (config w)) \<Longrightarrow> URL (cells w' ! s) = URL (cells w ! s)"
  shows "GetServer w' url = GetServer w url"
  unfolding GetServer_def assms(1) using assms(2) by (intro find_cong) simp_all

lemma KindOf_cong:
  assumes "Servers' (config w') = Servers' (config w)"
    and "\<And>s. s \<in> set (Servers' (config w)) \<Longrightarrow> URL (cells w' ! s) = URL (cells w ! s)"
    and "\<And>s. s \<in> set (Servers' (config w)) \<Longrightarrow> Kind (cells w' ! s) = Kind (cells w ! s)"
  shows "KindOf w' url = KindOf w url"
proof -
  have g: "GetServer w' url = GetServer w url"
    using assms(1,2) by (rule GetServer_cong)
  show ?thesis
  proof (cases "GetServer w url")
    case None
    with g show ?thesis by (simp add: KindOf_def)
  next
    case (Some s)
    with assms(3) [of s] GetServer_Some [OF Some] g show ?thesis by (simp add: KindOf_def)
  qed
qed

lemma append_server:
  assumes wf: "wellFormed w"
    and w': "w' = w\<lparr>cells := cells w @ [new],
                    config := (config w)\<lparr>Servers' := Servers' (config w) @ [length (cells w)]\<rparr>\<rparr>"
  shows "wellFormed w'"
    and "GetServer w url = Some s \<Longrightarrow> GetServer w' url = Some s"
    and "KindOf w url = Some k \<Longrightarrow> KindOf w' url = Some k"
    and "GetServer w url = None \<Longrightarrow> URL new = url \<Longrightarrow> GetServer w' url = Some (length (cells w))"
    and "GetServer w url = None \<Longrightarrow> URL new = url \<Longrightarrow> KindOf w' url = Some (Kind new)"
proof -
  have old: "(cells w @ [new]) ! s = cells w ! s" if "s \<in> set (Servers' (config w))" for s
    using wellFormed_pointer [OF wf that] by (simp add: nth_append)
  have same: "find (\<lambda>s. URL ((cells w @ [new]) ! s) = url) (Servers' (config w))
                = GetServer w url" for url
    unfolding GetServer_def by (intro find_cong) (simp_all add: old)
  have get: "GetServer w' url
      = (case GetServer w url of
           Some s \<Rightarrow> Some s
         | None \<Rightarrow> if URL new = url then Some (length (cells w)) else None)" for url
  proof -
    have "GetServer w' url
        = find (\<lambda>s. URL ((cells w @ [new]) ! s) = url) (Servers' (config w) @ [length (cells w)])"
      by (simp add: GetServer_def w')
    also have "\<dots> = (case GetServer w url of
           Some s \<Rightarrow> Some s
         | None \<Rightarrow> if URL new = url then Some (length (cells w)) else None)"
      unfolding find_app same by (simp split: option.splits)
    finally show ?thesis .
  qed
  show "wellFormed w'"
    using wf by (auto simp: wellFormed_def w' list_all_iff less_Suc_eq)
  show a: "GetServer w url = Some s \<Longrightarrow> GetServer w' url = Some s"
    by (simp add: get)
  show "KindOf w url = Some k \<Longrightarrow> KindOf w' url = Some k"
  proof -
    assume "KindOf w url = Some k"
    then obtain p where p: "GetServer w url = Some p" "Kind (cells w ! p) = k"
      by (auto simp: KindOf_def)
    from GetServer_Some [OF p(1)] have "cells w' ! p = cells w ! p"
      by (simp add: w' old)
    moreover from p(1) have "GetServer w' url = Some p"
      by (simp add: get)
    ultimately show ?thesis using p(2) by (simp add: KindOf_def)
  qed
  show b: "GetServer w url = None \<Longrightarrow> URL new = url \<Longrightarrow> GetServer w' url = Some (length (cells w))"
    by (simp add: get)
  show "GetServer w url = None \<Longrightarrow> URL new = url \<Longrightarrow> KindOf w' url = Some (Kind new)"
    using b by (simp add: KindOf_def w')
qed


lemma KindOf_None: "KindOf w url = None \<longleftrightarrow> GetServer w url = None"
  by (simp add: KindOf_def)

lemma GetOrCreateServerName_props:
  assumes wf: "wellFormed w" and got: "GetOrCreateServerName w url name kind = (s, w1)"
  shows "wellFormed w1"
    and "GetServer w1 url = Some s"
    and "prompts w1 = prompts w"
    and "KindOf w h = Some k \<Longrightarrow> KindOf w1 h = Some k"
    and "KindOf w url = None \<Longrightarrow> KindOf w1 url = Some kind"
    and "GetServer w url = Some p \<Longrightarrow> s = p \<and> w1 = w"
proof -
  let ?new = "\<lparr>URL = url, Users = [], Name = name, Kind = kind, CurrentUser = ''''\<rparr>"
  let ?w' = "w\<lparr>cells := cells w @ [?new],
               config := (config w)\<lparr>Servers' := Servers' (config w) @ [length (cells w)]\<rparr>\<rparr>"
  note app = append_server [OF wf refl, where new = ?new]
  have all: "wellFormed w1 \<and> GetServer w1 url = Some s \<and> prompts w1 = prompts w
      \<and> (KindOf w h = Some k \<longrightarrow> KindOf w1 h = Some k)
      \<and> (KindOf w url = None \<longrightarrow> KindOf w1 url = Some kind)
      \<and> (GetServer w url = Some p \<longrightarrow> s = p \<and> w1 = w)"
  proof (cases "GetServer w url")
    case (Some q)
    with got have "s = q" "w1 = w" by (simp_all add: GetOrCreateServerName_def)
    with Some wf show ?thesis by (simp add: KindOf_def)
  next
    case None
    with got have s: "s = length (cells w)" and w1: "w1 = ?w'"
      by (auto simp add: GetOrCreateServerName_def Let_def)
    from None app(1) app(3) [of h k] app(4) [of url] app(5) [of url]
    show ?thesis unfolding w1 s by (simp add: KindOf_None)
  qed
  from all show "wellFormed w1" and "GetServer w1 url = Some s" and "prompts w1 = prompts w"
    and "KindOf w h = Some k \<Longrightarrow> KindOf w1 h = Some k"
    and "KindOf w url = None \<Longrightarrow> KindOf w1 url = Some kind"
    and "GetServer w url = Some p \<Longrightarrow> s = p \<and> w1 = w"
    by blast+
qed

lemma setKind_pointer:
  assumes wf: "wellFormed w" and got: "GetServer w url = Some s"
  shows "wellFormed (setKind s k w)"
    and "GetServer (setKind s k w) h = GetServer w h"
    and "KindOf (setKind s k w) url = Some k"
    and "h \<noteq> url \<Longrightarrow> KindOf (setKind s k w) h = KindOf w h"
proof -
  note s = GetServer_Some [OF got]
  from wf s have len: "s < length (cells w)" by (simp add: wellFormed_pointer)
  show "wellFormed (setKind s k w)"
    using wf by (simp add: wellFormed_def setKind_props)
  show get: "GetServer (setKind s k w) h = GetServer w h" for h
    by (rule GetServer_cong) (simp_all add: setKind_props)
  show "KindOf (setKind s k w) url = Some k"
    using got len by (simp add: KindOf_def get setKind_props)
  show "KindOf (setKind s k w) h = KindOf w h" if "h \<noteq> url"
  proof (cases "GetServer w h")
    case None
    then show ?thesis by (simp add: KindOf_def get)
  next
    case (Some q)
    from GetServer_Some [OF Some] s that have "q \<noteq> s" by auto
    with Some show ?thesis by (simp add: KindOf_def get setKind_props)
  qed
qed

lemma SetUserAuth'_props:
  assumes wf: "wellFormed w"
  shows "wellFormed (SetUserAuth' w url auth)"
    and "KindOf w h = Some k \<Longrightarrow> KindOf (SetUserAuth' w url auth) h = Some k"
    and "prompts (SetUserAuth' w url auth) = prompts w"
proof -
  let ?new = "\<lparr>URL = url, Users = [auth], Name = '''', Kind = '''', CurrentUser = Username auth\<rparr>"
  note app = append_server [OF wf refl, where new = ?new]
  have all: "wellFormed (SetUserAuth' w url auth)
      \<and> (KindOf w h = Some k \<longrightarrow> KindOf (SetUserAuth' w url auth) h = Some k)
      \<and> prompts (SetUserAuth' w url auth) = prompts w"
  proof (cases "GetServer w url")
    case None
    then have eq: "SetUserAuth' w url auth
        = w\<lparr>cells := cells w @ [?new],
             config := (config w)\<lparr>Servers' := Servers' (config w) @ [length (cells w)]\<rparr>\<rparr>"
      by (simp add: SetUserAuth'_def Let_def)
    from app(1) app(3) [of h k] show ?thesis unfolding eq by simp
  next
    case (Some s)
    let ?w' = "w\<lparr>cells := (cells w)[s := (cells w ! s)
                \<lparr>Users := SetUserAuth_users (Users (cells w ! s)) auth,
                 CurrentUser := Username auth\<rparr>]\<rparr>"
    from Some have eq: "SetUserAuth' w url auth = ?w'"
      by (simp add: SetUserAuth'_def)
    let ?cs = "(cells w)[s := (cells w ! s)
                \<lparr>Users := SetUserAuth_users (Users (cells w ! s)) auth,
                 CurrentUser := Username auth\<rparr>]"
    have url: "URL (?cs ! q) = URL (cells w ! q)" if "q \<in> set (Servers' (config w))" for q
      using wellFormed_pointer [OF wf that] by (cases "q = s") simp_all
    have kind: "Kind (?cs ! q) = Kind (cells w ! q)" if "q \<in> set (Servers' (config w))" for q
      using wellFormed_pointer [OF wf that] by (cases "q = s") simp_all
    have "KindOf ?w' h = KindOf w h"
      by (rule KindOf_cong) (simp_all add: url kind)
    moreover have "wellFormed ?w'"
      using wf by (simp add: wellFormed_def)
    ultimately show ?thesis unfolding eq by simp
  qed
  from all show "wellFormed (SetUserAuth' w url auth)"
    and "KindOf w h = Some k \<Longrightarrow> KindOf (SetUserAuth' w url auth) h = Some k"
    and "prompts (SetUserAuth' w url auth) = prompts w"
    by blast+
qed

lemma scalars_KindOf:
  "Servers' (config w') = Servers' (config w) \<Longrightarrow> cells w' = cells w
   \<Longrightarrow> KindOf w' h = KindOf w h \<and> (wellFormed w' \<longleftrightarrow> wellFormed w)"
  by (simp add: KindOf_def GetServer_def wellFormed_def)

lemma SaveUserAuth'_props:
  assumes wf: "wellFormed w"
  shows "wellFormed (snd (SaveUserAuth' saver w url auth))"
    and "KindOf w h = Some k \<Longrightarrow> KindOf (snd (SaveUserAuth' saver w url auth)) h = Some k"
proof -
  let ?w1 = "SetUserAuth' w url auth"
  have "Servers' (config (snd (SaveUserAuth' saver w url auth))) = Servers' (config ?w1)"
    and "cells (snd (SaveUserAuth' saver w url auth)) = cells ?w1"
    by (simp_all add: SaveUserAuth'_def Let_def)
  from scalars_KindOf [OF this] SetUserAuth'_props(1) [OF wf, where url = url and auth = auth]
    SetUserAuth'_props(2) [OF wf, where url = url and auth = auth and h = h and k = k]
  show "wellFormed (snd (SaveUserAuth' saver w url auth))"
    and "KindOf w h = Some k \<Longrightarrow> KindOf (snd (SaveUserAuth' saver w url auth)) h = Some k"
    by simp_all
qed

lemma createUserForServer_pointer:
  assumes wf: "wellFormed w"
  shows "wellFormed (snd (createUserForServer batchMode (pointerStore infer reader edit saver) w server))"
    and "KindOf w h = Some k \<Longrightarrow>
         KindOf (snd (createUserForServer batchMode (pointerStore infer reader edit saver) w server)) h
           = Some k"
proof -
  let ?w1 = "w\<lparr>prompts := prompts w + 1\<rparr>"
  have same: "KindOf ?w1 h = KindOf w h \<and> (wellFormed ?w1 \<longleftrightarrow> wellFormed w)"
    by (rule scalars_KindOf) simp_all
  with wf have wf1: "wellFormed ?w1" by simp
  have cases: "snd (createUserForServer batchMode (pointerStore infer reader edit saver) w server) = ?w1
      \<or> (\<exists>url auth. snd (createUserForServer batchMode (pointerStore infer reader edit saver) w server)
            = snd (SaveUserAuth' saver ?w1 url auth))"
  proof (cases "edit (cells w ! server) batchMode")
    case (Inl err)
    then show ?thesis
      by (simp add: createUserForServer_def pointerStore_def Let_def)
  next
    case (Inr userAuth)
    obtain err w2 where saved: "SaveUserAuth' saver ?w1 (URL (cells w ! server)) userAuth = (err, w2)"
      by (cases "SaveUserAuth' saver ?w1 (URL (cells w ! server)) userAuth")
    have "snd (createUserForServer batchMode (pointerStore infer reader edit saver) w server) = w2"
      using Inr saved
      by (simp add: createUserForServer_def pointerStore_def Let_def split: option.splits)
    with saved show ?thesis
      by (metis snd_conv)
  qed
  from cases same wf1 SaveUserAuth'_props [OF wf1]
  show "wellFormed (snd (createUserForServer batchMode (pointerStore infer reader edit saver) w server))"
    by auto
  from cases same wf1 SaveUserAuth'_props(2) [OF wf1, of h k]
  show "KindOf w h = Some k \<Longrightarrow>
         KindOf (snd (createUserForServer batchMode (pointerStore infer reader edit saver) w server)) h
           = Some k"
    by auto
qed


lemma CreateProviderForURL_state:
  assumes "getOrCreateServer authConfigSvc w hostUrl = (server, w1)"
    and "w2 = (if gitKind \<noteq> '''' then setKind server gitKind w1 else w1)"
  shows "snd (CreateProviderForURL authConfigSvc w gitKind hostUrl batchMode CreateProvider) = w2
     \<or> snd (CreateProviderForURL authConfigSvc w gitKind hostUrl batchMode CreateProvider)
         = snd (createUserForServer batchMode authConfigSvc w2 server)"
  using assms(1)
  by (auto simp: CreateProviderForURL_def Let_def assms(2) [symmetric]
      split: prod.splits sum.splits)

lemma GetOrCreateServer_stored:
  assumes "KindOf w url = Some k"
  shows "\<exists>s. GetServer w url = Some s \<and> GetOrCreateServer infer w url = (s, w)
           \<and> Kind (cells w ! s) = k"
proof -
  from assms obtain s where s: "GetServer w url = Some s" "Kind (cells w ! s) = k"
    by (auto simp: KindOf_def)
  then have "GetOrCreateServer infer w url = (s, w)"
    by (simp add: GetOrCreateServer_def GetOrCreateServerName_def split: prod.splits)
  with s show ?thesis by blast
qed

text \<open>
  Claim C8, over the store of pointers. Let a resolution start in a well-formed state.

  \<^item> When an explicit \<open>gitKind\<close> is given, the server stored for the host has that kind
    afterwards.
  \<^item> When none is given and no server is stored for the host, the server is created and
    stored with the kind inferred for the host; when one is stored, its kind is kept.
  \<^item> The kind of the stored server of every other address is kept.
  \<^item> The state afterwards is well-formed, and every later lookup of a stored server in it,
    by \<^const>\<open>GetServer\<close> or \<^const>\<open>GetOrCreateServer\<close>, hands out the stored object
    with the kind that was set and leaves the state as it is.

  So a kind, once set, is observed by every later lookup and resolution until a resolution
  sets another one explicitly.
\<close>

theorem kind_is_sticky:
  assumes wf: "wellFormed w"
    and run: "w' = snd (CreateProviderForURL (pointerStore infer reader edit saver) w gitKind hostUrl
                batchMode CreateProvider)"
  shows "wellFormed w'
     \<and> (gitKind \<noteq> '''' \<longrightarrow> KindOf w' hostUrl = Some gitKind)
     \<and> (gitKind = '''' \<and> KindOf w hostUrl = None \<longrightarrow> KindOf w' hostUrl = Some (snd (infer hostUrl)))
     \<and> (gitKind = '''' \<and> KindOf w hostUrl = Some k \<longrightarrow> KindOf w' hostUrl = Some k)
     \<and> (url \<noteq> hostUrl \<and> KindOf w url = Some k \<longrightarrow> KindOf w' url = Some k)
     \<and> (KindOf w' url = Some k \<longrightarrow>
          (\<exists>s. GetServer w' url = Some s \<and> GetOrCreateServer infer w' url = (s, w')
             \<and> Kind (cells w' ! s) = k))"
proof -
  let ?A = "pointerStore infer reader edit saver"
  obtain name kind where inferred: "infer hostUrl = (name, kind)"
    by (cases "infer hostUrl")
  obtain server w1 where got: "GetOrCreateServerName w hostUrl name kind = (server, w1)"
    by (cases "GetOrCreateServerName w hostUrl name kind")
  then have got': "getOrCreateServer ?A w hostUrl = (server, w1)"
    by (simp add: pointerStore_def GetOrCreateServer_def inferred)
  note p = GetOrCreateServerName_props [OF wf got]
  define w2 where "w2 = (if gitKind \<noteq> '''' then setKind server gitKind w1 else w1)"
  note sk = setKind_pointer [OF p(1) p(2)]
  have wf2: "wellFormed w2"
    using p(1) sk(1) by (simp add: w2_def)
  have a2: "gitKind \<noteq> '''' \<longrightarrow> KindOf w2 hostUrl = Some gitKind"
    using sk(3) by (simp add: w2_def)
  have b2: "gitKind = '''' \<and> KindOf w hostUrl = None \<longrightarrow> KindOf w2 hostUrl = Some (snd (infer hostUrl))"
    using p(5) by (simp add: w2_def inferred)
  have c2: "gitKind = '''' \<and> KindOf w hostUrl = Some k \<longrightarrow> KindOf w2 hostUrl = Some k"
    using p(4) [of hostUrl k] by (simp add: w2_def)
  have d2: "url \<noteq> hostUrl \<and> KindOf w url = Some k \<longrightarrow> KindOf w2 url = Some k"
    using p(4) [of url k] sk(4) [of url gitKind] by (simp add: w2_def)
  from CreateProviderForURL_state [OF got' w2_def]
  have "w' = w2 \<or> w' = snd (createUserForServer batchMode ?A w2 server)"
    unfolding run .
  then have keep: "wellFormed w' \<and> (\<forall>h j. KindOf w2 h = Some j \<longrightarrow> KindOf w' h = Some j)"
    using wf2 createUserForServer_pointer [OF wf2] by auto
  have c1: "wellFormed w'" using keep by simp
  have c2': "gitKind \<noteq> '''' \<longrightarrow> KindOf w' hostUrl = Some gitKind"
    using keep a2 by blast
  have c3: "gitKind = '''' \<and> KindOf w hostUrl = None \<longrightarrow> KindOf w' hostUrl = Some (snd (infer hostUrl))"
    using keep b2 by blast
  have c4: "gitKind = '''' \<and> KindOf w hostUrl = Some k \<longrightarrow> KindOf w' hostUrl = Some k"
    using keep c2 by blast
  have c5: "url \<noteq> hostUrl \<and> KindOf w url = Some k \<longrightarrow> KindOf w' url = Some k"
    using keep d2 by blast
  have c6: "KindOf w' url = Some k \<longrightarrow>
          (\<exists>s. GetServer w' url = Some s \<and> GetOrCreateServer infer w' url = (s, w')
             \<and> Kind (cells w' ! s) = k)"
    by (intro impI, rule GetOrCreateServer_stored)
  from c1 c2' c3 c4 c5 c6 show ?thesis
    by (intro conjI) assumption+
qed

lemma emptyStore_wellFormed: "wellFormed emptyStore"
  by (simp add: wellFormed_def emptyStore_def)

theorem kind_is_sticky_witness:
  "KindOf (snd (CreateProviderForURL gitlabStore emptyStore ''gitlab'' gitlabHost True providerOf))
     gitlabHost = Some ''gitlab''
   \<and> KindOf (snd (CreateProviderForURL gitlabStore
         (snd (CreateProviderForURL gitlabStore emptyStore ''gitlab'' gitlabHost True providerOf))
         '''' gitlabHost True providerOf)) gitlabHost = Some ''gitlab''
   \<and> KindOf (snd (CreateProviderForURL gitlabStore
         (snd (CreateProviderForURL gitlabStore emptyStore ''gitlab'' gitlabHost True providerOf))
         '''' githubHost True providerOf)) gitlabHost = Some ''gitlab''
   \<and> KindOf (snd (CreateProviderForURL gitlabStore
         (snd (CreateProviderForURL gitlabStore emptyStore ''gitlab'' gitlabHost True providerOf))
         '''' githubHost True providerOf)) githubHost = Some ''''
   \<and> GetOrCreateServer inferNothing
         (snd (CreateProviderForURL gitlabStore emptyStore ''gitlab'' gitlabHost True providerOf))
         gitlabHost
       = (0, snd (CreateProviderForURL gitlabStore emptyStore ''gitlab'' gitlabHost True providerOf))
   \<and> fst (CreateProviderForURL gitlabStore
         (snd (CreateProviderForURL gitlabStore emptyStore ''gitlab'' gitlabHost True providerOf))
         '''' gitlabHost True providerOf)
       = Inr (\<lparr>URL = gitlabHost, Users = [], Name = gitlabHost, Kind = ''gitlab'', CurrentUser = ''''\<rparr>,
              \<lparr>Username = ''test'', ApiToken = ''secret'', BearerToken = ''''\<rparr>)"
proof -
  let ?first = "snd (CreateProviderForURL gitlabStore emptyStore ''gitlab'' gitlabHost True providerOf)"
  let ?second = "snd (CreateProviderForURL gitlabStore ?first '''' gitlabHost True providerOf)"
  let ?other = "snd (CreateProviderForURL gitlabStore ?first '''' githubHost True providerOf)"
  note explicit = kind_is_sticky [where w = emptyStore and infer = inferNothing
      and reader = gitlabReader and edit = refuseEdit and saver = storeSaved
      and gitKind = "''gitlab''" and hostUrl = gitlabHost and batchMode = True
      and CreateProvider = providerOf and url = gitlabHost and k = "''gitlab''",
      OF emptyStore_wellFormed refl, folded gitlabStore_def]
  then have wf: "wellFormed ?first" and first: "KindOf ?first gitlabHost = Some ''gitlab''"
    by simp_all
  note later = kind_is_sticky [where w = ?first and infer = inferNothing
      and reader = gitlabReader and edit = refuseEdit and saver = storeSaved
      and gitKind = "''''" and hostUrl = gitlabHost and batchMode = True
      and CreateProvider = providerOf and url = gitlabHost and k = "''gitlab''",
      OF wf refl, folded gitlabStore_def]
  with first have second: "KindOf ?second gitlabHost = Some ''gitlab''"
    by simp
  note elsewhere = kind_is_sticky [where w = ?first and infer = inferNothing
      and reader = gitlabReader and edit = refuseEdit and saver = storeSaved
      and gitKind = "''''" and hostUrl = githubHost and batchMode = True
      and CreateProvider = providerOf and url = gitlabHost and k = "''gitlab''",
      OF wf refl, folded gitlabStore_def]
  have upper: "ToUpper ''gitlab'' = ''GITLAB''"
    by (simp add: ToUpper_def upperOf_def)
  have state: "?first =
      \<lparr>config = \<lparr>Servers' = [0], DefaultUsername' = '''', CurrentServer' = '''',
                  PipeLineServer' = '''', PipeLineUsername' = ''''\<rparr>,
       cells = [\<lparr>URL = gitlabHost, Users = [], Name = gitlabHost, Kind = ''gitlab'',
                 CurrentUser = ''''\<rparr>],
       prompts = 0\<rparr>"
    by (simp add: CreateProviderForURL_def gitlabStore_def pointerStore_def GetOrCreateServer_def
        GetOrCreateServerName_def GetServer_def FindUserAuths'_def setKind_def inferNothing_def
        emptyStore_def gitlabReader_def IsInvalid_def upper Let_def)
  have unknown: "KindOf ?first githubHost = None"
    unfolding state by (simp add: KindOf_def GetServer_def gitlabHost_def githubHost_def)
  have hosts: "gitlabHost \<noteq> githubHost"
    by (simp add: gitlabHost_def githubHost_def)
  from elsewhere first hosts have third: "KindOf ?other gitlabHost = Some ''gitlab''"
    by simp
  from elsewhere unknown have fourth: "KindOf ?other githubHost = Some ''''"
    by (simp add: inferNothing_def)
  from explicit have "\<exists>s. GetServer ?first gitlabHost = Some s
      \<and> GetOrCreateServer inferNothing ?first gitlabHost = (s, ?first)
      \<and> Kind (cells ?first ! s) = ''gitlab''"
    by simp
  moreover have "GetServer ?first gitlabHost = Some 0"
    unfolding state by (simp add: GetServer_def)
  ultimately have lookup: "GetOrCreateServer inferNothing ?first gitlabHost = (0, ?first)"
    by auto
  have provider: "fst (CreateProviderForURL gitlabStore ?first '''' gitlabHost True providerOf)
       = Inr (\<lparr>URL = gitlabHost, Users = [], Name = gitlabHost, Kind = ''gitlab'', CurrentUser = ''''\<rparr>,
              \<lparr>Username = ''test'', ApiToken = ''secret'', BearerToken = ''''\<rparr>)"
    unfolding state
    by (simp add: CreateProviderForURL_def gitlabStore_def pointerStore_def GetOrCreateServer_def
        GetOrCreateServerName_def GetServer_def FindUserAuths'_def inferNothing_def
        gitlabReader_def IsInvalid_def providerOf_def upper Let_def)
  from first second third fourth lookup provider show ?thesis
    by (intro conjI) assumption+
qed

end
